theory Spec2Isabelle
  imports Complex_Main "HOL-Library.Log_Nat"
begin

section \<open>Python values, errors and the mutable state\<close>

text \<open>
  The model follows \<^verbatim>\<open>model_factory.py\<close>. Exceptions are values of \<open>py_error\<close>;
  a configuration value that may be an integer or a list of integers (kernel size, stride,
  \<open>normalized_shape\<close>) is an \<open>int_or_list\<close>; a padding is a string or such a number.
\<close>

datatype py_error =
  AttributeError | TypeError | IndexError | ZeroDivisionError | OverflowError
  | UnboundLocalError | RuntimeError

datatype int_or_list = IntV int | ListV "int list"

datatype padding_val = PadStr string | PadNum int_or_list

text \<open>
  A Python float is a double-precision number: the pair \<open>(m, e)\<close> stands for \<open>m * 2 ^ e\<close>,
  with \<open>\<bar>m\<bar> \<le> 2 ^ 53\<close> and \<open>- 1074 \<le> e \<le> 971\<close>. \<open>dval\<close> is the number a pair stands for.
\<close>

type_synonym double = "int \<times> int"

definition dval :: "double \<Rightarrow> real" where
  "dval v = of_int (fst v) * 2 ^ nat (snd v) / 2 ^ nat (- snd v)"

text \<open>\<open>\<lfloor>log\<^sub>2 (a / d)\<rfloor>\<close> for positive \<open>a\<close> and \<open>d\<close>, from the bit lengths.\<close>

definition ilog2_quot :: "int \<Rightarrow> int \<Rightarrow> int" where
  "ilog2_quot a d =
     (let g = bitlen a - bitlen d
      in if d * 2 ^ nat g \<le> a * 2 ^ nat (- g) then g else g - 1)"

text \<open>The integer nearest to \<open>num / den\<close>, a tie going to the even one.\<close>

definition round_half_even :: "int \<Rightarrow> int \<Rightarrow> int" where
  "round_half_even num den =
     (let f = num div den; r = num mod den
      in if 2 * r < den then f else if den < 2 * r then f + 1 else if even f then f else f + 1)"

text \<open>
  The double nearest to the quotient \<open>a / d\<close> of two integers, \<open>d\<close> positive: 53
  significant bits, exponent at least \<open>- 1074\<close> (gradual underflow), ties to even;
  \<open>OverflowError\<close> when the rounded quotient reaches \<open>2 ^ 1024\<close>.
\<close>

definition double_of_quot :: "int \<Rightarrow> int \<Rightarrow> py_error + double" where
  "double_of_quot a d =
     (if a = 0 then Inr (0, 0)
      else let e = max (ilog2_quot \<bar>a\<bar> d - 52) (- 1074);
               m = round_half_even (\<bar>a\<bar> * 2 ^ nat (- e)) (d * 2 ^ nat e)
           in if 971 < e \<or> (e = 971 \<and> m = 2 ^ 53) then Inl OverflowError
              else Inr (sgn a * m, e))"

text \<open>The float literals of the source: \<^verbatim>\<open>0.2\<close>, \<^verbatim>\<open>0.0\<close> and \<^verbatim>\<open>1e-6\<close>.\<close>

definition float_0_2 :: double where
  "float_0_2 = (7205759403792794, - 55)"

definition float_0 :: double where
  "float_0 = (0, 0)"

definition float_1em6 :: double where
  "float_1em6 = (4722366482869645, - 72)"

type_synonym shape = "int list"

type_synonym ref = nat

text \<open>
  The \<open>param\<close> object of the factory: a dictionary with attribute access. A key that is
  absent is \<open>None\<close>; reading it raises \<open>AttributeError\<close>. The field \<open>dropout_p\<close> is
  the key \<^verbatim>\<open>p\<close>. For the tag \<^verbatim>\<open>Activation\<close> the parameter is a plain string.
\<close>

record param =
  normalized_shape :: "int_or_list option"
  num_features :: "int option"
  affine :: "bool option"
  in_channels :: "int option"
  out_channels :: "int option"
  kernel_size :: "int_or_list option"
  stride :: "int_or_list option"
  sr_hz :: "int option"
  num_channels :: "int list option"
  padding :: "padding_val option"
  in_features :: "int option"
  out_features :: "int option"
  dropout_p :: "double option"
  start_dim :: "int option"
  dim :: "int option"
  shape :: "int list option"
  keepdim :: "bool option"

datatype pyparam = ParamStr string | ParamDict param

definition empty_param :: param where
  "empty_param =
     \<lparr>normalized_shape = None, num_features = None, affine = None, in_channels = None,
      out_channels = None, kernel_size = None, stride = None, sr_hz = None,
      num_channels = None, padding = None, in_features = None, out_features = None,
      dropout_p = None, start_dim = None, dim = None, shape = None, keepdim = None\<rparr>"

text \<open>What the factory prints.\<close>

datatype message =
  Unknown_module string
  | Only_padding_same pyparam
  | Only_stride_1 pyparam
  | Out_channels_should_equal_in_channels

text \<open>
  The state a call can change: the caller's \<open>param\<close> object, the store of list objects
  (a shape vector is a Python list, passed by reference), and the standard output.
\<close>

record pstate =
  param_obj :: pyparam
  heap :: "ref \<Rightarrow> shape"
  next_ref :: ref
  stdout :: "message list"

type_synonym 'a py = "pstate \<Rightarrow> (py_error + 'a) \<times> pstate"

definition ret :: "'a \<Rightarrow> 'a py" where
  "ret x s = (Inr x, s)"

definition raise :: "py_error \<Rightarrow> 'a py" where
  "raise e s = (Inl e, s)"

definition bnd :: "'a py \<Rightarrow> ('a \<Rightarrow> 'b py) \<Rightarrow> 'b py" where
  "bnd m f s = (case m s of (Inl e, s') \<Rightarrow> (Inl e, s') | (Inr x, s') \<Rightarrow> f x s')"

definition thn :: "unit py \<Rightarrow> 'b py \<Rightarrow> 'b py" where
  "thn m k = bnd m (\<lambda>_. k)"

definition whn :: "bool \<Rightarrow> unit py \<Rightarrow> unit py" where
  "whn c m = (if c then m else ret ())"

definition lift :: "py_error + 'a \<Rightarrow> 'a py" where
  "lift r s = (r, s)"

definition get_param :: "pyparam py" where
  "get_param s = (Inr (param_obj s), s)"

definition getattr :: "(param \<Rightarrow> 'a option) \<Rightarrow> 'a py" where
  "getattr f s =
     (case param_obj s of
        ParamStr _ \<Rightarrow> (Inl AttributeError, s)
      | ParamDict q \<Rightarrow> (case f q of None \<Rightarrow> (Inl AttributeError, s) | Some v \<Rightarrow> (Inr v, s)))"

definition has_key :: "(param \<Rightarrow> 'a option) \<Rightarrow> bool py" where
  "has_key f s =
     (case param_obj s of
        ParamStr _ \<Rightarrow> (Inl AttributeError, s)
      | ParamDict q \<Rightarrow> (Inr (f q \<noteq> None), s))"

definition setattr :: "(param \<Rightarrow> param) \<Rightarrow> unit py" where
  "setattr upd s =
     (case param_obj s of
        ParamStr _ \<Rightarrow> (Inl AttributeError, s)
      | ParamDict q \<Rightarrow> (Inr (), s\<lparr>param_obj := ParamDict (upd q)\<rparr>))"

definition print :: "message \<Rightarrow> unit py" where
  "print m s = (Inr (), s\<lparr>stdout := stdout s @ [m]\<rparr>)"

text \<open>Python indexing: a negative index counts from the end, out of range raises.\<close>

definition py_index :: "nat \<Rightarrow> int \<Rightarrow> nat option" where
  "py_index n i =
     (let j = (if i < 0 then i + int n else i)
      in if 0 \<le> j \<and> j < int n then Some (nat j) else None)"

definition getitem :: "ref \<Rightarrow> int \<Rightarrow> int py" where
  "getitem r i s =
     (case py_index (length (heap s r)) i of
        None \<Rightarrow> (Inl IndexError, s)
      | Some j \<Rightarrow> (Inr (heap s r ! j), s))"

definition setitem :: "ref \<Rightarrow> int \<Rightarrow> int \<Rightarrow> unit py" where
  "setitem r i v s =
     (case py_index (length (heap s r)) i of
        None \<Rightarrow> (Inl IndexError, s)
      | Some j \<Rightarrow> (Inr (), s\<lparr>heap := (heap s)(r := (heap s r)[j := v])\<rparr>))"

definition read_list :: "ref \<Rightarrow> shape py" where
  "read_list r s = (Inr (heap s r), s)"

definition new_list :: "shape \<Rightarrow> ref py" where
  "new_list xs s =
     (Inr (next_ref s), s\<lparr>heap := (heap s)(next_ref s := xs), next_ref := Suc (next_ref s)\<rparr>)"

fun getitems :: "ref \<Rightarrow> int list \<Rightarrow> shape py" where
  "getitems r [] = ret []"
| "getitems r (i # is) = bnd (getitem r i) (\<lambda>v. bnd (getitems r is) (\<lambda>vs. ret (v # vs)))"

definition subscript :: "int_or_list \<Rightarrow> int \<Rightarrow> py_error + int" where
  "subscript v i =
     (case v of
        IntV _ \<Rightarrow> Inl TypeError
      | ListV xs \<Rightarrow> (case py_index (length xs) i of None \<Rightarrow> Inl IndexError | Some j \<Rightarrow> Inr (xs ! j)))"

text \<open>
  Python's \<^verbatim>\<open>/\<close> on two integers is true division: the correctly rounded double of
  the quotient. \<open>dadd_one\<close> is the float addition \<^verbatim>\<open>q + 1\<close>, rounded again.
  \<^verbatim>\<open>np.floor\<close> followed by \<^verbatim>\<open>int\<close> rounds down (\<open>dfloor\<close>), \<^verbatim>\<open>int\<close> alone truncates
  towards zero (\<open>dtrunc\<close>); both are exact.
\<close>

definition truediv :: "int \<Rightarrow> int_or_list \<Rightarrow> py_error + double" where
  "truediv a b =
     (case b of
        ListV _ \<Rightarrow> Inl TypeError
      | IntV d \<Rightarrow>
          if d = 0 then Inl ZeroDivisionError
          else if 0 < d then double_of_quot a d else double_of_quot (- a) (- d))"

definition dadd_one :: "double \<Rightarrow> py_error + double" where
  "dadd_one v =
     double_of_quot (fst v * 2 ^ nat (snd v) + 2 ^ nat (- snd v)) (2 ^ nat (- snd v))"

definition dfloor :: "double \<Rightarrow> int" where
  "dfloor v = (fst v * 2 ^ nat (snd v)) div 2 ^ nat (- snd v)"

definition dtrunc :: "double \<Rightarrow> int" where
  "dtrunc v = sgn (fst v) * ((\<bar>fst v\<bar> * 2 ^ nat (snd v)) div 2 ^ nat (- snd v))"

text \<open>\<^verbatim>\<open>int(np.floor(a / b))\<close> and \<^verbatim>\<open>int(a / b)\<close>.\<close>

definition py_floor_div :: "int \<Rightarrow> int_or_list \<Rightarrow> py_error + int" where
  "py_floor_div a b = (case truediv a b of Inl e \<Rightarrow> Inl e | Inr q \<Rightarrow> Inr (dfloor q))"

definition py_trunc_div :: "int \<Rightarrow> int_or_list \<Rightarrow> py_error + int" where
  "py_trunc_div a b = (case truediv a b of Inl e \<Rightarrow> Inl e | Inr q \<Rightarrow> Inr (dtrunc q))"

text \<open>\<^verbatim>\<open>int(np.floor( (in_L-k)/s+1 ))\<close>.\<close>

definition f_get_next_size :: "int \<Rightarrow> int_or_list \<Rightarrow> int_or_list \<Rightarrow> py_error + int" where
  "f_get_next_size in_L k s =
     (case k of
        ListV _ \<Rightarrow> Inl TypeError
      | IntV kv \<Rightarrow>
          (case truediv (in_L - kv) s of
             Inl e \<Rightarrow> Inl e
           | Inr q \<Rightarrow> (case dadd_one q of Inl e \<Rightarrow> Inl e | Inr y \<Rightarrow> Inr (dfloor y))))"

section \<open>Layers of the numeric library and the classes of this file\<close>

text \<open>
  A \<open>layer\<close> is an object of the external library (\<^verbatim>\<open>torch.nn\<close>), recorded with
  the arguments this file passes to its constructor and the defaults that decide the
  shape of its result (padding, dilation, groups). The constructors' own validation of
  their arguments is not part of the model.
  \<^item> \<open>LayerNorm normalized_shape eps\<close>, \<open>eps\<close> being \<open>None\<close> when it is not passed
  \<^item> \<open>Conv1d in out kernel stride padding dilation\<close>
  \<^item> \<open>Conv2d in out kernel stride padding groups\<close>
  \<^item> \<open>ConvTranspose2d in out kernel stride\<close>
  \<^item> \<open>BatchNorm1d num_features affine\<close>
\<close>

datatype layer =
  LayerNorm int_or_list "double option"
  | BatchNorm1d int bool
  | BatchNorm2d int
  | Conv1d int int int_or_list int_or_list padding_val int_or_list
  | Conv2d int int int_or_list int_or_list padding_val int
  | ConvTranspose2d int int int_or_list int_or_list
  | MaxPool1d int_or_list int_or_list
  | MaxPool2d int_or_list int_or_list
  | Linear int int
  | Sigmoid | Softmax | ReLU | LeakyReLU | PReLU | GELU
  | Dropout double
  | Flatten int
  | Identity

text \<open>
  A forward pass is recorded as the expression it computes on its input: which layers
  and tensor operations are applied, in which order. \<open>TSlice x d a b\<close> is the slice
  \<^verbatim>\<open>a:b\<close> along dimension \<open>d\<close>; \<open>TIAdd\<close> is the in-place \<^verbatim>\<open>+=\<close>; \<open>ScalarParam\<close> is a
  scalar parameter tensor and \<open>PyScalar\<close> a Python number; \<open>TRand x\<close> is
  \<^verbatim>\<open>torch.rand((x.shape[0],) + (1,) * (x.ndim - 1))\<close>.
\<close>

datatype texpr =
  Input
  | ScalarParam
  | PyScalar
  | TRand texpr
  | TFloor texpr
  | Raise py_error
  | Apply layer texpr
  | TAdd texpr texpr
  | TIAdd texpr texpr
  | TSub texpr texpr
  | TMul texpr texpr
  | TDiv texpr texpr
  | TSlice texpr nat "int option" "int option"
  | TPermute texpr "int list"
  | TSum texpr int bool
  | TMean texpr int bool
  | TMaxValues texpr int bool
  | TSoftmax texpr int
  | TExp texpr
  | TAbs texpr
  | TSqueeze texpr int

subsection \<open>ConvNeXtBlock and StochasticDepth\<close>

record StochasticDepth =
  drop_prob :: double

datatype drop_path_module = DropIdentity layer | DropStochastic StochasticDepth

record ConvNeXtBlock =
  cn_dwconv :: layer
  cn_norm :: layer
  cn_pwconv1 :: layer
  cn_act :: layer
  cn_pwconv2 :: layer
  cn_drop_path :: drop_path_module

definition ConvNeXtBlock_init :: "int \<Rightarrow> int \<Rightarrow> int \<Rightarrow> double \<Rightarrow> ConvNeXtBlock" where
  "ConvNeXtBlock_init ic oc ksz drop_path =
     \<lparr>cn_dwconv = Conv2d ic ic (IntV ksz) (IntV 1) (PadNum (IntV (ksz div 2))) ic,
      cn_norm = LayerNorm (IntV ic) (Some float_1em6),
      cn_pwconv1 = Linear ic (4 * ic),
      cn_act = GELU,
      cn_pwconv2 = Linear (4 * ic) oc,
      cn_drop_path =
        (if dval drop_path = 0 then DropIdentity Identity
         else DropStochastic \<lparr>drop_prob = drop_path\<rparr>)\<rparr>"

text \<open>
  The forward passes take the flag \<^verbatim>\<open>self.training\<close> of the module, one flag for a
  module and all its parts.
\<close>

definition StochasticDepth_forward :: "bool \<Rightarrow> StochasticDepth \<Rightarrow> texpr \<Rightarrow> texpr" where
  "StochasticDepth_forward training sd x =
     (if \<not> training \<or> dval (drop_prob sd) = 0 then x
      else (let keep_prob = PyScalar;
                random_tensor = TAdd keep_prob (TRand x);
                binary_mask = TFloor random_tensor
            in TMul (TDiv x keep_prob) binary_mask))"

definition drop_path_forward :: "bool \<Rightarrow> drop_path_module \<Rightarrow> texpr \<Rightarrow> texpr" where
  "drop_path_forward training d x =
     (case d of
        DropIdentity l \<Rightarrow> Apply l x
      | DropStochastic sd \<Rightarrow> StochasticDepth_forward training sd x)"

definition ConvNeXtBlock_forward :: "bool \<Rightarrow> ConvNeXtBlock \<Rightarrow> texpr \<Rightarrow> texpr" where
  "ConvNeXtBlock_forward training b x =
     (let residual = x;
          x1 = Apply (cn_dwconv b) x;
          x2 = TPermute x1 [0, 2, 3, 1];
          x3 = Apply (cn_norm b) x2;
          x4 = Apply (cn_pwconv1 b) x3;
          x5 = Apply (cn_act b) x4;
          x6 = Apply (cn_pwconv2 b) x5;
          x7 = TPermute x6 [0, 3, 1, 2]
      in TAdd (drop_path_forward training (cn_drop_path b) x7) residual)"

subsection \<open>Chomp1d, TemporalBlock, TemporalConvNet\<close>

record Chomp1d =
  chomp_size :: int

text \<open>\<^verbatim>\<open>x[:, :, :-self.chomp_size]\<close>: a slice of the third dimension with stop \<open>- chomp_size\<close>.\<close>

definition Chomp1d_forward :: "Chomp1d \<Rightarrow> texpr \<Rightarrow> texpr" where
  "Chomp1d_forward c x = TSlice x 2 None (Some (- chomp_size c))"

datatype seq_item = TorchItem layer | ChompItem Chomp1d

definition seq_item_forward :: "seq_item \<Rightarrow> texpr \<Rightarrow> texpr" where
  "seq_item_forward it x = (case it of TorchItem l \<Rightarrow> Apply l x | ChompItem c \<Rightarrow> Chomp1d_forward c x)"

definition Sequential_forward :: "seq_item list \<Rightarrow> texpr \<Rightarrow> texpr" where
  "Sequential_forward items x = foldl (\<lambda>y it. seq_item_forward it y) x items"

text \<open>\<^verbatim>\<open>weight_norm\<close> reparametrises the weight of a layer and returns the layer.\<close>

definition weight_norm :: "layer \<Rightarrow> layer" where
  "weight_norm l = l"

record TemporalBlock =
  tb_conv1 :: layer
  tb_chomp1 :: Chomp1d
  tb_relu1 :: layer
  tb_dropout1 :: layer
  tb_conv2 :: layer
  tb_chomp2 :: Chomp1d
  tb_relu2 :: layer
  tb_dropout2 :: layer
  tb_net :: "seq_item list"
  tb_downsample :: "layer option"
  tb_relu :: layer

definition TemporalBlock_init ::
  "int \<Rightarrow> int \<Rightarrow> int \<Rightarrow> int \<Rightarrow> int \<Rightarrow> int \<Rightarrow> double \<Rightarrow> TemporalBlock" where
  "TemporalBlock_init n_inputs n_outputs ksz strd dilation pad dropout =
     (let conv1 = weight_norm (Conv1d n_inputs n_outputs (IntV ksz) (IntV strd)
                     (PadNum (IntV pad)) (IntV dilation));
          chomp1 = \<lparr>chomp_size = pad\<rparr>;
          relu1 = ReLU;
          dropout1 = Dropout dropout;
          conv2 = weight_norm (Conv1d n_outputs n_outputs (IntV ksz) (IntV strd)
                     (PadNum (IntV pad)) (IntV dilation));
          chomp2 = \<lparr>chomp_size = pad\<rparr>;
          relu2 = ReLU;
          dropout2 = Dropout dropout
      in \<lparr>tb_conv1 = conv1, tb_chomp1 = chomp1, tb_relu1 = relu1, tb_dropout1 = dropout1,
          tb_conv2 = conv2, tb_chomp2 = chomp2, tb_relu2 = relu2, tb_dropout2 = dropout2,
          tb_net = [TorchItem conv1, ChompItem chomp1, TorchItem relu1, TorchItem dropout1,
                    TorchItem conv2, ChompItem chomp2, TorchItem relu2, TorchItem dropout2],
          tb_downsample =
            (if n_inputs \<noteq> n_outputs
             then Some (Conv1d n_inputs n_outputs (IntV 1) (IntV 1) (PadNum (IntV 0)) (IntV 1))
             else None),
          tb_relu = ReLU\<rparr>)"

definition TemporalBlock_forward :: "TemporalBlock \<Rightarrow> texpr \<Rightarrow> texpr" where
  "TemporalBlock_forward b x =
     (let out = Sequential_forward (tb_net b) x;
          res = (case tb_downsample b of None \<Rightarrow> x | Some d \<Rightarrow> Apply d x)
      in Apply (tb_relu b) (TAdd out res))"

record TemporalConvNet =
  network :: "TemporalBlock list"

text \<open>The loop \<^verbatim>\<open>for i in range(num_levels)\<close>, appending one block per level.\<close>

definition TemporalConvNet_init :: "int \<Rightarrow> int list \<Rightarrow> int \<Rightarrow> double \<Rightarrow> TemporalConvNet" where
  "TemporalConvNet_init num_inputs channels ksz dropout =
     (let num_levels = length channels;
          layers = foldl
            (\<lambda>layers i.
               let dilation_size = 2 ^ i;
                   ic = (if i = 0 then num_inputs else channels ! (i - 1));
                   oc = channels ! i
               in layers @ [TemporalBlock_init ic oc ksz 1 dilation_size
                              ((ksz - 1) * dilation_size) dropout])
            [] [0..<num_levels]
      in \<lparr>network = layers\<rparr>)"

definition TemporalConvNet_forward :: "TemporalConvNet \<Rightarrow> texpr \<Rightarrow> texpr" where
  "TemporalConvNet_forward t x = foldl (\<lambda>y b. TemporalBlock_forward b y) x (network t)"

subsection \<open>ResidualBlock and depthwise_separable_conv\<close>

record ResidualBlock =
  rb_conv1 :: "layer list"
  rb_conv2 :: "layer list"
  rb_downsample :: bool
  rb_conv_ds :: "layer option"
  rb_relu :: layer
  rb_out_channels :: int

definition ResidualBlock_init :: "int \<Rightarrow> int \<Rightarrow> int_or_list \<Rightarrow> int \<Rightarrow> ResidualBlock" where
  "ResidualBlock_init ic oc ksz strd =
     \<lparr>rb_conv1 = [Conv2d ic oc ksz (IntV strd) (PadStr ''same'') 1, BatchNorm2d oc, ReLU],
      rb_conv2 = [Conv2d oc oc ksz (IntV 1) (PadStr ''same'') 1, BatchNorm2d oc],
      rb_downsample = (ic \<noteq> oc),
      rb_conv_ds =
        (if ic \<noteq> oc then Some (Conv2d ic oc (IntV 1) (IntV 1) (PadStr ''same'') 1) else None),
      rb_relu = ReLU,
      rb_out_channels = oc\<rparr>"

definition layers_forward :: "layer list \<Rightarrow> texpr \<Rightarrow> texpr" where
  "layers_forward ls x = foldl (\<lambda>y l. Apply l y) x ls"

definition ResidualBlock_forward :: "ResidualBlock \<Rightarrow> texpr \<Rightarrow> texpr" where
  "ResidualBlock_forward b x =
     (let residual = x;
          out1 = layers_forward (rb_conv1 b) x;
          out2 = layers_forward (rb_conv2 b) out1;
          residual' =
            (if rb_downsample b
             then (case rb_conv_ds b of None \<Rightarrow> Raise AttributeError | Some d \<Rightarrow> Apply d x)
             else residual);
          out3 = TIAdd out2 residual'
      in Apply (rb_relu b) out3)"

record depthwise_separable_conv =
  ds_depthwise :: layer
  ds_pointwise :: layer

definition depthwise_separable_conv_init ::
  "int \<Rightarrow> int \<Rightarrow> int \<Rightarrow> int_or_list \<Rightarrow> padding_val \<Rightarrow> depthwise_separable_conv" where
  "depthwise_separable_conv_init nin kernels_per_layer nout ksz pad =
     \<lparr>ds_depthwise = Conv2d nin (nin * kernels_per_layer) ksz (IntV 1) pad nin,
      ds_pointwise = Conv2d (nin * kernels_per_layer) nout (IntV 1) (IntV 1) (PadNum (IntV 0)) 1\<rparr>"

definition depthwise_separable_conv_forward :: "depthwise_separable_conv \<Rightarrow> texpr \<Rightarrow> texpr" where
  "depthwise_separable_conv_forward c x = Apply (ds_pointwise c) (Apply (ds_depthwise c) x)"

subsection \<open>The small wrapper classes and the modules the factory returns\<close>

text \<open>
  \<open>SincConv_fast\<close> is imported from another file (\<^verbatim>\<open>model_module\<close>): only the
  arguments of its constructor are recorded, and it has no forward pass here.
\<close>

datatype module =
  Torch layer
  | SincConv_fast int int int_or_list int_or_list int
  | TemporalConvNet_obj TemporalConvNet
  | ResidualBlock_obj ResidualBlock
  | ConvNeXtBlock_obj ConvNeXtBlock
  | depthwise_separable_conv_obj depthwise_separable_conv
  | nnAbs
  | nnMean int bool
  | nnMax int bool
  | nnSqueeze int
  | nnPermute "int list"
  | nnBatchNorm1dT layer
  | nnEmpty
  | nnSoftmaxWeight int
  | nnAutoPoolWeight
  | nnAutoPoolWeightSplit int

definition f_autopool_weights :: "texpr \<Rightarrow> texpr \<Rightarrow> texpr" where
  "f_autopool_weights data autopool_param =
     (let x = TMul data autopool_param;
          max_values = TMaxValues x 3 True;
          softmax = TExp (TSub x max_values);
          weights = TDiv softmax (TSum softmax 3 True)
      in weights)"

text \<open>\<^verbatim>\<open>int(self.nb_channel/2)\<close>, which raises when the quotient is too large for a float.\<close>

definition half_channels :: "int \<Rightarrow> py_error + int" where
  "half_channels nb_channel = py_trunc_div nb_channel (IntV 2)"

definition nnSoftmaxWeight_forward :: "int \<Rightarrow> texpr \<Rightarrow> texpr" where
  "nnSoftmaxWeight_forward nb_channel X =
     (case half_channels nb_channel of
        Inl e \<Rightarrow> Raise e
      | Inr h \<Rightarrow>
          (let weights = TSoftmax (TSlice X 1 (Some h) None) 3
           in TSum (TMul (TSlice X 1 None (Some h)) weights) 3 True))"

definition nnAutoPoolWeight_forward :: "texpr \<Rightarrow> texpr" where
  "nnAutoPoolWeight_forward X =
     (let weights = f_autopool_weights X ScalarParam
      in TSum (TMul X weights) 3 True)"

definition nnAutoPoolWeightSplit_forward :: "int \<Rightarrow> texpr \<Rightarrow> texpr" where
  "nnAutoPoolWeightSplit_forward nb_channel X =
     (case half_channels nb_channel of
        Inl e \<Rightarrow> Raise e
      | Inr h \<Rightarrow>
          (let weights = f_autopool_weights (TSlice X 1 (Some h) None) ScalarParam
           in TSum (TMul (TSlice X 1 None (Some h)) weights) 3 True))"

definition nnBatchNorm1dT_forward :: "layer \<Rightarrow> texpr \<Rightarrow> texpr" where
  "nnBatchNorm1dT_forward l X = TPermute (Apply l (TPermute X [0, 2, 1])) [0, 2, 1]"

definition forward :: "bool \<Rightarrow> module \<Rightarrow> texpr \<Rightarrow> texpr option" where
  "forward training m X =
     (case m of
        Torch l \<Rightarrow> Some (Apply l X)
      | SincConv_fast _ _ _ _ _ \<Rightarrow> None
      | TemporalConvNet_obj t \<Rightarrow> Some (TemporalConvNet_forward t X)
      | ResidualBlock_obj b \<Rightarrow> Some (ResidualBlock_forward b X)
      | ConvNeXtBlock_obj b \<Rightarrow> Some (ConvNeXtBlock_forward training b X)
      | depthwise_separable_conv_obj c \<Rightarrow> Some (depthwise_separable_conv_forward c X)
      | nnAbs \<Rightarrow> Some (TAbs X)
      | nnMean d k \<Rightarrow> Some (TMean X d k)
      | nnMax d k \<Rightarrow> Some (TMaxValues X d k)
      | nnSqueeze d \<Rightarrow> Some (TSqueeze X d)
      | nnPermute sh \<Rightarrow> Some (TPermute X sh)
      | nnBatchNorm1dT l \<Rightarrow> Some (nnBatchNorm1dT_forward l X)
      | nnEmpty \<Rightarrow> Some X
      | nnSoftmaxWeight nb \<Rightarrow> Some (nnSoftmaxWeight_forward nb X)
      | nnAutoPoolWeight \<Rightarrow> Some (nnAutoPoolWeight_forward X)
      | nnAutoPoolWeightSplit nb \<Rightarrow> Some (nnAutoPoolWeightSplit_forward nb X))"

section \<open>The factory\<close>

definition f_get_activation :: "pyparam \<Rightarrow> py_error + module" where
  "f_get_activation activation_type =
     (if activation_type = ParamStr ''Sigmoid'' then Inr (Torch Sigmoid)
      else if activation_type = ParamStr ''Softmax'' then Inr (Torch Softmax)
      else if activation_type = ParamStr ''ReLU'' then Inr (Torch ReLU)
      else if activation_type = ParamStr ''LeakyReLU'' then Inr (Torch LeakyReLU)
      else if activation_type = ParamStr ''PReLU'' then Inr (Torch PReLU)
      else Inl UnboundLocalError)"

text \<open>
  One definition per branch of \<^verbatim>\<open>f_parse_component\<close>, in the order of the source.
  Each ends with the common \<^verbatim>\<open>return module, current_input_dim\<close>.
  \<open>fill_in_channels\<close> is the statement
  \<^verbatim>\<open>if param.in_channels==-1: param.in_channels=current_input_dim[1]\<close>.
\<close>

definition fill_in_channels :: "ref \<Rightarrow> unit py" where
  "fill_in_channels current_input_dim =
     bnd (getattr in_channels) (\<lambda>ic.
       whn (ic = - 1)
         (bnd (getitem current_input_dim 1) (\<lambda>c. setattr (\<lambda>q. q\<lparr>in_channels := Some c\<rparr>))))"

definition fill_num_features :: "ref \<Rightarrow> int \<Rightarrow> unit py" where
  "fill_num_features current_input_dim i =
     bnd (getattr num_features) (\<lambda>nf.
       whn (nf = - 1)
         (bnd (getitem current_input_dim i) (\<lambda>c. setattr (\<lambda>q. q\<lparr>num_features := Some c\<rparr>))))"

definition fill_normalized_shape :: "ref \<Rightarrow> unit py" where
  "fill_normalized_shape current_input_dim =
     bnd (getattr normalized_shape) (\<lambda>ns.
       whn (ns = IntV (- 1))
         (bnd (read_list current_input_dim) (\<lambda>xs.
            setattr (\<lambda>q. q\<lparr>normalized_shape := Some (ListV (drop 1 xs))\<rparr>))))"

definition parse_LayerNorm :: "ref \<Rightarrow> (module \<times> ref) py" where
  "parse_LayerNorm current_input_dim =
     thn (fill_normalized_shape current_input_dim)
     (bnd (getattr normalized_shape) (\<lambda>ns.
      ret (Torch (LayerNorm ns None), current_input_dim)))"

definition parse_BatchNorm1d :: "ref \<Rightarrow> (module \<times> ref) py" where
  "parse_BatchNorm1d current_input_dim =
     thn (fill_num_features current_input_dim (- 1))
     (bnd (has_key affine) (\<lambda>present.
      thn (whn (\<not> present) (setattr (\<lambda>q. q\<lparr>affine := Some True\<rparr>)))
     (bnd (getattr num_features) (\<lambda>nf.
      bnd (getattr affine) (\<lambda>af.
      ret (Torch (BatchNorm1d nf af), current_input_dim))))))"

definition parse_BatchNorm1dT :: "ref \<Rightarrow> (module \<times> ref) py" where
  "parse_BatchNorm1dT current_input_dim =
     thn (fill_num_features current_input_dim (- 1))
     (bnd (getattr num_features) (\<lambda>nf.
      ret (nnBatchNorm1dT (BatchNorm1d nf True), current_input_dim)))"

definition parse_BatchNorm2d :: "ref \<Rightarrow> (module \<times> ref) py" where
  "parse_BatchNorm2d current_input_dim =
     thn (fill_num_features current_input_dim 1)
     (bnd (getattr num_features) (\<lambda>nf.
      ret (Torch (BatchNorm2d nf), current_input_dim)))"

text \<open>
  \<^verbatim>\<open>current_input_dim[i] = f_get_next_size(current_input_dim[i], k, s)\<close>, the arguments
  evaluated from left to right.
\<close>

definition set_next_size :: "ref \<Rightarrow> int \<Rightarrow> int_or_list py \<Rightarrow> int_or_list py \<Rightarrow> unit py" where
  "set_next_size current_input_dim i kern strd =
     bnd (getitem current_input_dim i) (\<lambda>in_L.
     bnd kern (\<lambda>k.
     bnd strd (\<lambda>s.
     bnd (lift (f_get_next_size in_L k s)) (\<lambda>v.
     setitem current_input_dim i v))))"

definition attr_item :: "(param \<Rightarrow> int_or_list option) \<Rightarrow> int \<Rightarrow> int_or_list py" where
  "attr_item f i = bnd (getattr f) (\<lambda>v. bnd (lift (subscript v i)) (\<lambda>x. ret (IntV x)))"

definition parse_SincNet :: "ref \<Rightarrow> (module \<times> ref) py" where
  "parse_SincNet current_input_dim =
     thn (fill_in_channels current_input_dim)
     (bnd (getattr in_channels) (\<lambda>ic.
      bnd (getattr out_channels) (\<lambda>oc.
      bnd (getattr kernel_size) (\<lambda>ks.
      bnd (getattr stride) (\<lambda>st.
      bnd (getattr sr_hz) (\<lambda>sr.
      thn (bnd (getattr out_channels) (setitem current_input_dim 1))
     (thn (set_next_size current_input_dim 2 (getattr kernel_size) (getattr stride))
     (ret (SincConv_fast ic oc ks st sr, current_input_dim)))))))))"

definition parse_Conv1d :: "ref \<Rightarrow> (module \<times> ref) py" where
  "parse_Conv1d current_input_dim =
     thn (fill_in_channels current_input_dim)
     (bnd (getattr in_channels) (\<lambda>ic.
      bnd (getattr out_channels) (\<lambda>oc.
      bnd (getattr kernel_size) (\<lambda>ks.
      bnd (getattr stride) (\<lambda>st.
      thn (bnd (getattr out_channels) (setitem current_input_dim 1))
     (thn (set_next_size current_input_dim 2 (getattr kernel_size) (getattr stride))
     (ret (Torch (Conv1d ic oc ks st (PadNum (IntV 0)) (IntV 1)), current_input_dim))))))))"

definition parse_Conv1dTCN :: "ref \<Rightarrow> (module \<times> ref) py" where
  "parse_Conv1dTCN current_input_dim =
     thn (fill_in_channels current_input_dim)
     (bnd (getattr in_channels) (\<lambda>ic.
      bnd (getattr num_channels) (\<lambda>nc.
      bnd (getattr num_channels) (\<lambda>nc'.
      bnd (lift (subscript (ListV nc') (- 1))) (\<lambda>c.
      thn (setitem current_input_dim 1 c)
     (ret (TemporalConvNet_obj (TemporalConvNet_init ic nc 2 float_0_2), current_input_dim)))))))"

definition fill_padding :: "unit py" where
  "fill_padding =
     bnd (has_key padding) (\<lambda>present.
       whn (\<not> present) (setattr (\<lambda>q. q\<lparr>padding := Some (PadStr ''valid'')\<rparr>)))"

definition set_spatial_sizes :: "ref \<Rightarrow> unit py" where
  "set_spatial_sizes current_input_dim =
     bnd (getattr padding) (\<lambda>pd.
       whn (pd \<noteq> PadStr ''same'')
         (thn (set_next_size current_input_dim 2 (attr_item kernel_size 0) (attr_item stride 0))
              (set_next_size current_input_dim 3 (attr_item kernel_size 1) (attr_item stride 1))))"

definition parse_Conv2d :: "ref \<Rightarrow> (module \<times> ref) py" where
  "parse_Conv2d current_input_dim =
     thn (fill_in_channels current_input_dim)
     (thn fill_padding
     (bnd (getattr in_channels) (\<lambda>ic.
      bnd (getattr out_channels) (\<lambda>oc.
      bnd (getattr kernel_size) (\<lambda>ks.
      bnd (getattr stride) (\<lambda>st.
      bnd (getattr padding) (\<lambda>pd.
      thn (bnd (getattr out_channels) (setitem current_input_dim 1))
     (thn (set_spatial_sizes current_input_dim)
     (ret (Torch (Conv2d ic oc ks st pd 1), current_input_dim))))))))))"

definition parse_Conv2dDS :: "ref \<Rightarrow> (module \<times> ref) py" where
  "parse_Conv2dDS current_input_dim =
     thn (fill_in_channels current_input_dim)
     (thn fill_padding
     (bnd (getattr in_channels) (\<lambda>ic.
      bnd (getattr out_channels) (\<lambda>oc.
      bnd (getattr kernel_size) (\<lambda>ks.
      bnd (getattr padding) (\<lambda>pd.
      thn (bnd (getattr out_channels) (setitem current_input_dim 1))
     (thn (set_spatial_sizes current_input_dim)
     (ret (depthwise_separable_conv_obj (depthwise_separable_conv_init ic 1 oc ks pd),
           current_input_dim)))))))))"

definition warn_padding_stride :: "unit py" where
  "warn_padding_stride =
     bnd (getattr padding) (\<lambda>pd.
     thn (whn (pd \<noteq> PadStr ''same'') (bnd get_param (\<lambda>q. print (Only_padding_same q))))
     (bnd (getattr stride) (\<lambda>st.
      whn (st \<noteq> IntV 1) (bnd get_param (\<lambda>q. print (Only_stride_1 q))))))"

definition parse_Conv2dRes :: "ref \<Rightarrow> (module \<times> ref) py" where
  "parse_Conv2dRes current_input_dim =
     thn (fill_in_channels current_input_dim)
     (thn warn_padding_stride
     (bnd (getattr in_channels) (\<lambda>ic.
      bnd (getattr out_channels) (\<lambda>oc.
      bnd (getattr kernel_size) (\<lambda>ks.
      thn (bnd (getattr out_channels) (setitem current_input_dim 1))
     (ret (ResidualBlock_obj (ResidualBlock_init ic oc ks 1), current_input_dim)))))))"

definition parse_Conv2dNext :: "ref \<Rightarrow> (module \<times> ref) py" where
  "parse_Conv2dNext current_input_dim =
     thn (fill_in_channels current_input_dim)
     (thn (bnd (getattr out_channels) (\<lambda>oc.
           bnd (getattr in_channels) (\<lambda>ic.
           whn (oc \<noteq> ic) (print Out_channels_should_equal_in_channels))))
     (thn warn_padding_stride
     (bnd (getattr in_channels) (\<lambda>ic.
      bnd (getattr out_channels) (\<lambda>oc.
      thn (bnd (getattr out_channels) (setitem current_input_dim 1))
     (ret (ConvNeXtBlock_obj (ConvNeXtBlock_init ic oc 7 float_0), current_input_dim)))))))"

text \<open>\<^verbatim>\<open>current_input_dim[i] *= param.stride[j]\<close>.\<close>

definition scale_item :: "ref \<Rightarrow> int \<Rightarrow> int py \<Rightarrow> unit py" where
  "scale_item current_input_dim i factor =
     bnd (getitem current_input_dim i) (\<lambda>v.
     bnd factor (\<lambda>f. setitem current_input_dim i (v * f)))"

definition parse_ConvTranspose2d :: "ref \<Rightarrow> (module \<times> ref) py" where
  "parse_ConvTranspose2d current_input_dim =
     thn (fill_in_channels current_input_dim)
     (bnd (getattr in_channels) (\<lambda>ic.
      bnd (getattr out_channels) (\<lambda>oc.
      bnd (getattr kernel_size) (\<lambda>ks.
      bnd (getattr stride) (\<lambda>st.
      thn (bnd (getattr out_channels) (setitem current_input_dim 1))
     (thn (scale_item current_input_dim 2
             (bnd (getattr stride) (\<lambda>v. lift (subscript v 0))))
     (thn (scale_item current_input_dim 3
             (bnd (getattr stride) (\<lambda>v. lift (subscript v 1))))
     (ret (Torch (ConvTranspose2d ic oc ks st), current_input_dim)))))))))"

definition fill_stride :: "unit py" where
  "fill_stride =
     bnd (has_key stride) (\<lambda>present.
       whn (\<not> present)
         (bnd (getattr kernel_size) (\<lambda>ks. setattr (\<lambda>q. q\<lparr>stride := Some ks\<rparr>))))"

text \<open>\<^verbatim>\<open>current_input_dim[i] = int(np.floor(current_input_dim[i]/k))\<close>.\<close>

definition set_pooled_size :: "ref \<Rightarrow> int \<Rightarrow> int_or_list py \<Rightarrow> unit py" where
  "set_pooled_size current_input_dim i kern =
     bnd (getitem current_input_dim i) (\<lambda>v.
     bnd kern (\<lambda>k.
     bnd (lift (py_floor_div v k)) (\<lambda>q.
     setitem current_input_dim i q)))"

definition parse_MaxPool1d :: "ref \<Rightarrow> (module \<times> ref) py" where
  "parse_MaxPool1d current_input_dim =
     thn fill_stride
     (bnd (getattr kernel_size) (\<lambda>ks.
      bnd (getattr stride) (\<lambda>st.
      thn (set_pooled_size current_input_dim 2 (getattr kernel_size))
     (ret (Torch (MaxPool1d ks st), current_input_dim)))))"

definition parse_MaxPool2d :: "ref \<Rightarrow> (module \<times> ref) py" where
  "parse_MaxPool2d current_input_dim =
     thn fill_stride
     (bnd (getattr kernel_size) (\<lambda>ks.
      bnd (getattr stride) (\<lambda>st.
      thn (set_pooled_size current_input_dim 2 (attr_item kernel_size 0))
     (thn (set_pooled_size current_input_dim 3 (attr_item kernel_size 1))
     (ret (Torch (MaxPool2d ks st), current_input_dim))))))"

definition fill_in_features :: "ref \<Rightarrow> unit py" where
  "fill_in_features current_input_dim =
     bnd (getattr in_features) (\<lambda>n_in.
       whn (n_in = - 1)
         (bnd (getitem current_input_dim (- 1)) (\<lambda>c. setattr (\<lambda>q. q\<lparr>in_features := Some c\<rparr>))))"

definition parse_Linear :: "ref \<Rightarrow> (module \<times> ref) py" where
  "parse_Linear current_input_dim =
     thn (fill_in_features current_input_dim)
     (bnd (getattr in_features) (\<lambda>n_in.
      bnd (getattr out_features) (\<lambda>n_out.
      thn (bnd (getattr out_features) (setitem current_input_dim (- 1)))
     (ret (Torch (Linear n_in n_out), current_input_dim)))))"

definition parse_Activation :: "ref \<Rightarrow> (module \<times> ref) py" where
  "parse_Activation current_input_dim =
     bnd get_param (\<lambda>q.
     bnd (lift (f_get_activation q)) (\<lambda>m.
     ret (m, current_input_dim)))"

definition parse_Dropout :: "ref \<Rightarrow> (module \<times> ref) py" where
  "parse_Dropout current_input_dim =
     bnd (getattr dropout_p) (\<lambda>pr. ret (Torch (Dropout pr), current_input_dim))"

definition parse_Flatten :: "ref \<Rightarrow> (module \<times> ref) py" where
  "parse_Flatten current_input_dim =
     bnd (getattr start_dim) (\<lambda>sd.
     bnd (getitem current_input_dim 0) (\<lambda>d0.
     bnd (getitem current_input_dim 1) (\<lambda>d1.
     bnd (getitem current_input_dim 2) (\<lambda>d2.
     bnd (new_list [d0, d1 * d2]) (\<lambda>r.
     ret (Torch (Flatten sd), r))))))"

definition parse_Squeeze :: "ref \<Rightarrow> (module \<times> ref) py" where
  "parse_Squeeze current_input_dim =
     bnd (getattr dim) (\<lambda>d.
     bnd (read_list current_input_dim) (\<lambda>xs.
     bnd (new_list (filter (\<lambda>c. c > 1) xs)) (\<lambda>r.
     ret (nnSqueeze d, r))))"

definition parse_Permute :: "ref \<Rightarrow> (module \<times> ref) py" where
  "parse_Permute current_input_dim =
     bnd (getattr shape) (\<lambda>sh.
     bnd (getattr shape) (\<lambda>sh'.
     bnd (getitems current_input_dim sh') (\<lambda>xs.
     bnd (new_list xs) (\<lambda>r.
     ret (nnPermute sh, r)))))"

definition fill_keepdim :: "unit py" where
  "fill_keepdim =
     bnd (has_key keepdim) (\<lambda>present.
       whn (\<not> present) (setattr (\<lambda>q. q\<lparr>keepdim := Some False\<rparr>)))"

text \<open>
  \<^verbatim>\<open>if param.keepdim is False: current_input_dim = [current_input_dim[0], current_input_dim[1]]\<close>:
  the result is the reference the branch returns.
\<close>

definition first_two_unless_keepdim :: "ref \<Rightarrow> ref py" where
  "first_two_unless_keepdim current_input_dim =
     bnd (getattr keepdim) (\<lambda>kd.
       if kd = False
       then bnd (getitem current_input_dim 0) (\<lambda>d0.
            bnd (getitem current_input_dim 1) (\<lambda>d1.
            new_list [d0, d1]))
       else ret current_input_dim)"

definition parse_Mean :: "ref \<Rightarrow> (module \<times> ref) py" where
  "parse_Mean current_input_dim =
     thn fill_keepdim
     (bnd (getattr dim) (\<lambda>d.
      bnd (getattr keepdim) (\<lambda>kd.
      bnd (first_two_unless_keepdim current_input_dim) (\<lambda>r.
      ret (nnMean d kd, r)))))"

definition parse_Max :: "ref \<Rightarrow> (module \<times> ref) py" where
  "parse_Max current_input_dim =
     thn fill_keepdim
     (bnd (getattr dim) (\<lambda>d.
      bnd (getattr keepdim) (\<lambda>kd.
      bnd (first_two_unless_keepdim current_input_dim) (\<lambda>r.
      ret (nnMax d kd, r)))))"

definition parse_AutoPoolWeight :: "ref \<Rightarrow> (module \<times> ref) py" where
  "parse_AutoPoolWeight current_input_dim =
     thn (setitem current_input_dim 3 1)
     (ret (nnAutoPoolWeight, current_input_dim))"

text \<open>\<^verbatim>\<open>current_input_dim[1] = int(current_input_dim[1]/2)\<close>.\<close>

definition halve_channels :: "ref \<Rightarrow> unit py" where
  "halve_channels current_input_dim =
     bnd (getitem current_input_dim 1) (\<lambda>c.
     bnd (lift (py_trunc_div c (IntV 2))) (\<lambda>q.
     setitem current_input_dim 1 q))"

definition parse_AutoPoolWeightSplit :: "ref \<Rightarrow> (module \<times> ref) py" where
  "parse_AutoPoolWeightSplit current_input_dim =
     bnd (getitem current_input_dim 1) (\<lambda>nb.
     thn (halve_channels current_input_dim)
     (thn (setitem current_input_dim 3 1)
     (ret (nnAutoPoolWeightSplit nb, current_input_dim))))"

definition parse_SoftmaxWeight :: "ref \<Rightarrow> (module \<times> ref) py" where
  "parse_SoftmaxWeight current_input_dim =
     bnd (getitem current_input_dim 1) (\<lambda>nb.
     thn (halve_channels current_input_dim)
     (thn (setitem current_input_dim 3 1)
     (ret (nnSoftmaxWeight nb, current_input_dim))))"

definition parse_AbsLayer :: "ref \<Rightarrow> (module \<times> ref) py" where
  "parse_AbsLayer current_input_dim = ret (nnAbs, current_input_dim)"

definition parse_DoubleChannel :: "ref \<Rightarrow> (module \<times> ref) py" where
  "parse_DoubleChannel current_input_dim =
     thn (scale_item current_input_dim 1 (ret 2))
     (ret (nnEmpty, current_input_dim))"

text \<open>
  The last branch prints and falls through to the \<^verbatim>\<open>return\<close>, where the local
  variable \<^verbatim>\<open>module\<close> was never assigned.
\<close>

definition parse_unknown :: "string \<Rightarrow> ref \<Rightarrow> (module \<times> ref) py" where
  "parse_unknown module_type current_input_dim =
     thn (print (Unknown_module module_type)) (raise UnboundLocalError)"

definition parse_branch :: "string \<Rightarrow> ref \<Rightarrow> (module \<times> ref) py" where
  "parse_branch module_type current_input_dim =
     (if module_type = ''LayerNorm'' then parse_LayerNorm current_input_dim
      else if module_type = ''BatchNorm1d'' then parse_BatchNorm1d current_input_dim
      else if module_type = ''BatchNorm1dT'' then parse_BatchNorm1dT current_input_dim
      else if module_type = ''BatchNorm2d'' then parse_BatchNorm2d current_input_dim
      else if module_type = ''SincNet'' then parse_SincNet current_input_dim
      else if module_type = ''Conv1d'' then parse_Conv1d current_input_dim
      else if module_type = ''Conv1dTCN'' then parse_Conv1dTCN current_input_dim
      else if module_type = ''Conv2d'' then parse_Conv2d current_input_dim
      else if module_type = ''Conv2dDS'' then parse_Conv2dDS current_input_dim
      else if module_type = ''Conv2dRes'' then parse_Conv2dRes current_input_dim
      else if module_type = ''Conv2dNext'' then parse_Conv2dNext current_input_dim
      else if module_type = ''ConvTranspose2d'' then parse_ConvTranspose2d current_input_dim
      else if module_type = ''MaxPool1d'' then parse_MaxPool1d current_input_dim
      else if module_type = ''MaxPool2d'' then parse_MaxPool2d current_input_dim
      else if module_type = ''Linear'' then parse_Linear current_input_dim
      else if module_type = ''Activation'' then parse_Activation current_input_dim
      else if module_type = ''Dropout'' then parse_Dropout current_input_dim
      else if module_type = ''Flatten'' then parse_Flatten current_input_dim
      else if module_type = ''Squeeze'' then parse_Squeeze current_input_dim
      else if module_type = ''Permute'' then parse_Permute current_input_dim
      else if module_type = ''Mean'' then parse_Mean current_input_dim
      else if module_type = ''Max'' then parse_Max current_input_dim
      else if module_type = ''AutoPoolWeight'' then parse_AutoPoolWeight current_input_dim
      else if module_type = ''AutoPoolWeightSplit'' then parse_AutoPoolWeightSplit current_input_dim
      else if module_type = ''SoftmaxWeight'' then parse_SoftmaxWeight current_input_dim
      else if module_type = ''AbsLayer'' then parse_AbsLayer current_input_dim
      else if module_type = ''DoubleChannel'' then parse_DoubleChannel current_input_dim
      else parse_unknown module_type current_input_dim)"

text \<open>
  \<open>f_parse_component module_type param current_input_dim s\<close>: the call, with \<open>param\<close>
  the caller's object and \<open>current_input_dim\<close> a reference into the store of \<open>s\<close>.
  It returns the raised error or the pair of the source, and the state afterwards.
\<close>

definition f_parse_component ::
  "string \<Rightarrow> pyparam \<Rightarrow> ref \<Rightarrow> pstate \<Rightarrow> (py_error + module \<times> ref) \<times> pstate" where
  "f_parse_component module_type param current_input_dim s =
     parse_branch module_type current_input_dim (s\<lparr>param_obj := param\<rparr>)"

definition supported_tags :: "string list" where
  "supported_tags =
     [''LayerNorm'', ''BatchNorm1d'', ''BatchNorm1dT'', ''BatchNorm2d'', ''SincNet'',
      ''Conv1d'', ''Conv1dTCN'', ''Conv2d'', ''Conv2dDS'', ''Conv2dRes'', ''Conv2dNext'',
      ''ConvTranspose2d'', ''MaxPool1d'', ''MaxPool2d'', ''Linear'', ''Activation'',
      ''Dropout'', ''Flatten'', ''Squeeze'', ''Permute'', ''Mean'', ''Max'',
      ''AutoPoolWeight'', ''AutoPoolWeightSplit'', ''SoftmaxWeight'', ''AbsLayer'',
      ''DoubleChannel'']"

text \<open>
  The dispatch as a table: the tag of each branch with the branch it selects, and the
  class a branch constructs (\<open>Activation\<close> constructs the class its parameter names).
\<close>

definition branches :: "(string \<times> (ref \<Rightarrow> (module \<times> ref) py)) list" where
  "branches =
     [(''LayerNorm'', parse_LayerNorm), (''BatchNorm1d'', parse_BatchNorm1d),
      (''BatchNorm1dT'', parse_BatchNorm1dT), (''BatchNorm2d'', parse_BatchNorm2d),
      (''SincNet'', parse_SincNet), (''Conv1d'', parse_Conv1d),
      (''Conv1dTCN'', parse_Conv1dTCN), (''Conv2d'', parse_Conv2d),
      (''Conv2dDS'', parse_Conv2dDS), (''Conv2dRes'', parse_Conv2dRes),
      (''Conv2dNext'', parse_Conv2dNext), (''ConvTranspose2d'', parse_ConvTranspose2d),
      (''MaxPool1d'', parse_MaxPool1d), (''MaxPool2d'', parse_MaxPool2d),
      (''Linear'', parse_Linear), (''Activation'', parse_Activation),
      (''Dropout'', parse_Dropout), (''Flatten'', parse_Flatten),
      (''Squeeze'', parse_Squeeze), (''Permute'', parse_Permute),
      (''Mean'', parse_Mean), (''Max'', parse_Max),
      (''AutoPoolWeight'', parse_AutoPoolWeight),
      (''AutoPoolWeightSplit'', parse_AutoPoolWeightSplit),
      (''SoftmaxWeight'', parse_SoftmaxWeight), (''AbsLayer'', parse_AbsLayer),
      (''DoubleChannel'', parse_DoubleChannel)]"

definition layer_class :: "layer \<Rightarrow> string" where
  "layer_class l =
     (case l of
        LayerNorm _ _ \<Rightarrow> ''LayerNorm''
      | BatchNorm1d _ _ \<Rightarrow> ''BatchNorm1d''
      | BatchNorm2d _ \<Rightarrow> ''BatchNorm2d''
      | Conv1d _ _ _ _ _ _ \<Rightarrow> ''Conv1d''
      | Conv2d _ _ _ _ _ _ \<Rightarrow> ''Conv2d''
      | ConvTranspose2d _ _ _ _ \<Rightarrow> ''ConvTranspose2d''
      | MaxPool1d _ _ \<Rightarrow> ''MaxPool1d''
      | MaxPool2d _ _ \<Rightarrow> ''MaxPool2d''
      | Linear _ _ \<Rightarrow> ''Linear''
      | Sigmoid \<Rightarrow> ''Sigmoid''
      | Softmax \<Rightarrow> ''Softmax''
      | ReLU \<Rightarrow> ''ReLU''
      | LeakyReLU \<Rightarrow> ''LeakyReLU''
      | PReLU \<Rightarrow> ''PReLU''
      | GELU \<Rightarrow> ''GELU''
      | Dropout _ \<Rightarrow> ''Dropout''
      | Flatten _ \<Rightarrow> ''Flatten''
      | Identity \<Rightarrow> ''Identity'')"

definition class_name :: "module \<Rightarrow> string" where
  "class_name m =
     (case m of
        Torch l \<Rightarrow> layer_class l
      | SincConv_fast _ _ _ _ _ \<Rightarrow> ''SincConv_fast''
      | TemporalConvNet_obj _ \<Rightarrow> ''TemporalConvNet''
      | ResidualBlock_obj _ \<Rightarrow> ''ResidualBlock''
      | ConvNeXtBlock_obj _ \<Rightarrow> ''ConvNeXtBlock''
      | depthwise_separable_conv_obj _ \<Rightarrow> ''depthwise_separable_conv''
      | nnAbs \<Rightarrow> ''nnAbs''
      | nnMean _ _ \<Rightarrow> ''nnMean''
      | nnMax _ _ \<Rightarrow> ''nnMax''
      | nnSqueeze _ \<Rightarrow> ''nnSqueeze''
      | nnPermute _ \<Rightarrow> ''nnPermute''
      | nnBatchNorm1dT _ \<Rightarrow> ''nnBatchNorm1dT''
      | nnEmpty \<Rightarrow> ''nnEmpty''
      | nnSoftmaxWeight _ \<Rightarrow> ''nnSoftmaxWeight''
      | nnAutoPoolWeight \<Rightarrow> ''nnAutoPoolWeight''
      | nnAutoPoolWeightSplit _ \<Rightarrow> ''nnAutoPoolWeightSplit'')"

definition tag_constructor :: "string \<Rightarrow> string option" where
  "tag_constructor =
     map_of
       [(''LayerNorm'', ''LayerNorm''), (''BatchNorm1d'', ''BatchNorm1d''),
        (''BatchNorm1dT'', ''nnBatchNorm1dT''), (''BatchNorm2d'', ''BatchNorm2d''),
        (''SincNet'', ''SincConv_fast''), (''Conv1d'', ''Conv1d''),
        (''Conv1dTCN'', ''TemporalConvNet''), (''Conv2d'', ''Conv2d''),
        (''Conv2dDS'', ''depthwise_separable_conv''), (''Conv2dRes'', ''ResidualBlock''),
        (''Conv2dNext'', ''ConvNeXtBlock''), (''ConvTranspose2d'', ''ConvTranspose2d''),
        (''MaxPool1d'', ''MaxPool1d''), (''MaxPool2d'', ''MaxPool2d''),
        (''Linear'', ''Linear''), (''Dropout'', ''Dropout''), (''Flatten'', ''Flatten''),
        (''Squeeze'', ''nnSqueeze''), (''Permute'', ''nnPermute''), (''Mean'', ''nnMean''),
        (''Max'', ''nnMax''), (''AutoPoolWeight'', ''nnAutoPoolWeight''),
        (''AutoPoolWeightSplit'', ''nnAutoPoolWeightSplit''),
        (''SoftmaxWeight'', ''nnSoftmaxWeight''), (''AbsLayer'', ''nnAbs''),
        (''DoubleChannel'', ''nnEmpty'')]"

definition activation_names :: "string set" where
  "activation_names = {''Sigmoid'', ''Softmax'', ''ReLU'', ''LeakyReLU'', ''PReLU''}"

section \<open>Shapes of the tensors a forward pass produces\<close>

text \<open>
  The shape rules of the external library, as its documentation gives them. Batch
  normalisation in training mode needs more than one value per channel; nothing else
  depends on the mode. Every failure of the library is the one value \<open>RuntimeError\<close>:
  its exception classes are not distinguished. A layer built with arguments its
  constructor would have refused (a stride below one, a negative padding, groups that
  do not divide the channels) fails here when it is applied.
\<close>

definition andthen :: "py_error + 'a \<Rightarrow> ('a \<Rightarrow> py_error + 'b) \<Rightarrow> py_error + 'b" where
  "andthen r f = (case r of Inl e \<Rightarrow> Inl e | Inr x \<Rightarrow> f x)"

definition need :: "'a option \<Rightarrow> py_error + 'a" where
  "need x = (case x of None \<Rightarrow> Inl RuntimeError | Some v \<Rightarrow> Inr v)"

text \<open>A dimension argument: negative values count from the end; a scalar accepts -1 and 0.\<close>

definition dim_index :: "nat \<Rightarrow> int \<Rightarrow> nat option" where
  "dim_index n d =
     (let m = int (max n 1)
      in if - m \<le> d \<and> d < m then Some (nat (if d < 0 then d + m else d)) else None)"

text \<open>Broadcasting, on the reversed shapes: sizes agree, or one of them is 1, or is absent.\<close>

fun bc_rev :: "shape \<Rightarrow> shape \<Rightarrow> shape option" where
  "bc_rev [] ys = Some ys"
| "bc_rev (x # xs) [] = Some (x # xs)"
| "bc_rev (x # xs) (y # ys) =
     (if x = y \<or> y = 1 then map_option (Cons x) (bc_rev xs ys)
      else if x = 1 then map_option (Cons y) (bc_rev xs ys)
      else None)"

definition broadcast :: "shape \<Rightarrow> shape \<Rightarrow> shape option" where
  "broadcast xs ys = map_option rev (bc_rev (rev xs) (rev ys))"

text \<open>The length of the Python slice \<^verbatim>\<open>a:b\<close> of a dimension of size \<open>n\<close>.\<close>

definition slice_bound :: "int \<Rightarrow> int \<Rightarrow> int" where
  "slice_bound n i = (if i < 0 then max 0 (i + n) else min i n)"

definition slice_len :: "int \<Rightarrow> int option \<Rightarrow> int option \<Rightarrow> int" where
  "slice_len n a b =
     (let lo = (case a of None \<Rightarrow> 0 | Some i \<Rightarrow> slice_bound n i);
          hi = (case b of None \<Rightarrow> n | Some i \<Rightarrow> slice_bound n i)
      in max 0 (hi - lo))"

definition slice_shape :: "shape \<Rightarrow> nat \<Rightarrow> int option \<Rightarrow> int option \<Rightarrow> py_error + shape" where
  "slice_shape xs d a b =
     (if d < length xs then Inr (xs[d := slice_len (xs ! d) a b]) else Inl RuntimeError)"

definition reduce_shape :: "shape \<Rightarrow> int \<Rightarrow> bool \<Rightarrow> py_error + shape" where
  "reduce_shape xs d keep =
     (case dim_index (length xs) d of
        None \<Rightarrow> Inl RuntimeError
      | Some i \<Rightarrow>
          Inr (if xs = [] then [] else if keep then xs[i := 1] else take i xs @ drop (Suc i) xs))"

text \<open>The maximum along a dimension needs that dimension to be non-empty.\<close>

definition max_shape :: "shape \<Rightarrow> int \<Rightarrow> bool \<Rightarrow> py_error + shape" where
  "max_shape xs d keep =
     (case dim_index (length xs) d of
        None \<Rightarrow> Inl RuntimeError
      | Some i \<Rightarrow> if xs \<noteq> [] \<and> xs ! i = 0 then Inl RuntimeError else reduce_shape xs d keep)"

definition squeeze_shape :: "shape \<Rightarrow> int \<Rightarrow> py_error + shape" where
  "squeeze_shape xs d =
     (case dim_index (length xs) d of
        None \<Rightarrow> Inl RuntimeError
      | Some i \<Rightarrow> Inr (if xs \<noteq> [] \<and> xs ! i = 1 then take i xs @ drop (Suc i) xs else xs))"

definition permute_shape :: "shape \<Rightarrow> int list \<Rightarrow> py_error + shape" where
  "permute_shape xs ds =
     (let js = map (py_index (length xs)) ds
      in if length ds = length xs \<and> None \<notin> set js \<and> distinct js
         then Inr (map (\<lambda>j. xs ! the j) js) else Inl RuntimeError)"

definition softmax_shape :: "shape \<Rightarrow> int \<Rightarrow> py_error + shape" where
  "softmax_shape xs d = (case dim_index (length xs) d of None \<Rightarrow> Inl RuntimeError | Some _ \<Rightarrow> Inr xs)"

text \<open>Kernel sizes, strides and paddings given as one number or as a list.\<close>

definition as1 :: "int_or_list \<Rightarrow> int option" where
  "as1 v = (case v of IntV k \<Rightarrow> Some k | ListV [k] \<Rightarrow> Some k | ListV _ \<Rightarrow> None)"

definition as2 :: "int_or_list \<Rightarrow> (int \<times> int) option" where
  "as2 v = (case v of IntV k \<Rightarrow> Some (k, k) | ListV [a, b] \<Rightarrow> Some (a, b) | ListV _ \<Rightarrow> None)"

text \<open>
  One spatial size after a convolution with kernel \<open>k\<close>, stride \<open>s\<close>, padding \<open>p\<close> on both
  sides and dilation \<open>d\<close>: \<open>\<lfloor>(L + 2p - d(k - 1) - 1) / s\<rfloor> + 1\<close>, the padded input being
  at least as long as the dilated kernel.
\<close>

definition conv_out :: "int \<Rightarrow> int \<Rightarrow> int \<Rightarrow> int \<Rightarrow> int \<Rightarrow> int option" where
  "conv_out L k s p d =
     (if 1 \<le> k \<and> 1 \<le> s \<and> 1 \<le> d \<and> 0 \<le> p \<and> d * (k - 1) + 1 \<le> L + 2 * p
      then Some ((L + 2 * p - d * (k - 1) - 1) div s + 1) else None)"

text \<open>With the padding \<^verbatim>\<open>'same'\<close> the stride must be one and the size is kept.\<close>

definition conv_same :: "int \<Rightarrow> int \<Rightarrow> int \<Rightarrow> int \<Rightarrow> int option" where
  "conv_same L k s d = (if 1 \<le> k \<and> s = 1 \<and> 1 \<le> d \<and> 0 \<le> L then Some L else None)"

definition conv_size :: "padding_val \<Rightarrow> (int_or_list \<Rightarrow> int option) \<Rightarrow> int \<Rightarrow> int \<Rightarrow> int \<Rightarrow> int \<Rightarrow> int option" where
  "conv_size pd component L k s d =
     (case pd of
        PadStr str \<Rightarrow>
          (if str = ''same'' then conv_same L k s d
           else if str = ''valid'' then conv_out L k s 0 d
           else None)
      | PadNum v \<Rightarrow> (case component v of None \<Rightarrow> None | Some p \<Rightarrow> conv_out L k s p d))"

definition conv1d_shape ::
  "int \<Rightarrow> int \<Rightarrow> int_or_list \<Rightarrow> int_or_list \<Rightarrow> padding_val \<Rightarrow> int_or_list \<Rightarrow> shape \<Rightarrow> shape option" where
  "conv1d_shape ic oc ks st pd dl xs =
     (case (as1 ks, as1 st, as1 dl) of
        (Some k, Some s, Some d) \<Rightarrow>
          (case xs of
             [c, l] \<Rightarrow>
               (if c = ic then map_option (\<lambda>l'. [oc, l']) (conv_size pd as1 l k s d) else None)
           | [b, c, l] \<Rightarrow>
               (if c = ic then map_option (\<lambda>l'. [b, oc, l']) (conv_size pd as1 l k s d)
                else None)
           | _ \<Rightarrow> None)
      | _ \<Rightarrow> None)"

definition conv2d_sizes ::
  "int_or_list \<Rightarrow> int_or_list \<Rightarrow> padding_val \<Rightarrow> int \<Rightarrow> int \<Rightarrow> (int \<times> int) option" where
  "conv2d_sizes ks st pd h w =
     (case (as2 ks, as2 st) of
        (Some (kh, kw), Some (sh, sw)) \<Rightarrow>
          (case (conv_size pd (map_option fst \<circ> as2) h kh sh 1,
                 conv_size pd (map_option snd \<circ> as2) w kw sw 1) of
             (Some h', Some w') \<Rightarrow> Some (h', w')
           | _ \<Rightarrow> None)
      | _ \<Rightarrow> None)"

definition conv2d_shape ::
  "int \<Rightarrow> int \<Rightarrow> int_or_list \<Rightarrow> int_or_list \<Rightarrow> padding_val \<Rightarrow> int \<Rightarrow> shape \<Rightarrow> shape option" where
  "conv2d_shape ic oc ks st pd g xs =
     (if 1 \<le> g \<and> ic mod g = 0 \<and> oc mod g = 0
      then (case xs of
              [c, h, w] \<Rightarrow>
                (if c = ic
                 then map_option (\<lambda>(h', w'). [oc, h', w']) (conv2d_sizes ks st pd h w)
                 else None)
            | [b, c, h, w] \<Rightarrow>
                (if c = ic
                 then map_option (\<lambda>(h', w'). [b, oc, h', w']) (conv2d_sizes ks st pd h w)
                 else None)
            | _ \<Rightarrow> None)
      else None)"

text \<open>
  A transposed convolution without padding: \<open>(H - 1) * stride + kernel\<close>.
\<close>

definition convT_out :: "int \<Rightarrow> int \<Rightarrow> int \<Rightarrow> int option" where
  "convT_out L k s = (if 1 \<le> k \<and> 1 \<le> s \<and> 1 \<le> L then Some ((L - 1) * s + k) else None)"

definition convT2d_shape :: "int \<Rightarrow> int \<Rightarrow> int_or_list \<Rightarrow> int_or_list \<Rightarrow> shape \<Rightarrow> shape option" where
  "convT2d_shape ic oc ks st xs =
     (case (as2 ks, as2 st) of
        (Some (kh, kw), Some (sh, sw)) \<Rightarrow>
          (case xs of
             [c, h, w] \<Rightarrow>
               (case (convT_out h kh sh, convT_out w kw sw) of
                  (Some h', Some w') \<Rightarrow> if c = ic then Some [oc, h', w'] else None
                | _ \<Rightarrow> None)
           | [b, c, h, w] \<Rightarrow>
               (case (convT_out h kh sh, convT_out w kw sw) of
                  (Some h', Some w') \<Rightarrow> if c = ic then Some [b, oc, h', w'] else None
                | _ \<Rightarrow> None)
           | _ \<Rightarrow> None)
      | _ \<Rightarrow> None)"

text \<open>Max pooling without padding: \<open>\<lfloor>(L - kernel) / stride\<rfloor> + 1\<close>.\<close>

definition pool_out :: "int \<Rightarrow> int \<Rightarrow> int \<Rightarrow> int option" where
  "pool_out L k s = (if 1 \<le> k \<and> 1 \<le> s \<and> k \<le> L then Some ((L - k) div s + 1) else None)"

definition maxpool1d_shape :: "int_or_list \<Rightarrow> int_or_list \<Rightarrow> shape \<Rightarrow> shape option" where
  "maxpool1d_shape ks st xs =
     (case (as1 ks, as1 st) of
        (Some k, Some s) \<Rightarrow>
          (case xs of
             [c, l] \<Rightarrow> map_option (\<lambda>l'. [c, l']) (pool_out l k s)
           | [b, c, l] \<Rightarrow> map_option (\<lambda>l'. [b, c, l']) (pool_out l k s)
           | _ \<Rightarrow> None)
      | _ \<Rightarrow> None)"

definition maxpool2d_shape :: "int_or_list \<Rightarrow> int_or_list \<Rightarrow> shape \<Rightarrow> shape option" where
  "maxpool2d_shape ks st xs =
     (case (as2 ks, as2 st) of
        (Some (kh, kw), Some (sh, sw)) \<Rightarrow>
          (case xs of
             [c, h, w] \<Rightarrow>
               (case (pool_out h kh sh, pool_out w kw sw) of
                  (Some h', Some w') \<Rightarrow> Some [c, h', w']
                | _ \<Rightarrow> None)
           | [b, c, h, w] \<Rightarrow>
               (case (pool_out h kh sh, pool_out w kw sw) of
                  (Some h', Some w') \<Rightarrow> Some [b, c, h', w']
                | _ \<Rightarrow> None)
           | _ \<Rightarrow> None)
      | _ \<Rightarrow> None)"

definition normalized_list :: "int_or_list \<Rightarrow> int list" where
  "normalized_list v = (case v of IntV n \<Rightarrow> [n] | ListV l \<Rightarrow> l)"

definition batch_ok :: "bool \<Rightarrow> shape \<Rightarrow> bool" where
  "batch_ok training xs = (\<not> training \<or> hd xs * prod_list (drop 2 xs) \<noteq> 1)"

definition layer_shape :: "bool \<Rightarrow> layer \<Rightarrow> shape \<Rightarrow> py_error + shape" where
  "layer_shape training l xs =
     (case l of
        LayerNorm ns _ \<Rightarrow>
          (let nl = normalized_list ns
           in if nl \<noteq> [] \<and> length nl \<le> length xs \<and> drop (length xs - length nl) xs = nl
              then Inr xs else Inl RuntimeError)
      | BatchNorm1d nf _ \<Rightarrow>
          (if (length xs = 2 \<or> length xs = 3) \<and> xs ! 1 = nf \<and> batch_ok training xs
           then Inr xs else Inl RuntimeError)
      | BatchNorm2d nf \<Rightarrow>
          (if length xs = 4 \<and> xs ! 1 = nf \<and> batch_ok training xs
           then Inr xs else Inl RuntimeError)
      | Conv1d ic oc ks st pd dl \<Rightarrow> need (conv1d_shape ic oc ks st pd dl xs)
      | Conv2d ic oc ks st pd g \<Rightarrow> need (conv2d_shape ic oc ks st pd g xs)
      | ConvTranspose2d ic oc ks st \<Rightarrow> need (convT2d_shape ic oc ks st xs)
      | MaxPool1d ks st \<Rightarrow> need (maxpool1d_shape ks st xs)
      | MaxPool2d ks st \<Rightarrow> need (maxpool2d_shape ks st xs)
      | Linear n_in n_out \<Rightarrow>
          (if xs \<noteq> [] \<and> last xs = n_in then Inr (butlast xs @ [n_out]) else Inl RuntimeError)
      | Sigmoid \<Rightarrow> Inr xs
      | Softmax \<Rightarrow> Inr xs
      | ReLU \<Rightarrow> Inr xs
      | LeakyReLU \<Rightarrow> Inr xs
      | PReLU \<Rightarrow> Inr xs
      | GELU \<Rightarrow> Inr xs
      | Dropout _ \<Rightarrow> Inr xs
      | Flatten sd \<Rightarrow>
          (if xs = [] then Inr [1]
           else (case dim_index (length xs) sd of
                   None \<Rightarrow> Inl RuntimeError
                 | Some i \<Rightarrow> Inr (take i xs @ [prod_list (drop i xs)])))
      | Identity \<Rightarrow> Inr xs)"

fun shape_of :: "bool \<Rightarrow> shape \<Rightarrow> texpr \<Rightarrow> py_error + shape" where
  "shape_of training xs Input = Inr xs"
| "shape_of training xs ScalarParam = Inr []"
| "shape_of training xs PyScalar = Inr []"
| "shape_of training xs (TRand e) =
     andthen (shape_of training xs e) (\<lambda>se.
       case se of [] \<Rightarrow> Inl IndexError | b # rest \<Rightarrow> Inr (b # replicate (length rest) 1))"
| "shape_of training xs (TFloor e) = shape_of training xs e"
| "shape_of training xs (Raise e) = Inl e"
| "shape_of training xs (Apply l e) = andthen (shape_of training xs e) (layer_shape training l)"
| "shape_of training xs (TAdd a b) =
     andthen (shape_of training xs a) (\<lambda>sa. andthen (shape_of training xs b) (\<lambda>sb. need (broadcast sa sb)))"
| "shape_of training xs (TIAdd a b) =
     andthen (shape_of training xs a) (\<lambda>sa. andthen (shape_of training xs b) (\<lambda>sb.
       if broadcast sa sb = Some sa then Inr sa else Inl RuntimeError))"
| "shape_of training xs (TSub a b) =
     andthen (shape_of training xs a) (\<lambda>sa. andthen (shape_of training xs b) (\<lambda>sb. need (broadcast sa sb)))"
| "shape_of training xs (TMul a b) =
     andthen (shape_of training xs a) (\<lambda>sa. andthen (shape_of training xs b) (\<lambda>sb. need (broadcast sa sb)))"
| "shape_of training xs (TDiv a b) =
     andthen (shape_of training xs a) (\<lambda>sa. andthen (shape_of training xs b) (\<lambda>sb. need (broadcast sa sb)))"
| "shape_of training xs (TSlice e d a b) = andthen (shape_of training xs e) (\<lambda>se. slice_shape se d a b)"
| "shape_of training xs (TPermute e ds) = andthen (shape_of training xs e) (\<lambda>se. permute_shape se ds)"
| "shape_of training xs (TSum e d keep) = andthen (shape_of training xs e) (\<lambda>se. reduce_shape se d keep)"
| "shape_of training xs (TMean e d keep) = andthen (shape_of training xs e) (\<lambda>se. reduce_shape se d keep)"
| "shape_of training xs (TMaxValues e d keep) = andthen (shape_of training xs e) (\<lambda>se. max_shape se d keep)"
| "shape_of training xs (TSoftmax e d) = andthen (shape_of training xs e) (\<lambda>se. softmax_shape se d)"
| "shape_of training xs (TExp e) = shape_of training xs e"
| "shape_of training xs (TAbs e) = shape_of training xs e"
| "shape_of training xs (TSqueeze e d) = andthen (shape_of training xs e) (\<lambda>se. squeeze_shape se d)"

text \<open>
  The shape of the tensor a module returns on an input of shape \<open>xs\<close>; \<open>None\<close> for the
  one module whose forward pass is not in this file.
\<close>

definition module_shape :: "bool \<Rightarrow> module \<Rightarrow> shape \<Rightarrow> (py_error + shape) option" where
  "module_shape training m xs = map_option (shape_of training xs) (forward training m Input)"

section \<open>Example configurations\<close>

text \<open>A store holding one list, at reference 0.\<close>

definition store1 :: "shape \<Rightarrow> pstate" where
  "store1 xs = \<lparr>param_obj = ParamStr [], heap = (\<lambda>_. [])(0 := xs), next_ref = 1, stdout = []\<rparr>"

section \<open>When a computation returns\<close>

lemma ret_Inr: "ret x s = (Inr y, s') \<longleftrightarrow> y = x \<and> s' = s"
  by (auto simp: ret_def)

lemma raise_Inr: "raise e s \<noteq> (Inr y, s')"
  by (simp add: raise_def)

lemma bnd_Inr: "bnd m f s = (Inr y, s') \<longleftrightarrow> (\<exists>x s1. m s = (Inr x, s1) \<and> f x s1 = (Inr y, s'))"
  by (auto simp: bnd_def split: prod.splits sum.splits)

lemma thn_Inr: "thn m k s = (Inr y, s') \<longleftrightarrow> (\<exists>s1. m s = (Inr (), s1) \<and> k s1 = (Inr y, s'))"
  by (simp add: thn_def bnd_Inr)

lemma whn_Inr: "whn c m s = (Inr u, s') \<longleftrightarrow> (if c then m s = (Inr u, s') else s' = s)"
  by (auto simp: whn_def ret_def)

lemma lift_Inr: "lift r s = (Inr y, s') \<longleftrightarrow> r = Inr y \<and> s' = s"
  by (auto simp: lift_def)

lemma get_param_Inr: "get_param s = (Inr q, s') \<longleftrightarrow> q = param_obj s \<and> s' = s"
  by (auto simp: get_param_def)

lemma getattr_Inr:
  "getattr f s = (Inr v, s') \<longleftrightarrow> (\<exists>q. param_obj s = ParamDict q \<and> f q = Some v \<and> s' = s)"
  by (auto simp: getattr_def split: pyparam.splits option.splits)

lemma has_key_Inr:
  "has_key f s = (Inr b, s') \<longleftrightarrow> (\<exists>q. param_obj s = ParamDict q \<and> b = (f q \<noteq> None) \<and> s' = s)"
  by (auto simp: has_key_def split: pyparam.splits)

lemma setattr_Inr:
  "setattr upd s = (Inr u, s') \<longleftrightarrow>
     (\<exists>q. param_obj s = ParamDict q \<and> s' = s\<lparr>param_obj := ParamDict (upd q)\<rparr>)"
  by (auto simp: setattr_def split: pyparam.splits)

lemma print_Inr: "print m s = (Inr u, s') \<longleftrightarrow> s' = s\<lparr>stdout := stdout s @ [m]\<rparr>"
  by (auto simp: print_def)

lemma getitem_Inr:
  "getitem r i s = (Inr v, s') \<longleftrightarrow>
     (\<exists>j. py_index (length (heap s r)) i = Some j \<and> v = heap s r ! j \<and> s' = s)"
  by (auto simp: getitem_def split: option.splits)

lemma setitem_Inr:
  "setitem r i v s = (Inr u, s') \<longleftrightarrow>
     (\<exists>j. py_index (length (heap s r)) i = Some j \<and>
          s' = s\<lparr>heap := (heap s)(r := (heap s r)[j := v])\<rparr>)"
  by (auto simp: setitem_def split: option.splits)

lemma read_list_Inr: "read_list r s = (Inr xs, s') \<longleftrightarrow> xs = heap s r \<and> s' = s"
  by (auto simp: read_list_def)

lemma new_list_Inr:
  "new_list xs s = (Inr r, s') \<longleftrightarrow>
     r = next_ref s \<and> s' = s\<lparr>heap := (heap s)(next_ref s := xs), next_ref := Suc (next_ref s)\<rparr>"
  by (auto simp: new_list_def)

lemmas py_Inr = ret_Inr raise_Inr bnd_Inr thn_Inr whn_Inr lift_Inr get_param_Inr getattr_Inr
  has_key_Inr setattr_Inr print_Inr getitem_Inr setitem_Inr read_list_Inr new_list_Inr

lemma py_index_Some: "py_index n i = Some j \<longleftrightarrow> (if i < 0 then 0 \<le> i + int n \<and> j = nat (i + int n) else i < int n \<and> j = nat i)"
  by (auto simp: py_index_def Let_def)


lemma parse_tag:
  "f_parse_component t p r s = parse_branch t r (s\<lparr>param_obj := p\<rparr>)"
  by (simp add: f_parse_component_def)

text \<open>The operations on the state, to evaluate a call by unfolding.\<close>

lemmas py_defs = bnd_def thn_def whn_def ret_def raise_def lift_def get_param_def getattr_def
  has_key_def setattr_def print_def getitem_def setitem_def read_list_def new_list_def

lemmas branch_helper_defs = fill_in_channels_def fill_num_features_def fill_in_features_def
  fill_normalized_shape_def set_next_size_def
  attr_item_def fill_padding_def set_spatial_sizes_def warn_padding_stride_def scale_item_def
  fill_stride_def set_pooled_size_def fill_keepdim_def first_two_unless_keepdim_def
  halve_channels_def

text \<open>The definitions a concrete call is evaluated with.\<close>

lemmas run_simps = parse_tag parse_branch_def store1_def empty_param_def
  bnd_def thn_def whn_def ret_def raise_def lift_def get_param_def getattr_def has_key_def
  setattr_def print_def getitem_def setitem_def read_list_def new_list_def py_index_def
  subscript_def fill_in_channels_def
  fill_num_features_def set_next_size_def attr_item_def fill_padding_def
  set_spatial_sizes_def scale_item_def fill_stride_def set_pooled_size_def

lemma bnd_drop: "bnd m f s = (Inr y, s') \<Longrightarrow> \<exists>x s1. f x s1 = (Inr y, s')"
  by (auto simp: bnd_Inr)

lemma thn_drop: "thn m k s = (Inr y, s') \<Longrightarrow> \<exists>s1. k s1 = (Inr y, s')"
  by (auto simp: thn_Inr)

lemma nth_last: "py_index (length xs) (- 1) = Some j \<longleftrightarrow> xs \<noteq> [] \<and> j = length xs - 1"
  by (cases xs) (auto simp: py_index_def)

lemma last_nth_length: "xs \<noteq> [] \<Longrightarrow> xs ! nat (int (length xs) - 1) = last xs"
  by (simp add: last_conv_nth nat_diff_distrib')

section \<open>Double precision\<close>

lemma round_half_even_between:
  assumes "0 < den" and "L * den \<le> num" and "num \<le> U * den"
  shows "L \<le> round_half_even num den \<and> round_half_even num den \<le> U"
proof -
  define f where "f = num div den"
  define r where "r = num mod den"
  define p where "p = f * den"
  have num: "num = p + r" by (simp add: p_def f_def r_def)
  have r: "0 \<le> r" "r < den" using assms(1) by (simp_all add: r_def)
  have lo: "L \<le> f"
  proof (rule ccontr)
    assume "\<not> L \<le> f"
    then have "f + 1 \<le> L" by simp
    then have "(f + 1) * den \<le> L * den" using assms(1) by (simp add: mult_right_mono)
    then have "p + den \<le> L * den" by (simp add: p_def algebra_simps)
    with assms(2) num r show False by simp
  qed
  have hi: "f \<le> U"
  proof (rule ccontr)
    assume "\<not> f \<le> U"
    then have "U + 1 \<le> f" by simp
    then have "(U + 1) * den \<le> f * den" using assms(1) by (simp add: mult_right_mono)
    then have "U * den + den \<le> p" by (simp add: p_def algebra_simps)
    with assms(3) assms(1) num r show False by simp
  qed
  have hi': "f + 1 \<le> U" if "0 < r"
  proof (rule ccontr)
    assume "\<not> f + 1 \<le> U"
    with hi have "U = f" by simp
    with assms(3) num that show False by (simp add: p_def)
  qed
  show ?thesis
    using lo hi hi' r by (auto simp: round_half_even_def Let_def f_def r_def)
qed

lemma two_powr_int: "2 powr real_of_int n = 2 ^ nat n / 2 ^ nat (- n)"
  by (simp add: powr_int)

lemma bitlen_pos: "0 < a \<Longrightarrow> 1 \<le> bitlen a"
  by (simp add: bitlen_alt_def)

lemma bitlen_lower:
  assumes "0 < a"
  shows "2 powr real_of_int (bitlen a - 1) \<le> real_of_int a"
proof -
  have "2 powr real_of_int (bitlen a - 1) = 2 ^ nat (bitlen a - 1)"
    using bitlen_pos [OF assms] by (simp add: powr_int del: of_int_diff)
  also have "\<dots> = real_of_int (2 ^ nat (bitlen a - 1))"
    by simp
  also have "\<dots> \<le> real_of_int a"
    using bitlen_bounds [OF assms] by (simp only: of_int_le_iff)
  finally show ?thesis .
qed

lemma bitlen_upper:
  assumes "0 < d"
  shows "real_of_int d < 2 powr real_of_int (bitlen d)"
proof -
  have "real_of_int d < real_of_int (2 ^ nat (bitlen d))"
    using bitlen_bounds [OF assms] by (simp only: of_int_less_iff)
  also have "\<dots> = 2 ^ nat (bitlen d)"
    by simp
  also have "\<dots> = 2 powr real_of_int (bitlen d)"
    using bitlen_pos [OF assms] by (simp add: powr_int)
  finally show ?thesis .
qed

lemma ilog2_quot_lower:
  assumes "0 < a" and "0 < d"
  shows "2 powr real_of_int (ilog2_quot a d) \<le> real_of_int a / real_of_int d"
proof -
  let ?g = "bitlen a - bitlen d"
  show ?thesis
  proof (cases "d * 2 ^ nat ?g \<le> a * 2 ^ nat (- ?g)")
    case True
    then have "real_of_int (d * 2 ^ nat ?g) \<le> real_of_int (a * 2 ^ nat (- ?g))"
      by (simp only: of_int_le_iff)
    then have "real_of_int d * (2 ^ nat ?g / 2 ^ nat (- ?g)) \<le> real_of_int a"
      by (simp add: field_simps)
    then have "real_of_int d * 2 powr real_of_int ?g \<le> real_of_int a"
      by (simp only: two_powr_int)
    then have "2 powr real_of_int ?g \<le> real_of_int a / real_of_int d"
      using assms(2) by (simp add: field_simps)
    with True show ?thesis by (simp add: ilog2_quot_def Let_def del: of_int_diff)
  next
    case False
    have "real_of_int (?g - 1) = real_of_int (bitlen a - 1) - real_of_int (bitlen d)"
      by simp
    then have "2 powr real_of_int (?g - 1) = 2 powr real_of_int (bitlen a - 1) / 2 powr real_of_int (bitlen d)"
      by (simp only: powr_diff)
    also have "\<dots> \<le> real_of_int a / real_of_int d"
      using bitlen_lower [OF assms(1)] bitlen_upper [OF assms(2)] assms
      by (intro frac_le) simp_all
    finally show ?thesis using False by (simp add: ilog2_quot_def Let_def del: of_int_diff)
  qed
qed


lemma exponent_le:
  assumes "0 < a" and "0 < d" and "k \<le> 1074"
    and "real_of_int a * 2 ^ k < 2 ^ 53 * real_of_int d"
  shows "max (ilog2_quot a d - 52) (- 1074) \<le> - int k"
proof -
  have "2 powr real_of_int (ilog2_quot a d) \<le> real_of_int a / real_of_int d"
    by (rule ilog2_quot_lower [OF assms(1,2)])
  also have "\<dots> < 2 ^ 53 / 2 ^ k"
    using assms(2,4) by (simp add: field_simps)
  also have "\<dots> = 2 powr (53 - real k)"
    by (simp add: powr_diff powr_realpow [symmetric])
  finally have "real_of_int (ilog2_quot a d) < 53 - real k"
    by simp
  then have "ilog2_quot a d < 53 - int k"
    by linarith
  with assms(3) show ?thesis by simp
qed

lemma double_of_quot_between_pos:
  assumes "0 < a" and "0 < d" and "k \<le> 1074" and "U < 2 ^ 53"
    and lo: "real_of_int L / 2 ^ k \<le> real_of_int a / real_of_int d"
    and hi: "real_of_int a / real_of_int d \<le> real_of_int U / 2 ^ k"
  shows "\<exists>v. double_of_quot a d = Inr v \<and> real_of_int L / 2 ^ k \<le> dval v \<and>
           dval v \<le> real_of_int U / 2 ^ k"
proof -
  define e where "e = max (ilog2_quot a d - 52) (- 1074)"
  define j where "j = nat (- e)"
  define m where "m = round_half_even (a * 2 ^ j) d"
  have "real_of_int a * 2 ^ k \<le> real_of_int U * real_of_int d"
    using hi assms(2) by (simp add: field_simps)
  also have "\<dots> < 2 ^ 53 * real_of_int d"
    using assms(2,4) by simp
  finally have e: "e \<le> - int k"
    unfolding e_def by (rule exponent_le [OF assms(1,2,3)])
  then have j: "k \<le> j" and ne: "nat e = 0" and ej: "e = - int j"
    by (simp_all add: j_def)
  have "real_of_int L * real_of_int d \<le> real_of_int a * 2 ^ k"
    using lo assms(2) by (simp add: field_simps)
  then have "real_of_int (L * d) \<le> real_of_int (a * 2 ^ k)"
    by simp
  then have iL: "L * d \<le> a * 2 ^ k"
    by (simp only: of_int_le_iff)
  have "real_of_int a * 2 ^ k \<le> real_of_int U * real_of_int d"
    using hi assms(2) by (simp add: field_simps)
  then have "real_of_int (a * 2 ^ k) \<le> real_of_int (U * d)"
    by simp
  then have iU: "a * 2 ^ k \<le> U * d"
    by (simp only: of_int_le_iff)
  have pj: "(2::int) ^ j = 2 ^ k * 2 ^ (j - k)"
    using j by (simp add: power_add [symmetric])
  have "L * d * 2 ^ (j - k) \<le> a * 2 ^ k * 2 ^ (j - k)"
    using iL by (simp add: mult_right_mono)
  then have b1: "(L * 2 ^ (j - k)) * d \<le> a * 2 ^ j"
    by (simp add: pj algebra_simps)
  have "a * 2 ^ k * 2 ^ (j - k) \<le> U * d * 2 ^ (j - k)"
    using iU by (simp add: mult_right_mono)
  then have b2: "a * 2 ^ j \<le> (U * 2 ^ (j - k)) * d"
    by (simp add: pj algebra_simps)
  from round_half_even_between [OF assms(2) b1 b2]
  have mb: "L * 2 ^ (j - k) \<le> m" "m \<le> U * 2 ^ (j - k)"
    by (simp_all add: m_def)
  have res: "double_of_quot a d = Inr (m, e)"
    using assms(1) e ne
    by (simp add: double_of_quot_def Let_def e_def [symmetric] j_def [symmetric] m_def)
  have dv: "dval (m, e) = real_of_int m / 2 ^ j"
    by (simp add: dval_def ne j_def)
  have rj: "(2::real) ^ j = 2 ^ k * 2 ^ (j - k)"
    using j by (simp add: power_add [symmetric])
  have "real_of_int (L * 2 ^ (j - k)) \<le> real_of_int m"
    using mb(1) by (simp only: of_int_le_iff)
  then have c1: "real_of_int L / 2 ^ k \<le> real_of_int m / 2 ^ j"
    by (simp add: rj field_simps)
  have "real_of_int m \<le> real_of_int (U * 2 ^ (j - k))"
    using mb(2) by (simp only: of_int_le_iff)
  then have c2: "real_of_int m / 2 ^ j \<le> real_of_int U / 2 ^ k"
    by (simp add: rj field_simps)
  from res dv c1 c2 show ?thesis by simp
qed


lemma dval_neg: "dval (- m, e) = - dval (m, e)"
  by (simp add: dval_def)

lemma double_of_quot_neg:
  "a < 0 \<Longrightarrow> double_of_quot (- a) d = Inr (m, e) \<Longrightarrow> double_of_quot a d = Inr (- m, e)"
  by (auto simp: double_of_quot_def Let_def split: if_splits)

lemma double_of_quot_between:
  assumes "0 < d" and "k \<le> 1074" and "- (2 ^ 53) < L" and "U < 2 ^ 53"
    and lo: "real_of_int L / 2 ^ k \<le> real_of_int a / real_of_int d"
    and hi: "real_of_int a / real_of_int d \<le> real_of_int U / 2 ^ k"
  shows "\<exists>v. double_of_quot a d = Inr v \<and> real_of_int L / 2 ^ k \<le> dval v \<and>
           dval v \<le> real_of_int U / 2 ^ k"
proof -
  consider "0 < a" | "a = 0" | "a < 0" by linarith
  then show ?thesis
  proof cases
    case 1
    from double_of_quot_between_pos [OF 1 assms(1,2,4) lo hi] show ?thesis .
  next
    case 2
    with lo hi show ?thesis
      by (simp add: double_of_quot_def dval_def)
  next
    case 3
    then have pos: "0 < - a" by simp
    have u: "- L < 2 ^ 53" using assms(3) by simp
    have lo': "real_of_int (- U) / 2 ^ k \<le> real_of_int (- a) / real_of_int d"
      using hi by simp
    have hi': "real_of_int (- a) / real_of_int d \<le> real_of_int (- L) / 2 ^ k"
      using lo by simp
    from double_of_quot_between_pos [OF pos assms(1,2) u lo' hi']
    obtain m e where v: "double_of_quot (- a) d = Inr (m, e)"
      and b: "real_of_int (- U) / 2 ^ k \<le> dval (m, e)" "dval (m, e) \<le> real_of_int (- L) / 2 ^ k"
      by auto
    from double_of_quot_neg [OF 3 v] b show ?thesis
      by (simp add: dval_neg)
  qed
qed

lemma dfloor_dval: "dfloor v = \<lfloor>dval v\<rfloor>"
proof -
  have "dval v = real_of_int (fst v * 2 ^ nat (snd v)) / real_of_int (2 ^ nat (- snd v))"
    by (simp add: dval_def)
  then show ?thesis
    by (simp only: floor_divide_of_int_eq dfloor_def)
qed

lemma dadd_one_quot:
  "dadd_one v = double_of_quot a d \<and> 0 < d \<and> real_of_int a / real_of_int d = dval v + 1"
  if "a = fst v * 2 ^ nat (snd v) + 2 ^ nat (- snd v)" and "d = 2 ^ nat (- snd v)"
  using that by (simp add: dadd_one_def dval_def field_simps)

lemma div_between:
  assumes "0 < (s::int)" and "\<bar>a\<bar> < b"
  shows "- b < a div s \<and> a div s < b"
proof -
  have s1: "1 \<le> real_of_int s" using assms(1) by simp
  have "real_of_int \<bar>a\<bar> \<le> real_of_int \<bar>a\<bar> * real_of_int s"
    using s1 by (simp add: mult_le_cancel_left1)
  then have "real_of_int a \<le> real_of_int \<bar>a\<bar> * real_of_int s"
    and "real_of_int (- \<bar>a\<bar>) * real_of_int s \<le> real_of_int a"
    by simp_all
  then have up: "real_of_int a / real_of_int s \<le> real_of_int \<bar>a\<bar>"
    and lo: "real_of_int (- \<bar>a\<bar>) \<le> real_of_int a / real_of_int s"
    using assms(1) by (simp_all add: pos_divide_le_eq pos_le_divide_eq)
  have q: "a div s = \<lfloor>real_of_int a / real_of_int s\<rfloor>"
    by (simp add: floor_divide_of_int_eq)
  have "a div s \<le> \<bar>a\<bar>"
    unfolding q using up by (meson floor_le_iff of_int_floor_le order_trans of_int_le_iff le_floor_iff floor_mono floor_of_int)
  moreover have "- \<bar>a\<bar> \<le> a div s"
    unfolding q using lo by (simp only: le_floor_iff)
  ultimately show ?thesis using assms(2) by linarith
qed

lemma quotient_between:
  assumes "0 < s" and "s \<le> 2 ^ 26"
  shows "real_of_int (a div s * 2 ^ 26) / 2 ^ 26 \<le> real_of_int a / real_of_int s"
    and "real_of_int a / real_of_int s \<le> real_of_int ((a div s + 1) * 2 ^ 26 - 1) / 2 ^ 26"
proof -
  have "real_of_int (a div s) = \<lfloor>real_of_int a / real_of_int s\<rfloor>"
    by (simp add: floor_divide_of_int_eq)
  then show "real_of_int (a div s * 2 ^ 26) / 2 ^ 26 \<le> real_of_int a / real_of_int s"
    by simp
  have a: "a = a div s * s + a mod s" by simp
  have "a mod s \<le> s - 1" using assms(1) by (simp add: zle_diff1_eq)
  with a have "a \<le> a div s * s + s - 1" by linarith
  then have "real_of_int a \<le> real_of_int (a div s * s + s - 1)"
    by (simp only: of_int_le_iff)
  then have "real_of_int a / real_of_int s \<le> real_of_int (a div s) + 1 - 1 / real_of_int s"
    using assms(1) by (simp add: field_simps)
  moreover have "1 / (2::real) ^ 26 \<le> 1 / real_of_int s"
  proof -
    have "real_of_int s \<le> real_of_int (2 ^ 26)" using assms(2) by (simp only: of_int_le_iff)
    then show ?thesis using assms(1) by (simp add: field_simps)
  qed
  ultimately have "real_of_int a / real_of_int s \<le> real_of_int (a div s) + 1 - 1 / 2 ^ 26"
    by linarith
  then show "real_of_int a / real_of_int s \<le> real_of_int ((a div s + 1) * 2 ^ 26 - 1) / 2 ^ 26"
    by (simp add: field_simps)
qed

text \<open>On sizes below \<open>2 ^ 26\<close> the double-precision computation is the exact one.\<close>

lemma truediv_floor_small:
  assumes "0 < s" and "s \<le> 2 ^ 26" and "\<bar>a\<bar> < 2 ^ 26"
  shows "\<exists>v. truediv a (IntV s) = Inr v \<and> dfloor v = a div s \<and>
           real_of_int (a div s) \<le> dval v \<and> dval v \<le> real_of_int (a div s) + 1 - 1 / 2 ^ 26"
proof -
  define q where "q = a div s"
  have qb: "- (2 ^ 26) < q" "q < 2 ^ 26"
    using div_between [OF assms(1,3)] by (simp_all add: q_def)
  have L: "- (2 ^ 53) < q * 2 ^ 26" using qb by simp
  have U: "(q + 1) * 2 ^ 26 - 1 < 2 ^ 53" using qb by simp
  from double_of_quot_between [OF assms(1) _ L U quotient_between [OF assms(1,2), of a, folded q_def], of ]
  obtain v where v: "double_of_quot a s = Inr v"
    and b: "real_of_int (q * 2 ^ 26) / 2 ^ 26 \<le> dval v"
      "dval v \<le> real_of_int ((q + 1) * 2 ^ 26 - 1) / 2 ^ 26"
    by auto
  from b have b': "real_of_int q \<le> dval v" "dval v \<le> real_of_int q + 1 - 1 / 2 ^ 26"
    by (simp_all add: field_simps)
  then have "\<lfloor>dval v\<rfloor> = q"
    by (simp add: floor_eq_iff)
  with v b' assms(1) show ?thesis
    by (simp add: truediv_def dfloor_dval q_def)
qed

lemma f_get_next_size_small:
  assumes "0 < s" and "s \<le> 2 ^ 26" and "\<bar>in_L - k\<bar> < 2 ^ 26"
  shows "f_get_next_size in_L (IntV k) (IntV s) = Inr ((in_L - k) div s + 1)"
proof -
  define q where "q = (in_L - k) div s"
  have qb: "- (2 ^ 26) < q" "q < 2 ^ 26"
    using div_between [OF assms(1,3)] by (simp_all add: q_def)
  from truediv_floor_small [OF assms] obtain v where v: "truediv (in_L - k) (IntV s) = Inr v"
    and b: "real_of_int q \<le> dval v" "dval v \<le> real_of_int q + 1 - 1 / 2 ^ 26"
    by (auto simp: q_def)
  define a' where "a' = fst v * 2 ^ nat (snd v) + 2 ^ nat (- snd v)"
  define d' where "d' = (2::int) ^ nat (- snd v)"
  from dadd_one_quot [OF a'_def d'_def]
  have s: "dadd_one v = double_of_quot a' d'" "0 < d'"
    "real_of_int a' / real_of_int d' = dval v + 1"
    by simp_all
  have lo: "real_of_int ((q + 1) * 2 ^ 26) / 2 ^ 26 \<le> real_of_int a' / real_of_int d'"
    using b(1) by (simp add: s(3))
  have hi: "real_of_int a' / real_of_int d' \<le> real_of_int ((q + 2) * 2 ^ 26 - 1) / 2 ^ 26"
    using b(2) by (simp add: s(3) field_simps)
  have L: "- (2 ^ 53) < (q + 1) * 2 ^ 26" using qb by simp
  have U: "(q + 2) * 2 ^ 26 - 1 < 2 ^ 53" using qb by simp
  from double_of_quot_between [OF s(2) _ L U lo hi]
  obtain y where y: "double_of_quot a' d' = Inr y"
    and c: "real_of_int ((q + 1) * 2 ^ 26) / 2 ^ 26 \<le> dval y"
      "dval y \<le> real_of_int ((q + 2) * 2 ^ 26 - 1) / 2 ^ 26"
    by auto
  from c have "real_of_int (q + 1) \<le> dval y" "dval y < real_of_int (q + 1) + 1"
    by (simp_all add: field_simps)
  then have "\<lfloor>dval y\<rfloor> = q + 1"
    by (simp add: floor_eq_iff)
  with v s(1) y show ?thesis
    by (simp add: f_get_next_size_def dfloor_dval q_def)
qed

lemma py_floor_div_small:
  assumes "0 < s" and "s \<le> 2 ^ 26" and "\<bar>a\<bar> < 2 ^ 26"
  shows "py_floor_div a (IntV s) = Inr (a div s)"
  using truediv_floor_small [OF assms] by (auto simp: py_floor_div_def)

lemma dtrunc_dval: "dtrunc v = (if dval v < 0 then \<lceil>dval v\<rceil> else \<lfloor>dval v\<rfloor>)"
proof -
  define X where "X = \<bar>fst v\<bar> * 2 ^ nat (snd v)"
  define Y where "Y = (2::int) ^ nat (- snd v)"
  have Y: "0 < Y" by (simp add: Y_def)
  have fl: "X div Y = \<lfloor>real_of_int X / real_of_int Y\<rfloor>"
    by (simp only: floor_divide_of_int_eq)
  have t: "dtrunc v = sgn (fst v) * (X div Y)"
    by (simp add: dtrunc_def X_def Y_def)
  show ?thesis
  proof (cases "0 \<le> fst v")
    case True
    then have "dval v = real_of_int X / real_of_int Y"
      by (simp add: dval_def X_def Y_def)
    moreover from True have "0 \<le> dval v"
      by (simp add: dval_def)
    moreover have "sgn (fst v) * (X div Y) = X div Y"
      using True by (cases "fst v = 0") (simp_all add: X_def)
    ultimately show ?thesis
      using t fl by simp
  next
    case False
    then have d: "dval v = - (real_of_int X / real_of_int Y)"
      by (simp add: dval_def X_def Y_def)
    moreover from False have "real_of_int (fst v) * 2 ^ nat (snd v) < 0"
      by (simp add: mult_less_0_iff)
    then have "dval v < 0"
      by (simp add: dval_def divide_neg_pos)
    moreover have "sgn (fst v) * (X div Y) = - (X div Y)"
      using False by simp
    ultimately show ?thesis
      using t fl by (simp add: ceiling_def)
  qed
qed

lemma py_trunc_div_two_small:
  assumes "\<bar>a\<bar> < 2 ^ 53"
  shows "py_trunc_div a (IntV 2) = Inr (if a < 0 then - ((- a) div 2) else a div 2)"
proof -
  have L: "- (2 ^ 53) < a" and U: "a < 2 ^ 53" using assms by simp_all
  have lo: "real_of_int a / 2 ^ 1 \<le> real_of_int a / real_of_int 2" by simp
  have hi: "real_of_int a / real_of_int 2 \<le> real_of_int a / 2 ^ 1" by simp
  from double_of_quot_between [OF _ _ L U lo hi]
  obtain v where v: "double_of_quot a 2 = Inr v" and d: "dval v = real_of_int a / 2"
    by auto
  have "\<lfloor>real_of_int a / 2\<rfloor> = a div 2"
    using floor_divide_of_int_eq [of a 2, where ?'a = real] by simp
  moreover have "\<lceil>real_of_int a / 2\<rceil> = - ((- a) div 2)"
    using floor_divide_of_int_eq [of "- a" 2, where ?'a = real] by (simp add: ceiling_def)
  ultimately have "dtrunc v = (if a < 0 then - ((- a) div 2) else a div 2)"
    by (simp add: dtrunc_dval d)
  with v show ?thesis
    by (simp add: py_trunc_div_def truediv_def)
qed

text \<open>The float literals are the doubles nearest to the decimal numbers.\<close>

lemma float_literals:
  "double_of_quot 2 10 = Inr float_0_2" "double_of_quot 1 1000000 = Inr float_1em6"
  "double_of_quot 0 1 = Inr float_0"
  by (code_simp+)

section \<open>Example calls\<close>

text \<open>One call of each branch, evaluated.\<close>

lemmas small_floats = f_get_next_size_small py_floor_div_small py_trunc_div_two_small

lemmas run_defs = run_simps small_floats fill_in_features_def fill_normalized_shape_def
  warn_padding_stride_def fill_keepdim_def first_two_unless_keepdim_def halve_channels_def
  f_get_activation_def

lemma run_LayerNorm:
  "\<exists>s'. f_parse_component ''LayerNorm'' (ParamDict (empty_param\<lparr>normalized_shape := Some (IntV (- 1))\<rparr>)) 0 (store1 [4, 2, 10]) =
       (Inr (Torch (LayerNorm (ListV [2, 10]) None), 0), s') \<and>
     heap s' 0 = [4, 2, 10] \<and> param_obj s' = ParamDict (empty_param\<lparr>normalized_shape := Some (ListV [2, 10])\<rparr>) \<and>
     next_ref s' = 1 \<and> stdout s' = []"
  by (simp add: run_defs parse_LayerNorm_def)

lemma run_BatchNorm1d:
  "\<exists>s'. f_parse_component ''BatchNorm1d'' (ParamDict (empty_param\<lparr>num_features := Some (- 1)\<rparr>)) 0 (store1 [4, 10]) =
       (Inr (Torch (BatchNorm1d 10 True), 0), s') \<and>
     heap s' 0 = [4, 10] \<and> param_obj s' = ParamDict (empty_param\<lparr>num_features := Some 10, affine := Some True\<rparr>) \<and>
     next_ref s' = 1 \<and> stdout s' = []"
  by (simp add: run_defs parse_BatchNorm1d_def)

lemma run_BatchNorm1dT:
  "\<exists>s'. f_parse_component ''BatchNorm1dT'' (ParamDict (empty_param\<lparr>num_features := Some (- 1)\<rparr>)) 0 (store1 [4, 10, 6]) =
       (Inr (nnBatchNorm1dT (BatchNorm1d 6 True), 0), s') \<and>
     heap s' 0 = [4, 10, 6] \<and> param_obj s' = ParamDict (empty_param\<lparr>num_features := Some 6\<rparr>) \<and>
     next_ref s' = 1 \<and> stdout s' = []"
  by (simp add: run_defs parse_BatchNorm1dT_def)

lemma run_BatchNorm2d:
  "\<exists>s'. f_parse_component ''BatchNorm2d'' (ParamDict (empty_param\<lparr>num_features := Some (- 1)\<rparr>)) 0 (store1 [4, 2, 10, 20]) =
       (Inr (Torch (BatchNorm2d 2), 0), s') \<and>
     heap s' 0 = [4, 2, 10, 20] \<and> param_obj s' = ParamDict (empty_param\<lparr>num_features := Some 2\<rparr>) \<and>
     next_ref s' = 1 \<and> stdout s' = []"
  by (simp add: run_defs parse_BatchNorm2d_def)

lemma run_SincNet:
  "\<exists>s'. f_parse_component ''SincNet'' (ParamDict (empty_param\<lparr>in_channels := Some (- 1), out_channels := Some 8, kernel_size := Some (IntV 3), stride := Some (IntV 2), sr_hz := Some 16000\<rparr>)) 0 (store1 [4, 1, 10]) =
       (Inr (SincConv_fast 1 8 (IntV 3) (IntV 2) 16000, 0), s') \<and>
     heap s' 0 = [4, 8, 4] \<and> param_obj s' = ParamDict (empty_param\<lparr>in_channels := Some 1, out_channels := Some 8, kernel_size := Some (IntV 3), stride := Some (IntV 2), sr_hz := Some 16000\<rparr>) \<and>
     next_ref s' = 1 \<and> stdout s' = []"
  by (simp add: run_defs parse_SincNet_def)

lemma run_Conv1d:
  "\<exists>s'. f_parse_component ''Conv1d'' (ParamDict (empty_param\<lparr>in_channels := Some (- 1), out_channels := Some 8, kernel_size := Some (IntV 3), stride := Some (IntV 2)\<rparr>)) 0 (store1 [4, 2, 10]) =
       (Inr (Torch (Conv1d 2 8 (IntV 3) (IntV 2) (PadNum (IntV 0)) (IntV 1)), 0), s') \<and>
     heap s' 0 = [4, 8, 4] \<and> param_obj s' = ParamDict (empty_param\<lparr>in_channels := Some 2, out_channels := Some 8, kernel_size := Some (IntV 3), stride := Some (IntV 2)\<rparr>) \<and>
     next_ref s' = 1 \<and> stdout s' = []"
  by (simp add: run_defs parse_Conv1d_def)

lemma run_Conv1dTCN:
  "\<exists>s'. f_parse_component ''Conv1dTCN'' (ParamDict (empty_param\<lparr>in_channels := Some (- 1), num_channels := Some ([3, 5])\<rparr>)) 0 (store1 [4, 2, 10]) =
       (Inr (TemporalConvNet_obj (TemporalConvNet_init 2 [3, 5] 2 float_0_2), 0), s') \<and>
     heap s' 0 = [4, 5, 10] \<and> param_obj s' = ParamDict (empty_param\<lparr>in_channels := Some 2, num_channels := Some ([3, 5])\<rparr>) \<and>
     next_ref s' = 1 \<and> stdout s' = []"
  by (simp add: run_defs parse_Conv1dTCN_def)

lemma run_Conv2d:
  "\<exists>s'. f_parse_component ''Conv2d'' (ParamDict (empty_param\<lparr>in_channels := Some (- 1), out_channels := Some 8, kernel_size := Some (ListV [3, 5]), stride := Some (ListV [1, 2])\<rparr>)) 0 (store1 [4, 2, 10, 20]) =
       (Inr (Torch (Conv2d 2 8 (ListV [3, 5]) (ListV [1, 2]) (PadStr ''valid'') 1), 0), s') \<and>
     heap s' 0 = [4, 8, 8, 8] \<and> param_obj s' = ParamDict (empty_param\<lparr>in_channels := Some 2, out_channels := Some 8, kernel_size := Some (ListV [3, 5]), stride := Some (ListV [1, 2]), padding := Some (PadStr ''valid'')\<rparr>) \<and>
     next_ref s' = 1 \<and> stdout s' = []"
  by (simp add: run_defs parse_Conv2d_def)

lemma run_Conv2dDS:
  "\<exists>s'. f_parse_component ''Conv2dDS'' (ParamDict (empty_param\<lparr>in_channels := Some (- 1), out_channels := Some 8, kernel_size := Some (ListV [3, 3]), stride := Some (ListV [1, 1])\<rparr>)) 0 (store1 [4, 2, 10, 20]) =
       (Inr (depthwise_separable_conv_obj (depthwise_separable_conv_init 2 1 8 (ListV [3, 3]) (PadStr ''valid'')), 0), s') \<and>
     heap s' 0 = [4, 8, 8, 18] \<and> param_obj s' = ParamDict (empty_param\<lparr>in_channels := Some 2, out_channels := Some 8, kernel_size := Some (ListV [3, 3]), stride := Some (ListV [1, 1]), padding := Some (PadStr ''valid'')\<rparr>) \<and>
     next_ref s' = 1 \<and> stdout s' = []"
  by (simp add: run_defs parse_Conv2dDS_def)

lemma run_Conv2dRes:
  "\<exists>s'. f_parse_component ''Conv2dRes'' (ParamDict (empty_param\<lparr>in_channels := Some (- 1), out_channels := Some 8, kernel_size := Some (IntV 3), stride := Some (IntV 1), padding := Some (PadStr ''same'')\<rparr>)) 0 (store1 [4, 2, 10, 20]) =
       (Inr (ResidualBlock_obj (ResidualBlock_init 2 8 (IntV 3) 1), 0), s') \<and>
     heap s' 0 = [4, 8, 10, 20] \<and> param_obj s' = ParamDict (empty_param\<lparr>in_channels := Some 2, out_channels := Some 8, kernel_size := Some (IntV 3), stride := Some (IntV 1), padding := Some (PadStr ''same'')\<rparr>) \<and>
     next_ref s' = 1 \<and> stdout s' = []"
  by (simp add: run_defs parse_Conv2dRes_def)

lemma run_Conv2dNext:
  "\<exists>s'. f_parse_component ''Conv2dNext'' (ParamDict (empty_param\<lparr>in_channels := Some (- 1), out_channels := Some 2, stride := Some (IntV 1), padding := Some (PadStr ''same'')\<rparr>)) 0 (store1 [4, 2, 10, 20]) =
       (Inr (ConvNeXtBlock_obj (ConvNeXtBlock_init 2 2 7 float_0), 0), s') \<and>
     heap s' 0 = [4, 2, 10, 20] \<and> param_obj s' = ParamDict (empty_param\<lparr>in_channels := Some 2, out_channels := Some 2, stride := Some (IntV 1), padding := Some (PadStr ''same'')\<rparr>) \<and>
     next_ref s' = 1 \<and> stdout s' = []"
  by (simp add: run_defs parse_Conv2dNext_def)

lemma run_ConvTranspose2d:
  "\<exists>s'. f_parse_component ''ConvTranspose2d'' (ParamDict (empty_param\<lparr>in_channels := Some (- 1), out_channels := Some 8, kernel_size := Some (ListV [2, 2]), stride := Some (ListV [2, 2])\<rparr>)) 0 (store1 [4, 2, 10, 20]) =
       (Inr (Torch (ConvTranspose2d 2 8 (ListV [2, 2]) (ListV [2, 2])), 0), s') \<and>
     heap s' 0 = [4, 8, 20, 40] \<and> param_obj s' = ParamDict (empty_param\<lparr>in_channels := Some 2, out_channels := Some 8, kernel_size := Some (ListV [2, 2]), stride := Some (ListV [2, 2])\<rparr>) \<and>
     next_ref s' = 1 \<and> stdout s' = []"
  by (simp add: run_defs parse_ConvTranspose2d_def)

lemma run_MaxPool1d:
  "\<exists>s'. f_parse_component ''MaxPool1d'' (ParamDict (empty_param\<lparr>kernel_size := Some (IntV 2)\<rparr>)) 0 (store1 [4, 2, 10]) =
       (Inr (Torch (MaxPool1d (IntV 2) (IntV 2)), 0), s') \<and>
     heap s' 0 = [4, 2, 5] \<and> param_obj s' = ParamDict (empty_param\<lparr>kernel_size := Some (IntV 2), stride := Some (IntV 2)\<rparr>) \<and>
     next_ref s' = 1 \<and> stdout s' = []"
  by (simp add: run_defs parse_MaxPool1d_def)

lemma run_MaxPool2d:
  "\<exists>s'. f_parse_component ''MaxPool2d'' (ParamDict (empty_param\<lparr>kernel_size := Some (ListV [2, 2])\<rparr>)) 0 (store1 [4, 2, 10, 20]) =
       (Inr (Torch (MaxPool2d (ListV [2, 2]) (ListV [2, 2])), 0), s') \<and>
     heap s' 0 = [4, 2, 5, 10] \<and> param_obj s' = ParamDict (empty_param\<lparr>kernel_size := Some (ListV [2, 2]), stride := Some (ListV [2, 2])\<rparr>) \<and>
     next_ref s' = 1 \<and> stdout s' = []"
  by (simp add: run_defs parse_MaxPool2d_def)

lemma run_Linear:
  "\<exists>s'. f_parse_component ''Linear'' (ParamDict (empty_param\<lparr>in_features := Some (- 1), out_features := Some 7\<rparr>)) 0 (store1 [4, 10]) =
       (Inr (Torch (Linear 10 7), 0), s') \<and>
     heap s' 0 = [4, 7] \<and> param_obj s' = ParamDict (empty_param\<lparr>in_features := Some 10, out_features := Some 7\<rparr>) \<and>
     next_ref s' = 1 \<and> stdout s' = []"
  by (simp add: run_defs parse_Linear_def)

lemma run_Activation:
  "\<exists>s'. f_parse_component ''Activation'' (ParamStr ''ReLU'') 0 (store1 [4, 10]) =
       (Inr (Torch ReLU, 0), s') \<and>
     heap s' 0 = [4, 10] \<and> param_obj s' = ParamStr ''ReLU'' \<and>
     next_ref s' = 1 \<and> stdout s' = []"
  by (simp add: run_defs parse_Activation_def)

lemma run_Dropout:
  "\<exists>s'. f_parse_component ''Dropout'' (ParamDict (empty_param\<lparr>dropout_p := Some float_0_2\<rparr>)) 0 (store1 [4, 10]) =
       (Inr (Torch (Dropout float_0_2), 0), s') \<and>
     heap s' 0 = [4, 10] \<and> param_obj s' = ParamDict (empty_param\<lparr>dropout_p := Some float_0_2\<rparr>) \<and>
     next_ref s' = 1 \<and> stdout s' = []"
  by (simp add: run_defs parse_Dropout_def)

lemma run_Flatten:
  "\<exists>s'. f_parse_component ''Flatten'' (ParamDict (empty_param\<lparr>start_dim := Some 1\<rparr>)) 0 (store1 [4, 2, 10]) =
       (Inr (Torch (Flatten 1), 1), s') \<and>
     heap s' 1 = [4, 20] \<and> param_obj s' = ParamDict (empty_param\<lparr>start_dim := Some 1\<rparr>) \<and>
     next_ref s' = 2 \<and> stdout s' = []"
  by (simp add: run_defs parse_Flatten_def)

lemma run_Squeeze:
  "\<exists>s'. f_parse_component ''Squeeze'' (ParamDict (empty_param\<lparr>dim := Some 2\<rparr>)) 0 (store1 [4, 2, 1]) =
       (Inr (nnSqueeze 2, 1), s') \<and>
     heap s' 1 = [4, 2] \<and> param_obj s' = ParamDict (empty_param\<lparr>dim := Some 2\<rparr>) \<and>
     next_ref s' = 2 \<and> stdout s' = []"
  by (simp add: run_defs parse_Squeeze_def)

lemma run_Permute:
  "\<exists>s'. f_parse_component ''Permute'' (ParamDict (empty_param\<lparr>shape := Some ([0, 2, 1])\<rparr>)) 0 (store1 [4, 2, 10]) =
       (Inr (nnPermute [0, 2, 1], 1), s') \<and>
     heap s' 1 = [4, 10, 2] \<and> param_obj s' = ParamDict (empty_param\<lparr>shape := Some ([0, 2, 1])\<rparr>) \<and>
     next_ref s' = 2 \<and> stdout s' = []"
  by (simp add: run_defs parse_Permute_def)

lemma run_Mean:
  "\<exists>s'. f_parse_component ''Mean'' (ParamDict (empty_param\<lparr>dim := Some 2\<rparr>)) 0 (store1 [4, 2, 10]) =
       (Inr (nnMean 2 False, 1), s') \<and>
     heap s' 1 = [4, 2] \<and> param_obj s' = ParamDict (empty_param\<lparr>dim := Some 2, keepdim := Some False\<rparr>) \<and>
     next_ref s' = 2 \<and> stdout s' = []"
  by (simp add: run_defs parse_Mean_def)

lemma run_Max:
  "\<exists>s'. f_parse_component ''Max'' (ParamDict (empty_param\<lparr>dim := Some 2\<rparr>)) 0 (store1 [4, 2, 10]) =
       (Inr (nnMax 2 False, 1), s') \<and>
     heap s' 1 = [4, 2] \<and> param_obj s' = ParamDict (empty_param\<lparr>dim := Some 2, keepdim := Some False\<rparr>) \<and>
     next_ref s' = 2 \<and> stdout s' = []"
  by (simp add: run_defs parse_Max_def)

lemma run_AutoPoolWeight:
  "\<exists>s'. f_parse_component ''AutoPoolWeight'' (ParamDict empty_param) 0 (store1 [4, 2, 10, 20]) =
       (Inr (nnAutoPoolWeight, 0), s') \<and>
     heap s' 0 = [4, 2, 10, 1] \<and> param_obj s' = ParamDict empty_param \<and>
     next_ref s' = 1 \<and> stdout s' = []"
  by (simp add: run_defs parse_AutoPoolWeight_def)

lemma run_AutoPoolWeightSplit:
  "\<exists>s'. f_parse_component ''AutoPoolWeightSplit'' (ParamDict empty_param) 0 (store1 [4, 6, 10, 20]) =
       (Inr (nnAutoPoolWeightSplit 6, 0), s') \<and>
     heap s' 0 = [4, 3, 10, 1] \<and> param_obj s' = ParamDict empty_param \<and>
     next_ref s' = 1 \<and> stdout s' = []"
  by (simp add: run_defs parse_AutoPoolWeightSplit_def)

lemma run_SoftmaxWeight:
  "\<exists>s'. f_parse_component ''SoftmaxWeight'' (ParamDict empty_param) 0 (store1 [4, 6, 10, 20]) =
       (Inr (nnSoftmaxWeight 6, 0), s') \<and>
     heap s' 0 = [4, 3, 10, 1] \<and> param_obj s' = ParamDict empty_param \<and>
     next_ref s' = 1 \<and> stdout s' = []"
  by (simp add: run_defs parse_SoftmaxWeight_def)

lemma run_AbsLayer:
  "\<exists>s'. f_parse_component ''AbsLayer'' (ParamDict empty_param) 0 (store1 [4, 2, 10]) =
       (Inr (nnAbs, 0), s') \<and>
     heap s' 0 = [4, 2, 10] \<and> param_obj s' = ParamDict empty_param \<and>
     next_ref s' = 1 \<and> stdout s' = []"
  by (simp add: run_defs parse_AbsLayer_def)

lemma run_DoubleChannel:
  "\<exists>s'. f_parse_component ''DoubleChannel'' (ParamDict empty_param) 0 (store1 [4, 2, 10, 20]) =
       (Inr (nnEmpty, 0), s') \<and>
     heap s' 0 = [4, 4, 10, 20] \<and> param_obj s' = ParamDict empty_param \<and>
     next_ref s' = 1 \<and> stdout s' = []"
  by (simp add: run_defs parse_DoubleChannel_def)

section \<open>The output size of a convolution\<close>







section \<open>Unknown tags\<close>

text \<open>
  C8. A tag outside the supported set is not reported as an error value: the call prints
  one message, changes nothing else, and raises \<open>UnboundLocalError\<close> at the
  \<^verbatim>\<open>return\<close>; \<open>f_get_activation\<close> raises the same error for every argument that is
  not one of the five activation names.
\<close>

theorem unknown_tag_raises:
  "(module_type \<notin> set supported_tags \<longrightarrow>
      f_parse_component module_type param r s =
        (Inl UnboundLocalError,
         s\<lparr>param_obj := param, stdout := stdout s @ [Unknown_module module_type]\<rparr>))
   \<and> (activation_type \<notin> ParamStr ` activation_names \<longrightarrow>
        f_get_activation activation_type = Inl UnboundLocalError)"
  (is "?P1 \<and> ?P2")
proof -
  have p1: ?P1
    by (simp add: supported_tags_def parse_tag parse_branch_def parse_unknown_def thn_def
        bnd_def print_def raise_def)
  have p2: ?P2
    by (auto simp: f_get_activation_def activation_names_def)
  from p1 p2 show ?thesis by (intro conjI)
qed

theorem unknown_tag_raises_witness:
  "f_parse_component ''Tanh'' (ParamDict empty_param) 0 (store1 [1, 2]) =
     (Inl UnboundLocalError,
      (store1 [1, 2])\<lparr>param_obj := ParamDict empty_param, stdout := [Unknown_module ''Tanh'']\<rparr>)
   \<and> f_get_activation (ParamStr ''Tanh'') = Inl UnboundLocalError"
  using unknown_tag_raises [of "''Tanh''" "ParamDict empty_param" 0 "store1 [1, 2]"
      "ParamStr ''Tanh''"]
  by (simp add: supported_tags_def activation_names_def store1_def image_iff)

section \<open>The stack of temporal blocks\<close>





section \<open>The skip path of the residual blocks\<close>



section \<open>Dispatch by tag\<close>

lemma f_get_activation_cases:
  "f_get_activation a = Inr m \<Longrightarrow>
     (a = ParamStr ''Sigmoid'' \<and> m = Torch Sigmoid) \<or>
     (a = ParamStr ''Softmax'' \<and> m = Torch Softmax) \<or>
     (a = ParamStr ''ReLU'' \<and> m = Torch ReLU) \<or>
     (a = ParamStr ''LeakyReLU'' \<and> m = Torch LeakyReLU) \<or>
     (a = ParamStr ''PReLU'' \<and> m = Torch PReLU)"
  by (simp add: f_get_activation_def split: if_splits)

lemma parse_branch_table:
  "parse_branch t r = (case map_of branches t of Some b \<Rightarrow> b r | None \<Rightarrow> parse_unknown t r)"
  by (simp add: parse_branch_def branches_def)


lemma class_LayerNorm:
  "parse_LayerNorm r s = (Inr (m, r'), s') \<Longrightarrow> class_name m = ''LayerNorm''"
  unfolding parse_LayerNorm_def
  by (auto dest!: thn_drop bnd_drop simp: ret_def class_name_def layer_class_def)


lemma class_BatchNorm1d:
  "parse_BatchNorm1d r s = (Inr (m, r'), s') \<Longrightarrow> class_name m = ''BatchNorm1d''"
  unfolding parse_BatchNorm1d_def
  by (auto dest!: thn_drop bnd_drop simp: ret_def class_name_def layer_class_def)


lemma class_BatchNorm1dT:
  "parse_BatchNorm1dT r s = (Inr (m, r'), s') \<Longrightarrow> class_name m = ''nnBatchNorm1dT''"
  unfolding parse_BatchNorm1dT_def
  by (auto dest!: thn_drop bnd_drop simp: ret_def class_name_def layer_class_def)


lemma class_BatchNorm2d:
  "parse_BatchNorm2d r s = (Inr (m, r'), s') \<Longrightarrow> class_name m = ''BatchNorm2d''"
  unfolding parse_BatchNorm2d_def
  by (auto dest!: thn_drop bnd_drop simp: ret_def class_name_def layer_class_def)


lemma class_SincNet:
  "parse_SincNet r s = (Inr (m, r'), s') \<Longrightarrow> class_name m = ''SincConv_fast''"
  unfolding parse_SincNet_def
  by (auto dest!: thn_drop bnd_drop simp: ret_def class_name_def layer_class_def)


lemma class_Conv1d:
  "parse_Conv1d r s = (Inr (m, r'), s') \<Longrightarrow> class_name m = ''Conv1d''"
  unfolding parse_Conv1d_def
  by (auto dest!: thn_drop bnd_drop simp: ret_def class_name_def layer_class_def)


lemma class_Conv1dTCN:
  "parse_Conv1dTCN r s = (Inr (m, r'), s') \<Longrightarrow> class_name m = ''TemporalConvNet''"
  unfolding parse_Conv1dTCN_def
  by (auto dest!: thn_drop bnd_drop simp: ret_def class_name_def layer_class_def)


lemma class_Conv2d:
  "parse_Conv2d r s = (Inr (m, r'), s') \<Longrightarrow> class_name m = ''Conv2d''"
  unfolding parse_Conv2d_def
  by (auto dest!: thn_drop bnd_drop simp: ret_def class_name_def layer_class_def)


lemma class_Conv2dDS:
  "parse_Conv2dDS r s = (Inr (m, r'), s') \<Longrightarrow> class_name m = ''depthwise_separable_conv''"
  unfolding parse_Conv2dDS_def
  by (auto dest!: thn_drop bnd_drop simp: ret_def class_name_def layer_class_def)


lemma class_Conv2dRes:
  "parse_Conv2dRes r s = (Inr (m, r'), s') \<Longrightarrow> class_name m = ''ResidualBlock''"
  unfolding parse_Conv2dRes_def
  by (auto dest!: thn_drop bnd_drop simp: ret_def class_name_def layer_class_def)


lemma class_Conv2dNext:
  "parse_Conv2dNext r s = (Inr (m, r'), s') \<Longrightarrow> class_name m = ''ConvNeXtBlock''"
  unfolding parse_Conv2dNext_def
  by (auto dest!: thn_drop bnd_drop simp: ret_def class_name_def layer_class_def)


lemma class_ConvTranspose2d:
  "parse_ConvTranspose2d r s = (Inr (m, r'), s') \<Longrightarrow> class_name m = ''ConvTranspose2d''"
  unfolding parse_ConvTranspose2d_def
  by (auto dest!: thn_drop bnd_drop simp: ret_def class_name_def layer_class_def)


lemma class_MaxPool1d:
  "parse_MaxPool1d r s = (Inr (m, r'), s') \<Longrightarrow> class_name m = ''MaxPool1d''"
  unfolding parse_MaxPool1d_def
  by (auto dest!: thn_drop bnd_drop simp: ret_def class_name_def layer_class_def)


lemma class_MaxPool2d:
  "parse_MaxPool2d r s = (Inr (m, r'), s') \<Longrightarrow> class_name m = ''MaxPool2d''"
  unfolding parse_MaxPool2d_def
  by (auto dest!: thn_drop bnd_drop simp: ret_def class_name_def layer_class_def)


lemma class_Linear:
  "parse_Linear r s = (Inr (m, r'), s') \<Longrightarrow> class_name m = ''Linear''"
  unfolding parse_Linear_def
  by (auto dest!: thn_drop bnd_drop simp: ret_def class_name_def layer_class_def)


lemma class_Activation:
  assumes "parse_Activation r s = (Inr (m, r'), s')"
  shows "param_obj s = ParamStr (class_name m) \<and> class_name m \<in> activation_names"
proof -
  from assms have "f_get_activation (param_obj s) = Inr m"
    by (simp add: parse_Activation_def bnd_def get_param_def lift_def ret_def split: sum.splits)
  from f_get_activation_cases [OF this] show ?thesis
    by (elim disjE conjE) (simp_all add: class_name_def layer_class_def activation_names_def)
qed


lemma class_Dropout:
  "parse_Dropout r s = (Inr (m, r'), s') \<Longrightarrow> class_name m = ''Dropout''"
  unfolding parse_Dropout_def
  by (auto dest!: thn_drop bnd_drop simp: ret_def class_name_def layer_class_def)


lemma class_Flatten:
  "parse_Flatten r s = (Inr (m, r'), s') \<Longrightarrow> class_name m = ''Flatten''"
  unfolding parse_Flatten_def
  by (auto dest!: thn_drop bnd_drop simp: ret_def class_name_def layer_class_def)


lemma class_Squeeze:
  "parse_Squeeze r s = (Inr (m, r'), s') \<Longrightarrow> class_name m = ''nnSqueeze''"
  unfolding parse_Squeeze_def
  by (auto dest!: thn_drop bnd_drop simp: ret_def class_name_def layer_class_def)


lemma class_Permute:
  "parse_Permute r s = (Inr (m, r'), s') \<Longrightarrow> class_name m = ''nnPermute''"
  unfolding parse_Permute_def
  by (auto dest!: thn_drop bnd_drop simp: ret_def class_name_def layer_class_def)


lemma class_Mean:
  "parse_Mean r s = (Inr (m, r'), s') \<Longrightarrow> class_name m = ''nnMean''"
  unfolding parse_Mean_def
  by (auto dest!: thn_drop bnd_drop simp: ret_def class_name_def layer_class_def)


lemma class_Max:
  "parse_Max r s = (Inr (m, r'), s') \<Longrightarrow> class_name m = ''nnMax''"
  unfolding parse_Max_def
  by (auto dest!: thn_drop bnd_drop simp: ret_def class_name_def layer_class_def)


lemma class_AutoPoolWeight:
  "parse_AutoPoolWeight r s = (Inr (m, r'), s') \<Longrightarrow> class_name m = ''nnAutoPoolWeight''"
  unfolding parse_AutoPoolWeight_def
  by (auto dest!: thn_drop bnd_drop simp: ret_def class_name_def layer_class_def)


lemma class_AutoPoolWeightSplit:
  "parse_AutoPoolWeightSplit r s = (Inr (m, r'), s') \<Longrightarrow> class_name m = ''nnAutoPoolWeightSplit''"
  unfolding parse_AutoPoolWeightSplit_def
  by (auto dest!: thn_drop bnd_drop simp: ret_def class_name_def layer_class_def)


lemma class_SoftmaxWeight:
  "parse_SoftmaxWeight r s = (Inr (m, r'), s') \<Longrightarrow> class_name m = ''nnSoftmaxWeight''"
  unfolding parse_SoftmaxWeight_def
  by (auto dest!: thn_drop bnd_drop simp: ret_def class_name_def layer_class_def)


lemma class_AbsLayer:
  "parse_AbsLayer r s = (Inr (m, r'), s') \<Longrightarrow> class_name m = ''nnAbs''"
  unfolding parse_AbsLayer_def
  by (auto dest!: thn_drop bnd_drop simp: ret_def class_name_def layer_class_def)


lemma class_DoubleChannel:
  "parse_DoubleChannel r s = (Inr (m, r'), s') \<Longrightarrow> class_name m = ''nnEmpty''"
  unfolding parse_DoubleChannel_def
  by (auto dest!: thn_drop bnd_drop simp: ret_def class_name_def layer_class_def)


text \<open>
  C3. When \<open>f_parse_component\<close> returns for a tag, the tag is one of the supported tags
  and the module it returns is an object of the class that the branch of this tag
  constructs (for \<open>Activation\<close>, the activation class that the parameter names); the tags
  of the branches are pairwise distinct, and the branch taken is the one the table gives
  for the tag.
\<close>

theorem dispatch_by_tag:
  "(f_parse_component t p r s = (Inr (m, r'), s') \<longrightarrow>
      t \<in> set supported_tags \<and>
      (if t = ''Activation''
       then p = ParamStr (class_name m) \<and> class_name m \<in> activation_names
       else tag_constructor t = Some (class_name m)))
   \<and> distinct (map fst branches)
   \<and> parse_branch t r = (case map_of branches t of Some b \<Rightarrow> b r | None \<Rightarrow> parse_unknown t r)"
  (is "?P1 \<and> ?P2 \<and> ?P4")
proof -
  have p1: ?P1
  proof
    assume a: "f_parse_component t p r s = (Inr (m, r'), s')"
    let ?s = "s\<lparr>param_obj := p\<rparr>"
    from a have b: "parse_branch t r ?s = (Inr (m, r'), s')"
      by (simp add: parse_tag)
    consider
      (LayerNorm) "t = ''LayerNorm''"
      | (BatchNorm1d) "t = ''BatchNorm1d''"
      | (BatchNorm1dT) "t = ''BatchNorm1dT''"
      | (BatchNorm2d) "t = ''BatchNorm2d''"
      | (SincNet) "t = ''SincNet''"
      | (Conv1d) "t = ''Conv1d''"
      | (Conv1dTCN) "t = ''Conv1dTCN''"
      | (Conv2d) "t = ''Conv2d''"
      | (Conv2dDS) "t = ''Conv2dDS''"
      | (Conv2dRes) "t = ''Conv2dRes''"
      | (Conv2dNext) "t = ''Conv2dNext''"
      | (ConvTranspose2d) "t = ''ConvTranspose2d''"
      | (MaxPool1d) "t = ''MaxPool1d''"
      | (MaxPool2d) "t = ''MaxPool2d''"
      | (Linear) "t = ''Linear''"
      | (Activation) "t = ''Activation''"
      | (Dropout) "t = ''Dropout''"
      | (Flatten) "t = ''Flatten''"
      | (Squeeze) "t = ''Squeeze''"
      | (Permute) "t = ''Permute''"
      | (Mean) "t = ''Mean''"
      | (Max) "t = ''Max''"
      | (AutoPoolWeight) "t = ''AutoPoolWeight''"
      | (AutoPoolWeightSplit) "t = ''AutoPoolWeightSplit''"
      | (SoftmaxWeight) "t = ''SoftmaxWeight''"
      | (AbsLayer) "t = ''AbsLayer''"
      | (DoubleChannel) "t = ''DoubleChannel''"
      | (unknown) "t \<notin> set supported_tags"

      by (auto simp: supported_tags_def)
    then show "t \<in> set supported_tags \<and>
      (if t = ''Activation''
       then p = ParamStr (class_name m) \<and> class_name m \<in> activation_names
       else tag_constructor t = Some (class_name m))"
    proof cases
      case LayerNorm
      with b have "parse_LayerNorm r ?s = (Inr (m, r'), s')"
        by (simp add: parse_branch_def)
      from class_LayerNorm [OF this] LayerNorm show ?thesis
        by (simp add: tag_constructor_def supported_tags_def)
    next
      case BatchNorm1d
      with b have "parse_BatchNorm1d r ?s = (Inr (m, r'), s')"
        by (simp add: parse_branch_def)
      from class_BatchNorm1d [OF this] BatchNorm1d show ?thesis
        by (simp add: tag_constructor_def supported_tags_def)
    next
      case BatchNorm1dT
      with b have "parse_BatchNorm1dT r ?s = (Inr (m, r'), s')"
        by (simp add: parse_branch_def)
      from class_BatchNorm1dT [OF this] BatchNorm1dT show ?thesis
        by (simp add: tag_constructor_def supported_tags_def)
    next
      case BatchNorm2d
      with b have "parse_BatchNorm2d r ?s = (Inr (m, r'), s')"
        by (simp add: parse_branch_def)
      from class_BatchNorm2d [OF this] BatchNorm2d show ?thesis
        by (simp add: tag_constructor_def supported_tags_def)
    next
      case SincNet
      with b have "parse_SincNet r ?s = (Inr (m, r'), s')"
        by (simp add: parse_branch_def)
      from class_SincNet [OF this] SincNet show ?thesis
        by (simp add: tag_constructor_def supported_tags_def)
    next
      case Conv1d
      with b have "parse_Conv1d r ?s = (Inr (m, r'), s')"
        by (simp add: parse_branch_def)
      from class_Conv1d [OF this] Conv1d show ?thesis
        by (simp add: tag_constructor_def supported_tags_def)
    next
      case Conv1dTCN
      with b have "parse_Conv1dTCN r ?s = (Inr (m, r'), s')"
        by (simp add: parse_branch_def)
      from class_Conv1dTCN [OF this] Conv1dTCN show ?thesis
        by (simp add: tag_constructor_def supported_tags_def)
    next
      case Conv2d
      with b have "parse_Conv2d r ?s = (Inr (m, r'), s')"
        by (simp add: parse_branch_def)
      from class_Conv2d [OF this] Conv2d show ?thesis
        by (simp add: tag_constructor_def supported_tags_def)
    next
      case Conv2dDS
      with b have "parse_Conv2dDS r ?s = (Inr (m, r'), s')"
        by (simp add: parse_branch_def)
      from class_Conv2dDS [OF this] Conv2dDS show ?thesis
        by (simp add: tag_constructor_def supported_tags_def)
    next
      case Conv2dRes
      with b have "parse_Conv2dRes r ?s = (Inr (m, r'), s')"
        by (simp add: parse_branch_def)
      from class_Conv2dRes [OF this] Conv2dRes show ?thesis
        by (simp add: tag_constructor_def supported_tags_def)
    next
      case Conv2dNext
      with b have "parse_Conv2dNext r ?s = (Inr (m, r'), s')"
        by (simp add: parse_branch_def)
      from class_Conv2dNext [OF this] Conv2dNext show ?thesis
        by (simp add: tag_constructor_def supported_tags_def)
    next
      case ConvTranspose2d
      with b have "parse_ConvTranspose2d r ?s = (Inr (m, r'), s')"
        by (simp add: parse_branch_def)
      from class_ConvTranspose2d [OF this] ConvTranspose2d show ?thesis
        by (simp add: tag_constructor_def supported_tags_def)
    next
      case MaxPool1d
      with b have "parse_MaxPool1d r ?s = (Inr (m, r'), s')"
        by (simp add: parse_branch_def)
      from class_MaxPool1d [OF this] MaxPool1d show ?thesis
        by (simp add: tag_constructor_def supported_tags_def)
    next
      case MaxPool2d
      with b have "parse_MaxPool2d r ?s = (Inr (m, r'), s')"
        by (simp add: parse_branch_def)
      from class_MaxPool2d [OF this] MaxPool2d show ?thesis
        by (simp add: tag_constructor_def supported_tags_def)
    next
      case Linear
      with b have "parse_Linear r ?s = (Inr (m, r'), s')"
        by (simp add: parse_branch_def)
      from class_Linear [OF this] Linear show ?thesis
        by (simp add: tag_constructor_def supported_tags_def)
    next
      case Activation
      with b have "parse_Activation r ?s = (Inr (m, r'), s')"
        by (simp add: parse_branch_def)
      from class_Activation [OF this] Activation show ?thesis
        by (simp add: supported_tags_def)
    next
      case Dropout
      with b have "parse_Dropout r ?s = (Inr (m, r'), s')"
        by (simp add: parse_branch_def)
      from class_Dropout [OF this] Dropout show ?thesis
        by (simp add: tag_constructor_def supported_tags_def)
    next
      case Flatten
      with b have "parse_Flatten r ?s = (Inr (m, r'), s')"
        by (simp add: parse_branch_def)
      from class_Flatten [OF this] Flatten show ?thesis
        by (simp add: tag_constructor_def supported_tags_def)
    next
      case Squeeze
      with b have "parse_Squeeze r ?s = (Inr (m, r'), s')"
        by (simp add: parse_branch_def)
      from class_Squeeze [OF this] Squeeze show ?thesis
        by (simp add: tag_constructor_def supported_tags_def)
    next
      case Permute
      with b have "parse_Permute r ?s = (Inr (m, r'), s')"
        by (simp add: parse_branch_def)
      from class_Permute [OF this] Permute show ?thesis
        by (simp add: tag_constructor_def supported_tags_def)
    next
      case Mean
      with b have "parse_Mean r ?s = (Inr (m, r'), s')"
        by (simp add: parse_branch_def)
      from class_Mean [OF this] Mean show ?thesis
        by (simp add: tag_constructor_def supported_tags_def)
    next
      case Max
      with b have "parse_Max r ?s = (Inr (m, r'), s')"
        by (simp add: parse_branch_def)
      from class_Max [OF this] Max show ?thesis
        by (simp add: tag_constructor_def supported_tags_def)
    next
      case AutoPoolWeight
      with b have "parse_AutoPoolWeight r ?s = (Inr (m, r'), s')"
        by (simp add: parse_branch_def)
      from class_AutoPoolWeight [OF this] AutoPoolWeight show ?thesis
        by (simp add: tag_constructor_def supported_tags_def)
    next
      case AutoPoolWeightSplit
      with b have "parse_AutoPoolWeightSplit r ?s = (Inr (m, r'), s')"
        by (simp add: parse_branch_def)
      from class_AutoPoolWeightSplit [OF this] AutoPoolWeightSplit show ?thesis
        by (simp add: tag_constructor_def supported_tags_def)
    next
      case SoftmaxWeight
      with b have "parse_SoftmaxWeight r ?s = (Inr (m, r'), s')"
        by (simp add: parse_branch_def)
      from class_SoftmaxWeight [OF this] SoftmaxWeight show ?thesis
        by (simp add: tag_constructor_def supported_tags_def)
    next
      case AbsLayer
      with b have "parse_AbsLayer r ?s = (Inr (m, r'), s')"
        by (simp add: parse_branch_def)
      from class_AbsLayer [OF this] AbsLayer show ?thesis
        by (simp add: tag_constructor_def supported_tags_def)
    next
      case DoubleChannel
      with b have "parse_DoubleChannel r ?s = (Inr (m, r'), s')"
        by (simp add: parse_branch_def)
      from class_DoubleChannel [OF this] DoubleChannel show ?thesis
        by (simp add: tag_constructor_def supported_tags_def)
    next
      case unknown
      with b show ?thesis
        by (simp add: supported_tags_def parse_branch_def parse_unknown_def py_Inr)
    qed
  qed
  have p2: ?P2
    by (simp add: branches_def)
  have p4: ?P4
    by (rule parse_branch_table)
  from p1 p2 p4 show ?thesis by (intro conjI)
qed

theorem dispatch_by_tag_witness:
  "(\<exists>m r' s'. f_parse_component ''LayerNorm'' (ParamDict (empty_param\<lparr>normalized_shape := Some (IntV (- 1))\<rparr>)) 0 (store1 [4, 2, 10]) =
       (Inr (m, r'), s') \<and> class_name m = ''LayerNorm'')
   \<and> (\<exists>m r' s'. f_parse_component ''BatchNorm1d'' (ParamDict (empty_param\<lparr>num_features := Some (- 1)\<rparr>)) 0 (store1 [4, 10]) =
       (Inr (m, r'), s') \<and> class_name m = ''BatchNorm1d'')
   \<and> (\<exists>m r' s'. f_parse_component ''BatchNorm1dT'' (ParamDict (empty_param\<lparr>num_features := Some (- 1)\<rparr>)) 0 (store1 [4, 10, 6]) =
       (Inr (m, r'), s') \<and> class_name m = ''nnBatchNorm1dT'')
   \<and> (\<exists>m r' s'. f_parse_component ''BatchNorm2d'' (ParamDict (empty_param\<lparr>num_features := Some (- 1)\<rparr>)) 0 (store1 [4, 2, 10, 20]) =
       (Inr (m, r'), s') \<and> class_name m = ''BatchNorm2d'')
   \<and> (\<exists>m r' s'. f_parse_component ''SincNet'' (ParamDict (empty_param\<lparr>in_channels := Some (- 1), out_channels := Some 8, kernel_size := Some (IntV 3), stride := Some (IntV 2), sr_hz := Some 16000\<rparr>)) 0 (store1 [4, 1, 10]) =
       (Inr (m, r'), s') \<and> class_name m = ''SincConv_fast'')
   \<and> (\<exists>m r' s'. f_parse_component ''Conv1d'' (ParamDict (empty_param\<lparr>in_channels := Some (- 1), out_channels := Some 8, kernel_size := Some (IntV 3), stride := Some (IntV 2)\<rparr>)) 0 (store1 [4, 2, 10]) =
       (Inr (m, r'), s') \<and> class_name m = ''Conv1d'')
   \<and> (\<exists>m r' s'. f_parse_component ''Conv1dTCN'' (ParamDict (empty_param\<lparr>in_channels := Some (- 1), num_channels := Some ([3, 5])\<rparr>)) 0 (store1 [4, 2, 10]) =
       (Inr (m, r'), s') \<and> class_name m = ''TemporalConvNet'')
   \<and> (\<exists>m r' s'. f_parse_component ''Conv2d'' (ParamDict (empty_param\<lparr>in_channels := Some (- 1), out_channels := Some 8, kernel_size := Some (ListV [3, 5]), stride := Some (ListV [1, 2])\<rparr>)) 0 (store1 [4, 2, 10, 20]) =
       (Inr (m, r'), s') \<and> class_name m = ''Conv2d'')
   \<and> (\<exists>m r' s'. f_parse_component ''Conv2dDS'' (ParamDict (empty_param\<lparr>in_channels := Some (- 1), out_channels := Some 8, kernel_size := Some (ListV [3, 3]), stride := Some (ListV [1, 1])\<rparr>)) 0 (store1 [4, 2, 10, 20]) =
       (Inr (m, r'), s') \<and> class_name m = ''depthwise_separable_conv'')
   \<and> (\<exists>m r' s'. f_parse_component ''Conv2dRes'' (ParamDict (empty_param\<lparr>in_channels := Some (- 1), out_channels := Some 8, kernel_size := Some (IntV 3), stride := Some (IntV 1), padding := Some (PadStr ''same'')\<rparr>)) 0 (store1 [4, 2, 10, 20]) =
       (Inr (m, r'), s') \<and> class_name m = ''ResidualBlock'')
   \<and> (\<exists>m r' s'. f_parse_component ''Conv2dNext'' (ParamDict (empty_param\<lparr>in_channels := Some (- 1), out_channels := Some 2, stride := Some (IntV 1), padding := Some (PadStr ''same'')\<rparr>)) 0 (store1 [4, 2, 10, 20]) =
       (Inr (m, r'), s') \<and> class_name m = ''ConvNeXtBlock'')
   \<and> (\<exists>m r' s'. f_parse_component ''ConvTranspose2d'' (ParamDict (empty_param\<lparr>in_channels := Some (- 1), out_channels := Some 8, kernel_size := Some (ListV [2, 2]), stride := Some (ListV [2, 2])\<rparr>)) 0 (store1 [4, 2, 10, 20]) =
       (Inr (m, r'), s') \<and> class_name m = ''ConvTranspose2d'')
   \<and> (\<exists>m r' s'. f_parse_component ''MaxPool1d'' (ParamDict (empty_param\<lparr>kernel_size := Some (IntV 2)\<rparr>)) 0 (store1 [4, 2, 10]) =
       (Inr (m, r'), s') \<and> class_name m = ''MaxPool1d'')
   \<and> (\<exists>m r' s'. f_parse_component ''MaxPool2d'' (ParamDict (empty_param\<lparr>kernel_size := Some (ListV [2, 2])\<rparr>)) 0 (store1 [4, 2, 10, 20]) =
       (Inr (m, r'), s') \<and> class_name m = ''MaxPool2d'')
   \<and> (\<exists>m r' s'. f_parse_component ''Linear'' (ParamDict (empty_param\<lparr>in_features := Some (- 1), out_features := Some 7\<rparr>)) 0 (store1 [4, 10]) =
       (Inr (m, r'), s') \<and> class_name m = ''Linear'')
   \<and> (\<exists>m r' s'. f_parse_component ''Activation'' (ParamStr ''ReLU'') 0 (store1 [4, 10]) =
       (Inr (m, r'), s') \<and> class_name m = ''ReLU'')
   \<and> (\<exists>m r' s'. f_parse_component ''Dropout'' (ParamDict (empty_param\<lparr>dropout_p := Some float_0_2\<rparr>)) 0 (store1 [4, 10]) =
       (Inr (m, r'), s') \<and> class_name m = ''Dropout'')
   \<and> (\<exists>m r' s'. f_parse_component ''Flatten'' (ParamDict (empty_param\<lparr>start_dim := Some 1\<rparr>)) 0 (store1 [4, 2, 10]) =
       (Inr (m, r'), s') \<and> class_name m = ''Flatten'')
   \<and> (\<exists>m r' s'. f_parse_component ''Squeeze'' (ParamDict (empty_param\<lparr>dim := Some 2\<rparr>)) 0 (store1 [4, 2, 1]) =
       (Inr (m, r'), s') \<and> class_name m = ''nnSqueeze'')
   \<and> (\<exists>m r' s'. f_parse_component ''Permute'' (ParamDict (empty_param\<lparr>shape := Some ([0, 2, 1])\<rparr>)) 0 (store1 [4, 2, 10]) =
       (Inr (m, r'), s') \<and> class_name m = ''nnPermute'')
   \<and> (\<exists>m r' s'. f_parse_component ''Mean'' (ParamDict (empty_param\<lparr>dim := Some 2\<rparr>)) 0 (store1 [4, 2, 10]) =
       (Inr (m, r'), s') \<and> class_name m = ''nnMean'')
   \<and> (\<exists>m r' s'. f_parse_component ''Max'' (ParamDict (empty_param\<lparr>dim := Some 2\<rparr>)) 0 (store1 [4, 2, 10]) =
       (Inr (m, r'), s') \<and> class_name m = ''nnMax'')
   \<and> (\<exists>m r' s'. f_parse_component ''AutoPoolWeight'' (ParamDict empty_param) 0 (store1 [4, 2, 10, 20]) =
       (Inr (m, r'), s') \<and> class_name m = ''nnAutoPoolWeight'')
   \<and> (\<exists>m r' s'. f_parse_component ''AutoPoolWeightSplit'' (ParamDict empty_param) 0 (store1 [4, 6, 10, 20]) =
       (Inr (m, r'), s') \<and> class_name m = ''nnAutoPoolWeightSplit'')
   \<and> (\<exists>m r' s'. f_parse_component ''SoftmaxWeight'' (ParamDict empty_param) 0 (store1 [4, 6, 10, 20]) =
       (Inr (m, r'), s') \<and> class_name m = ''nnSoftmaxWeight'')
   \<and> (\<exists>m r' s'. f_parse_component ''AbsLayer'' (ParamDict empty_param) 0 (store1 [4, 2, 10]) =
       (Inr (m, r'), s') \<and> class_name m = ''nnAbs'')
   \<and> (\<exists>m r' s'. f_parse_component ''DoubleChannel'' (ParamDict empty_param) 0 (store1 [4, 2, 10, 20]) =
       (Inr (m, r'), s') \<and> class_name m = ''nnEmpty'')
   \<and> parse_branch ''Conv1d'' 0 = parse_Conv1d 0"
proof -
  have w_LayerNorm: "(\<exists>m r' s'. f_parse_component ''LayerNorm'' (ParamDict (empty_param\<lparr>normalized_shape := Some (IntV (- 1))\<rparr>)) 0 (store1 [4, 2, 10]) =
       (Inr (m, r'), s') \<and> class_name m = ''LayerNorm'')"
  proof -
    from run_LayerNorm obtain s' where run:
      "f_parse_component ''LayerNorm'' (ParamDict (empty_param\<lparr>normalized_shape := Some (IntV (- 1))\<rparr>)) 0 (store1 [4, 2, 10]) =
         (Inr (Torch (LayerNorm (ListV [2, 10]) None), 0), s')"
      by blast
    from dispatch_by_tag [THEN conjunct1, rule_format, OF run]
    have "class_name (Torch (LayerNorm (ListV [2, 10]) None)) = ''LayerNorm''"
      by (simp add: tag_constructor_def)
    with run show ?thesis
      by blast
  qed
  have w_BatchNorm1d: "(\<exists>m r' s'. f_parse_component ''BatchNorm1d'' (ParamDict (empty_param\<lparr>num_features := Some (- 1)\<rparr>)) 0 (store1 [4, 10]) =
       (Inr (m, r'), s') \<and> class_name m = ''BatchNorm1d'')"
  proof -
    from run_BatchNorm1d obtain s' where run:
      "f_parse_component ''BatchNorm1d'' (ParamDict (empty_param\<lparr>num_features := Some (- 1)\<rparr>)) 0 (store1 [4, 10]) =
         (Inr (Torch (BatchNorm1d 10 True), 0), s')"
      by blast
    from dispatch_by_tag [THEN conjunct1, rule_format, OF run]
    have "class_name (Torch (BatchNorm1d 10 True)) = ''BatchNorm1d''"
      by (simp add: tag_constructor_def)
    with run show ?thesis
      by blast
  qed
  have w_BatchNorm1dT: "(\<exists>m r' s'. f_parse_component ''BatchNorm1dT'' (ParamDict (empty_param\<lparr>num_features := Some (- 1)\<rparr>)) 0 (store1 [4, 10, 6]) =
       (Inr (m, r'), s') \<and> class_name m = ''nnBatchNorm1dT'')"
  proof -
    from run_BatchNorm1dT obtain s' where run:
      "f_parse_component ''BatchNorm1dT'' (ParamDict (empty_param\<lparr>num_features := Some (- 1)\<rparr>)) 0 (store1 [4, 10, 6]) =
         (Inr (nnBatchNorm1dT (BatchNorm1d 6 True), 0), s')"
      by blast
    from dispatch_by_tag [THEN conjunct1, rule_format, OF run]
    have "class_name (nnBatchNorm1dT (BatchNorm1d 6 True)) = ''nnBatchNorm1dT''"
      by (simp add: tag_constructor_def)
    with run show ?thesis
      by blast
  qed
  have w_BatchNorm2d: "(\<exists>m r' s'. f_parse_component ''BatchNorm2d'' (ParamDict (empty_param\<lparr>num_features := Some (- 1)\<rparr>)) 0 (store1 [4, 2, 10, 20]) =
       (Inr (m, r'), s') \<and> class_name m = ''BatchNorm2d'')"
  proof -
    from run_BatchNorm2d obtain s' where run:
      "f_parse_component ''BatchNorm2d'' (ParamDict (empty_param\<lparr>num_features := Some (- 1)\<rparr>)) 0 (store1 [4, 2, 10, 20]) =
         (Inr (Torch (BatchNorm2d 2), 0), s')"
      by blast
    from dispatch_by_tag [THEN conjunct1, rule_format, OF run]
    have "class_name (Torch (BatchNorm2d 2)) = ''BatchNorm2d''"
      by (simp add: tag_constructor_def)
    with run show ?thesis
      by blast
  qed
  have w_SincNet: "(\<exists>m r' s'. f_parse_component ''SincNet'' (ParamDict (empty_param\<lparr>in_channels := Some (- 1), out_channels := Some 8, kernel_size := Some (IntV 3), stride := Some (IntV 2), sr_hz := Some 16000\<rparr>)) 0 (store1 [4, 1, 10]) =
       (Inr (m, r'), s') \<and> class_name m = ''SincConv_fast'')"
  proof -
    from run_SincNet obtain s' where run:
      "f_parse_component ''SincNet'' (ParamDict (empty_param\<lparr>in_channels := Some (- 1), out_channels := Some 8, kernel_size := Some (IntV 3), stride := Some (IntV 2), sr_hz := Some 16000\<rparr>)) 0 (store1 [4, 1, 10]) =
         (Inr (SincConv_fast 1 8 (IntV 3) (IntV 2) 16000, 0), s')"
      by blast
    from dispatch_by_tag [THEN conjunct1, rule_format, OF run]
    have "class_name (SincConv_fast 1 8 (IntV 3) (IntV 2) 16000) = ''SincConv_fast''"
      by (simp add: tag_constructor_def)
    with run show ?thesis
      by blast
  qed
  have w_Conv1d: "(\<exists>m r' s'. f_parse_component ''Conv1d'' (ParamDict (empty_param\<lparr>in_channels := Some (- 1), out_channels := Some 8, kernel_size := Some (IntV 3), stride := Some (IntV 2)\<rparr>)) 0 (store1 [4, 2, 10]) =
       (Inr (m, r'), s') \<and> class_name m = ''Conv1d'')"
  proof -
    from run_Conv1d obtain s' where run:
      "f_parse_component ''Conv1d'' (ParamDict (empty_param\<lparr>in_channels := Some (- 1), out_channels := Some 8, kernel_size := Some (IntV 3), stride := Some (IntV 2)\<rparr>)) 0 (store1 [4, 2, 10]) =
         (Inr (Torch (Conv1d 2 8 (IntV 3) (IntV 2) (PadNum (IntV 0)) (IntV 1)), 0), s')"
      by blast
    from dispatch_by_tag [THEN conjunct1, rule_format, OF run]
    have "class_name (Torch (Conv1d 2 8 (IntV 3) (IntV 2) (PadNum (IntV 0)) (IntV 1))) = ''Conv1d''"
      by (simp add: tag_constructor_def)
    with run show ?thesis
      by blast
  qed
  have w_Conv1dTCN: "(\<exists>m r' s'. f_parse_component ''Conv1dTCN'' (ParamDict (empty_param\<lparr>in_channels := Some (- 1), num_channels := Some ([3, 5])\<rparr>)) 0 (store1 [4, 2, 10]) =
       (Inr (m, r'), s') \<and> class_name m = ''TemporalConvNet'')"
  proof -
    from run_Conv1dTCN obtain s' where run:
      "f_parse_component ''Conv1dTCN'' (ParamDict (empty_param\<lparr>in_channels := Some (- 1), num_channels := Some ([3, 5])\<rparr>)) 0 (store1 [4, 2, 10]) =
         (Inr (TemporalConvNet_obj (TemporalConvNet_init 2 [3, 5] 2 float_0_2), 0), s')"
      by blast
    from dispatch_by_tag [THEN conjunct1, rule_format, OF run]
    have "class_name (TemporalConvNet_obj (TemporalConvNet_init 2 [3, 5] 2 float_0_2)) = ''TemporalConvNet''"
      by (simp add: tag_constructor_def)
    with run show ?thesis
      by blast
  qed
  have w_Conv2d: "(\<exists>m r' s'. f_parse_component ''Conv2d'' (ParamDict (empty_param\<lparr>in_channels := Some (- 1), out_channels := Some 8, kernel_size := Some (ListV [3, 5]), stride := Some (ListV [1, 2])\<rparr>)) 0 (store1 [4, 2, 10, 20]) =
       (Inr (m, r'), s') \<and> class_name m = ''Conv2d'')"
  proof -
    from run_Conv2d obtain s' where run:
      "f_parse_component ''Conv2d'' (ParamDict (empty_param\<lparr>in_channels := Some (- 1), out_channels := Some 8, kernel_size := Some (ListV [3, 5]), stride := Some (ListV [1, 2])\<rparr>)) 0 (store1 [4, 2, 10, 20]) =
         (Inr (Torch (Conv2d 2 8 (ListV [3, 5]) (ListV [1, 2]) (PadStr ''valid'') 1), 0), s')"
      by blast
    from dispatch_by_tag [THEN conjunct1, rule_format, OF run]
    have "class_name (Torch (Conv2d 2 8 (ListV [3, 5]) (ListV [1, 2]) (PadStr ''valid'') 1)) = ''Conv2d''"
      by (simp add: tag_constructor_def)
    with run show ?thesis
      by blast
  qed
  have w_Conv2dDS: "(\<exists>m r' s'. f_parse_component ''Conv2dDS'' (ParamDict (empty_param\<lparr>in_channels := Some (- 1), out_channels := Some 8, kernel_size := Some (ListV [3, 3]), stride := Some (ListV [1, 1])\<rparr>)) 0 (store1 [4, 2, 10, 20]) =
       (Inr (m, r'), s') \<and> class_name m = ''depthwise_separable_conv'')"
  proof -
    from run_Conv2dDS obtain s' where run:
      "f_parse_component ''Conv2dDS'' (ParamDict (empty_param\<lparr>in_channels := Some (- 1), out_channels := Some 8, kernel_size := Some (ListV [3, 3]), stride := Some (ListV [1, 1])\<rparr>)) 0 (store1 [4, 2, 10, 20]) =
         (Inr (depthwise_separable_conv_obj (depthwise_separable_conv_init 2 1 8 (ListV [3, 3]) (PadStr ''valid'')), 0), s')"
      by blast
    from dispatch_by_tag [THEN conjunct1, rule_format, OF run]
    have "class_name (depthwise_separable_conv_obj (depthwise_separable_conv_init 2 1 8 (ListV [3, 3]) (PadStr ''valid''))) = ''depthwise_separable_conv''"
      by (simp add: tag_constructor_def)
    with run show ?thesis
      by blast
  qed
  have w_Conv2dRes: "(\<exists>m r' s'. f_parse_component ''Conv2dRes'' (ParamDict (empty_param\<lparr>in_channels := Some (- 1), out_channels := Some 8, kernel_size := Some (IntV 3), stride := Some (IntV 1), padding := Some (PadStr ''same'')\<rparr>)) 0 (store1 [4, 2, 10, 20]) =
       (Inr (m, r'), s') \<and> class_name m = ''ResidualBlock'')"
  proof -
    from run_Conv2dRes obtain s' where run:
      "f_parse_component ''Conv2dRes'' (ParamDict (empty_param\<lparr>in_channels := Some (- 1), out_channels := Some 8, kernel_size := Some (IntV 3), stride := Some (IntV 1), padding := Some (PadStr ''same'')\<rparr>)) 0 (store1 [4, 2, 10, 20]) =
         (Inr (ResidualBlock_obj (ResidualBlock_init 2 8 (IntV 3) 1), 0), s')"
      by blast
    from dispatch_by_tag [THEN conjunct1, rule_format, OF run]
    have "class_name (ResidualBlock_obj (ResidualBlock_init 2 8 (IntV 3) 1)) = ''ResidualBlock''"
      by (simp add: tag_constructor_def)
    with run show ?thesis
      by blast
  qed
  have w_Conv2dNext: "(\<exists>m r' s'. f_parse_component ''Conv2dNext'' (ParamDict (empty_param\<lparr>in_channels := Some (- 1), out_channels := Some 2, stride := Some (IntV 1), padding := Some (PadStr ''same'')\<rparr>)) 0 (store1 [4, 2, 10, 20]) =
       (Inr (m, r'), s') \<and> class_name m = ''ConvNeXtBlock'')"
  proof -
    from run_Conv2dNext obtain s' where run:
      "f_parse_component ''Conv2dNext'' (ParamDict (empty_param\<lparr>in_channels := Some (- 1), out_channels := Some 2, stride := Some (IntV 1), padding := Some (PadStr ''same'')\<rparr>)) 0 (store1 [4, 2, 10, 20]) =
         (Inr (ConvNeXtBlock_obj (ConvNeXtBlock_init 2 2 7 float_0), 0), s')"
      by blast
    from dispatch_by_tag [THEN conjunct1, rule_format, OF run]
    have "class_name (ConvNeXtBlock_obj (ConvNeXtBlock_init 2 2 7 float_0)) = ''ConvNeXtBlock''"
      by (simp add: tag_constructor_def)
    with run show ?thesis
      by blast
  qed
  have w_ConvTranspose2d: "(\<exists>m r' s'. f_parse_component ''ConvTranspose2d'' (ParamDict (empty_param\<lparr>in_channels := Some (- 1), out_channels := Some 8, kernel_size := Some (ListV [2, 2]), stride := Some (ListV [2, 2])\<rparr>)) 0 (store1 [4, 2, 10, 20]) =
       (Inr (m, r'), s') \<and> class_name m = ''ConvTranspose2d'')"
  proof -
    from run_ConvTranspose2d obtain s' where run:
      "f_parse_component ''ConvTranspose2d'' (ParamDict (empty_param\<lparr>in_channels := Some (- 1), out_channels := Some 8, kernel_size := Some (ListV [2, 2]), stride := Some (ListV [2, 2])\<rparr>)) 0 (store1 [4, 2, 10, 20]) =
         (Inr (Torch (ConvTranspose2d 2 8 (ListV [2, 2]) (ListV [2, 2])), 0), s')"
      by blast
    from dispatch_by_tag [THEN conjunct1, rule_format, OF run]
    have "class_name (Torch (ConvTranspose2d 2 8 (ListV [2, 2]) (ListV [2, 2]))) = ''ConvTranspose2d''"
      by (simp add: tag_constructor_def)
    with run show ?thesis
      by blast
  qed
  have w_MaxPool1d: "(\<exists>m r' s'. f_parse_component ''MaxPool1d'' (ParamDict (empty_param\<lparr>kernel_size := Some (IntV 2)\<rparr>)) 0 (store1 [4, 2, 10]) =
       (Inr (m, r'), s') \<and> class_name m = ''MaxPool1d'')"
  proof -
    from run_MaxPool1d obtain s' where run:
      "f_parse_component ''MaxPool1d'' (ParamDict (empty_param\<lparr>kernel_size := Some (IntV 2)\<rparr>)) 0 (store1 [4, 2, 10]) =
         (Inr (Torch (MaxPool1d (IntV 2) (IntV 2)), 0), s')"
      by blast
    from dispatch_by_tag [THEN conjunct1, rule_format, OF run]
    have "class_name (Torch (MaxPool1d (IntV 2) (IntV 2))) = ''MaxPool1d''"
      by (simp add: tag_constructor_def)
    with run show ?thesis
      by blast
  qed
  have w_MaxPool2d: "(\<exists>m r' s'. f_parse_component ''MaxPool2d'' (ParamDict (empty_param\<lparr>kernel_size := Some (ListV [2, 2])\<rparr>)) 0 (store1 [4, 2, 10, 20]) =
       (Inr (m, r'), s') \<and> class_name m = ''MaxPool2d'')"
  proof -
    from run_MaxPool2d obtain s' where run:
      "f_parse_component ''MaxPool2d'' (ParamDict (empty_param\<lparr>kernel_size := Some (ListV [2, 2])\<rparr>)) 0 (store1 [4, 2, 10, 20]) =
         (Inr (Torch (MaxPool2d (ListV [2, 2]) (ListV [2, 2])), 0), s')"
      by blast
    from dispatch_by_tag [THEN conjunct1, rule_format, OF run]
    have "class_name (Torch (MaxPool2d (ListV [2, 2]) (ListV [2, 2]))) = ''MaxPool2d''"
      by (simp add: tag_constructor_def)
    with run show ?thesis
      by blast
  qed
  have w_Linear: "(\<exists>m r' s'. f_parse_component ''Linear'' (ParamDict (empty_param\<lparr>in_features := Some (- 1), out_features := Some 7\<rparr>)) 0 (store1 [4, 10]) =
       (Inr (m, r'), s') \<and> class_name m = ''Linear'')"
  proof -
    from run_Linear obtain s' where run:
      "f_parse_component ''Linear'' (ParamDict (empty_param\<lparr>in_features := Some (- 1), out_features := Some 7\<rparr>)) 0 (store1 [4, 10]) =
         (Inr (Torch (Linear 10 7), 0), s')"
      by blast
    from dispatch_by_tag [THEN conjunct1, rule_format, OF run]
    have "class_name (Torch (Linear 10 7)) = ''Linear''"
      by (simp add: tag_constructor_def)
    with run show ?thesis
      by blast
  qed
  have w_Activation: "(\<exists>m r' s'. f_parse_component ''Activation'' (ParamStr ''ReLU'') 0 (store1 [4, 10]) =
       (Inr (m, r'), s') \<and> class_name m = ''ReLU'')"
  proof -
    from run_Activation obtain s' where run:
      "f_parse_component ''Activation'' (ParamStr ''ReLU'') 0 (store1 [4, 10]) =
         (Inr (Torch ReLU, 0), s')"
      by blast
    from dispatch_by_tag [THEN conjunct1, rule_format, OF run]
    have "class_name (Torch ReLU) = ''ReLU''"
      by simp
    with run show ?thesis
      by blast
  qed
  have w_Dropout: "(\<exists>m r' s'. f_parse_component ''Dropout'' (ParamDict (empty_param\<lparr>dropout_p := Some float_0_2\<rparr>)) 0 (store1 [4, 10]) =
       (Inr (m, r'), s') \<and> class_name m = ''Dropout'')"
  proof -
    from run_Dropout obtain s' where run:
      "f_parse_component ''Dropout'' (ParamDict (empty_param\<lparr>dropout_p := Some float_0_2\<rparr>)) 0 (store1 [4, 10]) =
         (Inr (Torch (Dropout float_0_2), 0), s')"
      by blast
    from dispatch_by_tag [THEN conjunct1, rule_format, OF run]
    have "class_name (Torch (Dropout float_0_2)) = ''Dropout''"
      by (simp add: tag_constructor_def)
    with run show ?thesis
      by blast
  qed
  have w_Flatten: "(\<exists>m r' s'. f_parse_component ''Flatten'' (ParamDict (empty_param\<lparr>start_dim := Some 1\<rparr>)) 0 (store1 [4, 2, 10]) =
       (Inr (m, r'), s') \<and> class_name m = ''Flatten'')"
  proof -
    from run_Flatten obtain s' where run:
      "f_parse_component ''Flatten'' (ParamDict (empty_param\<lparr>start_dim := Some 1\<rparr>)) 0 (store1 [4, 2, 10]) =
         (Inr (Torch (Flatten 1), 1), s')"
      by blast
    from dispatch_by_tag [THEN conjunct1, rule_format, OF run]
    have "class_name (Torch (Flatten 1)) = ''Flatten''"
      by (simp add: tag_constructor_def)
    with run show ?thesis
      by blast
  qed
  have w_Squeeze: "(\<exists>m r' s'. f_parse_component ''Squeeze'' (ParamDict (empty_param\<lparr>dim := Some 2\<rparr>)) 0 (store1 [4, 2, 1]) =
       (Inr (m, r'), s') \<and> class_name m = ''nnSqueeze'')"
  proof -
    from run_Squeeze obtain s' where run:
      "f_parse_component ''Squeeze'' (ParamDict (empty_param\<lparr>dim := Some 2\<rparr>)) 0 (store1 [4, 2, 1]) =
         (Inr (nnSqueeze 2, 1), s')"
      by blast
    from dispatch_by_tag [THEN conjunct1, rule_format, OF run]
    have "class_name (nnSqueeze 2) = ''nnSqueeze''"
      by (simp add: tag_constructor_def)
    with run show ?thesis
      by blast
  qed
  have w_Permute: "(\<exists>m r' s'. f_parse_component ''Permute'' (ParamDict (empty_param\<lparr>shape := Some ([0, 2, 1])\<rparr>)) 0 (store1 [4, 2, 10]) =
       (Inr (m, r'), s') \<and> class_name m = ''nnPermute'')"
  proof -
    from run_Permute obtain s' where run:
      "f_parse_component ''Permute'' (ParamDict (empty_param\<lparr>shape := Some ([0, 2, 1])\<rparr>)) 0 (store1 [4, 2, 10]) =
         (Inr (nnPermute [0, 2, 1], 1), s')"
      by blast
    from dispatch_by_tag [THEN conjunct1, rule_format, OF run]
    have "class_name (nnPermute [0, 2, 1]) = ''nnPermute''"
      by (simp add: tag_constructor_def)
    with run show ?thesis
      by blast
  qed
  have w_Mean: "(\<exists>m r' s'. f_parse_component ''Mean'' (ParamDict (empty_param\<lparr>dim := Some 2\<rparr>)) 0 (store1 [4, 2, 10]) =
       (Inr (m, r'), s') \<and> class_name m = ''nnMean'')"
  proof -
    from run_Mean obtain s' where run:
      "f_parse_component ''Mean'' (ParamDict (empty_param\<lparr>dim := Some 2\<rparr>)) 0 (store1 [4, 2, 10]) =
         (Inr (nnMean 2 False, 1), s')"
      by blast
    from dispatch_by_tag [THEN conjunct1, rule_format, OF run]
    have "class_name (nnMean 2 False) = ''nnMean''"
      by (simp add: tag_constructor_def)
    with run show ?thesis
      by blast
  qed
  have w_Max: "(\<exists>m r' s'. f_parse_component ''Max'' (ParamDict (empty_param\<lparr>dim := Some 2\<rparr>)) 0 (store1 [4, 2, 10]) =
       (Inr (m, r'), s') \<and> class_name m = ''nnMax'')"
  proof -
    from run_Max obtain s' where run:
      "f_parse_component ''Max'' (ParamDict (empty_param\<lparr>dim := Some 2\<rparr>)) 0 (store1 [4, 2, 10]) =
         (Inr (nnMax 2 False, 1), s')"
      by blast
    from dispatch_by_tag [THEN conjunct1, rule_format, OF run]
    have "class_name (nnMax 2 False) = ''nnMax''"
      by (simp add: tag_constructor_def)
    with run show ?thesis
      by blast
  qed
  have w_AutoPoolWeight: "(\<exists>m r' s'. f_parse_component ''AutoPoolWeight'' (ParamDict empty_param) 0 (store1 [4, 2, 10, 20]) =
       (Inr (m, r'), s') \<and> class_name m = ''nnAutoPoolWeight'')"
  proof -
    from run_AutoPoolWeight obtain s' where run:
      "f_parse_component ''AutoPoolWeight'' (ParamDict empty_param) 0 (store1 [4, 2, 10, 20]) =
         (Inr (nnAutoPoolWeight, 0), s')"
      by blast
    from dispatch_by_tag [THEN conjunct1, rule_format, OF run]
    have "class_name (nnAutoPoolWeight) = ''nnAutoPoolWeight''"
      by (simp add: tag_constructor_def)
    with run show ?thesis
      by blast
  qed
  have w_AutoPoolWeightSplit: "(\<exists>m r' s'. f_parse_component ''AutoPoolWeightSplit'' (ParamDict empty_param) 0 (store1 [4, 6, 10, 20]) =
       (Inr (m, r'), s') \<and> class_name m = ''nnAutoPoolWeightSplit'')"
  proof -
    from run_AutoPoolWeightSplit obtain s' where run:
      "f_parse_component ''AutoPoolWeightSplit'' (ParamDict empty_param) 0 (store1 [4, 6, 10, 20]) =
         (Inr (nnAutoPoolWeightSplit 6, 0), s')"
      by blast
    from dispatch_by_tag [THEN conjunct1, rule_format, OF run]
    have "class_name (nnAutoPoolWeightSplit 6) = ''nnAutoPoolWeightSplit''"
      by (simp add: tag_constructor_def)
    with run show ?thesis
      by blast
  qed
  have w_SoftmaxWeight: "(\<exists>m r' s'. f_parse_component ''SoftmaxWeight'' (ParamDict empty_param) 0 (store1 [4, 6, 10, 20]) =
       (Inr (m, r'), s') \<and> class_name m = ''nnSoftmaxWeight'')"
  proof -
    from run_SoftmaxWeight obtain s' where run:
      "f_parse_component ''SoftmaxWeight'' (ParamDict empty_param) 0 (store1 [4, 6, 10, 20]) =
         (Inr (nnSoftmaxWeight 6, 0), s')"
      by blast
    from dispatch_by_tag [THEN conjunct1, rule_format, OF run]
    have "class_name (nnSoftmaxWeight 6) = ''nnSoftmaxWeight''"
      by (simp add: tag_constructor_def)
    with run show ?thesis
      by blast
  qed
  have w_AbsLayer: "(\<exists>m r' s'. f_parse_component ''AbsLayer'' (ParamDict empty_param) 0 (store1 [4, 2, 10]) =
       (Inr (m, r'), s') \<and> class_name m = ''nnAbs'')"
  proof -
    from run_AbsLayer obtain s' where run:
      "f_parse_component ''AbsLayer'' (ParamDict empty_param) 0 (store1 [4, 2, 10]) =
         (Inr (nnAbs, 0), s')"
      by blast
    from dispatch_by_tag [THEN conjunct1, rule_format, OF run]
    have "class_name (nnAbs) = ''nnAbs''"
      by (simp add: tag_constructor_def)
    with run show ?thesis
      by blast
  qed
  have w_DoubleChannel: "(\<exists>m r' s'. f_parse_component ''DoubleChannel'' (ParamDict empty_param) 0 (store1 [4, 2, 10, 20]) =
       (Inr (m, r'), s') \<and> class_name m = ''nnEmpty'')"
  proof -
    from run_DoubleChannel obtain s' where run:
      "f_parse_component ''DoubleChannel'' (ParamDict empty_param) 0 (store1 [4, 2, 10, 20]) =
         (Inr (nnEmpty, 0), s')"
      by blast
    from dispatch_by_tag [THEN conjunct1, rule_format, OF run]
    have "class_name (nnEmpty) = ''nnEmpty''"
      by (simp add: tag_constructor_def)
    with run show ?thesis
      by blast
  qed
  have "parse_branch ''Conv1d'' 0 =
      (case map_of branches ''Conv1d'' of Some b \<Rightarrow> b 0 | None \<Rightarrow> parse_unknown ''Conv1d'' 0)"
    using dispatch_by_tag [THEN conjunct2, THEN conjunct2] .
  then have w_table: "parse_branch ''Conv1d'' 0 = parse_Conv1d 0"
    by (simp add: branches_def)
  from w_LayerNorm w_BatchNorm1d w_BatchNorm1dT w_BatchNorm2d w_SincNet w_Conv1d w_Conv1dTCN w_Conv2d w_Conv2dDS w_Conv2dRes w_Conv2dNext w_ConvTranspose2d w_MaxPool1d w_MaxPool2d w_Linear w_Activation w_Dropout w_Flatten w_Squeeze w_Permute w_Mean w_Max w_AutoPoolWeight w_AutoPoolWeightSplit w_SoftmaxWeight w_AbsLayer w_DoubleChannel w_table
  show ?thesis
    by (intro conjI)
qed

section \<open>Parameters filled in from the incoming shape\<close>



lemma autofill_SincNet:
  "f_parse_component ''SincNet'' (ParamDict q) r s = (Inr (m, r'), s') \<and>
   in_channels q = Some (- 1) \<longrightarrow>
   1 < length (heap s r) \<and>
     (\<exists>oc k st sr. out_channels q = Some oc \<and> kernel_size q = Some k \<and> stride q = Some st \<and>
        sr_hz q = Some sr \<and> m = SincConv_fast (heap s r ! 1) oc k st sr)"
  by (auto simp: parse_tag parse_branch_def parse_SincNet_def branch_helper_defs py_defs
      py_index_Some subscript_def last_nth_length
      split: if_splits option.splits sum.splits prod.splits int_or_list.splits)


lemma autofill_Conv1d:
  "f_parse_component ''Conv1d'' (ParamDict q) r s = (Inr (m, r'), s') \<and>
   in_channels q = Some (- 1) \<longrightarrow>
   1 < length (heap s r) \<and>
     (\<exists>oc k st. out_channels q = Some oc \<and> kernel_size q = Some k \<and> stride q = Some st \<and>
        m = Torch (Conv1d (heap s r ! 1) oc k st (PadNum (IntV 0)) (IntV 1)))"
  by (auto simp: parse_tag parse_branch_def parse_Conv1d_def branch_helper_defs py_defs
      py_index_Some subscript_def last_nth_length
      split: if_splits option.splits sum.splits prod.splits int_or_list.splits)


lemma autofill_Conv1dTCN:
  "f_parse_component ''Conv1dTCN'' (ParamDict q) r s = (Inr (m, r'), s') \<and>
   in_channels q = Some (- 1) \<longrightarrow>
   1 < length (heap s r) \<and>
     (\<exists>nc. num_channels q = Some nc \<and>
        m = TemporalConvNet_obj (TemporalConvNet_init (heap s r ! 1) nc 2 float_0_2))"
  by (auto simp: parse_tag parse_branch_def parse_Conv1dTCN_def branch_helper_defs py_defs
      py_index_Some subscript_def last_nth_length
      split: if_splits option.splits sum.splits prod.splits int_or_list.splits)


lemma autofill_Conv2d:
  "f_parse_component ''Conv2d'' (ParamDict q) r s = (Inr (m, r'), s') \<and>
   in_channels q = Some (- 1) \<longrightarrow>
   1 < length (heap s r) \<and>
     (\<exists>oc k st. out_channels q = Some oc \<and> kernel_size q = Some k \<and> stride q = Some st \<and>
        m = Torch (Conv2d (heap s r ! 1) oc k st
              (case padding q of None \<Rightarrow> PadStr ''valid'' | Some pd \<Rightarrow> pd) 1))"
  by (auto simp: parse_tag parse_branch_def parse_Conv2d_def branch_helper_defs py_defs
      py_index_Some subscript_def last_nth_length
      split: if_splits option.splits sum.splits prod.splits int_or_list.splits)


lemma autofill_Conv2dDS:
  "f_parse_component ''Conv2dDS'' (ParamDict q) r s = (Inr (m, r'), s') \<and>
   in_channels q = Some (- 1) \<longrightarrow>
   1 < length (heap s r) \<and>
     (\<exists>oc k. out_channels q = Some oc \<and> kernel_size q = Some k \<and>
        m = depthwise_separable_conv_obj (depthwise_separable_conv_init (heap s r ! 1) 1 oc k
              (case padding q of None \<Rightarrow> PadStr ''valid'' | Some pd \<Rightarrow> pd)))"
  by (auto simp: parse_tag parse_branch_def parse_Conv2dDS_def branch_helper_defs py_defs
      py_index_Some subscript_def last_nth_length
      split: if_splits option.splits sum.splits prod.splits int_or_list.splits)


lemma autofill_Conv2dRes:
  "f_parse_component ''Conv2dRes'' (ParamDict q) r s = (Inr (m, r'), s') \<and>
   in_channels q = Some (- 1) \<longrightarrow>
   1 < length (heap s r) \<and>
     (\<exists>oc k. out_channels q = Some oc \<and> kernel_size q = Some k \<and>
        m = ResidualBlock_obj (ResidualBlock_init (heap s r ! 1) oc k 1))"
  by (auto simp: parse_tag parse_branch_def parse_Conv2dRes_def branch_helper_defs py_defs
      py_index_Some subscript_def last_nth_length
      split: if_splits option.splits sum.splits prod.splits int_or_list.splits)


lemma autofill_Conv2dNext:
  "f_parse_component ''Conv2dNext'' (ParamDict q) r s = (Inr (m, r'), s') \<and>
   in_channels q = Some (- 1) \<longrightarrow>
   1 < length (heap s r) \<and>
     (\<exists>oc. out_channels q = Some oc \<and>
        m = ConvNeXtBlock_obj (ConvNeXtBlock_init (heap s r ! 1) oc 7 float_0))"
  by (auto simp: parse_tag parse_branch_def parse_Conv2dNext_def branch_helper_defs py_defs
      py_index_Some subscript_def last_nth_length
      split: if_splits option.splits sum.splits prod.splits int_or_list.splits)


lemma autofill_ConvTranspose2d:
  "f_parse_component ''ConvTranspose2d'' (ParamDict q) r s = (Inr (m, r'), s') \<and>
   in_channels q = Some (- 1) \<longrightarrow>
   1 < length (heap s r) \<and>
     (\<exists>oc k st. out_channels q = Some oc \<and> kernel_size q = Some k \<and> stride q = Some st \<and>
        m = Torch (ConvTranspose2d (heap s r ! 1) oc k st))"
  by (auto simp: parse_tag parse_branch_def parse_ConvTranspose2d_def branch_helper_defs py_defs
      py_index_Some subscript_def last_nth_length
      split: if_splits option.splits sum.splits prod.splits int_or_list.splits)


lemma autofill_Linear:
  "f_parse_component ''Linear'' (ParamDict q) r s = (Inr (m, r'), s') \<and>
   in_features q = Some (- 1) \<longrightarrow>
   heap s r \<noteq> [] \<and>
     (\<exists>n_out. out_features q = Some n_out \<and> m = Torch (Linear (last (heap s r)) n_out))"
  by (auto simp: parse_tag parse_branch_def parse_Linear_def branch_helper_defs py_defs
      py_index_Some subscript_def last_nth_length
      split: if_splits option.splits sum.splits prod.splits int_or_list.splits)


lemma autofill_BatchNorm1d:
  "f_parse_component ''BatchNorm1d'' (ParamDict q) r s = (Inr (m, r'), s') \<and>
   num_features q = Some (- 1) \<longrightarrow>
   heap s r \<noteq> [] \<and>
     m = Torch (BatchNorm1d (last (heap s r)) (case affine q of None \<Rightarrow> True | Some af \<Rightarrow> af))"
  by (auto simp: parse_tag parse_branch_def parse_BatchNorm1d_def branch_helper_defs py_defs
      py_index_Some subscript_def last_nth_length
      split: if_splits option.splits sum.splits prod.splits int_or_list.splits)


lemma autofill_BatchNorm1dT:
  "f_parse_component ''BatchNorm1dT'' (ParamDict q) r s = (Inr (m, r'), s') \<and>
   num_features q = Some (- 1) \<longrightarrow>
   heap s r \<noteq> [] \<and> m = nnBatchNorm1dT (BatchNorm1d (last (heap s r)) True)"
  by (auto simp: parse_tag parse_branch_def parse_BatchNorm1dT_def branch_helper_defs py_defs
      py_index_Some subscript_def last_nth_length
      split: if_splits option.splits sum.splits prod.splits int_or_list.splits)


lemma autofill_BatchNorm2d:
  "f_parse_component ''BatchNorm2d'' (ParamDict q) r s = (Inr (m, r'), s') \<and>
   num_features q = Some (- 1) \<longrightarrow>
   1 < length (heap s r) \<and> m = Torch (BatchNorm2d (heap s r ! 1))"
  by (auto simp: parse_tag parse_branch_def parse_BatchNorm2d_def branch_helper_defs py_defs
      py_index_Some subscript_def last_nth_length
      split: if_splits option.splits sum.splits prod.splits int_or_list.splits)


lemma autofill_LayerNorm:
  "f_parse_component ''LayerNorm'' (ParamDict q) r s = (Inr (m, r'), s') \<and>
   normalized_shape q = Some (IntV (- 1)) \<longrightarrow>
   m = Torch (LayerNorm (ListV (drop 1 (heap s r))) None)"
  by (auto simp: parse_tag parse_branch_def parse_LayerNorm_def branch_helper_defs py_defs
      py_index_Some subscript_def last_nth_length
      split: if_splits option.splits sum.splits prod.splits int_or_list.splits)


text \<open>
  C2. When the call returns: for SincNet, Conv1d, Conv1dTCN, Conv2d, Conv2dDS, Conv2dRes,
  Conv2dNext and ConvTranspose2d with \<open>in_channels = -1\<close> the module is constructed with
  entry 1 of the incoming shape as its input channels; for Linear with
  \<open>in_features = -1\<close>, and for BatchNorm1d and BatchNorm1dT with \<open>num_features = -1\<close>,
  with the last entry; for BatchNorm2d with \<open>num_features = -1\<close> with entry 1; for
  LayerNorm with \<open>normalized_shape = -1\<close> with the shape from entry 1 on.
\<close>

theorem autofill_parameters:

  "(f_parse_component ''SincNet'' (ParamDict q) r s = (Inr (m, r'), s') \<and>
        in_channels q = Some (- 1) \<longrightarrow>
      1 < length (heap s r) \<and>
     (\<exists>oc k st sr. out_channels q = Some oc \<and> kernel_size q = Some k \<and> stride q = Some st \<and>
        sr_hz q = Some sr \<and> m = SincConv_fast (heap s r ! 1) oc k st sr))
   \<and> (f_parse_component ''Conv1d'' (ParamDict q) r s = (Inr (m, r'), s') \<and>
        in_channels q = Some (- 1) \<longrightarrow>
      1 < length (heap s r) \<and>
     (\<exists>oc k st. out_channels q = Some oc \<and> kernel_size q = Some k \<and> stride q = Some st \<and>
        m = Torch (Conv1d (heap s r ! 1) oc k st (PadNum (IntV 0)) (IntV 1))))
   \<and> (f_parse_component ''Conv1dTCN'' (ParamDict q) r s = (Inr (m, r'), s') \<and>
        in_channels q = Some (- 1) \<longrightarrow>
      1 < length (heap s r) \<and>
     (\<exists>nc. num_channels q = Some nc \<and>
        m = TemporalConvNet_obj (TemporalConvNet_init (heap s r ! 1) nc 2 float_0_2)))
   \<and> (f_parse_component ''Conv2d'' (ParamDict q) r s = (Inr (m, r'), s') \<and>
        in_channels q = Some (- 1) \<longrightarrow>
      1 < length (heap s r) \<and>
     (\<exists>oc k st. out_channels q = Some oc \<and> kernel_size q = Some k \<and> stride q = Some st \<and>
        m = Torch (Conv2d (heap s r ! 1) oc k st
              (case padding q of None \<Rightarrow> PadStr ''valid'' | Some pd \<Rightarrow> pd) 1)))
   \<and> (f_parse_component ''Conv2dDS'' (ParamDict q) r s = (Inr (m, r'), s') \<and>
        in_channels q = Some (- 1) \<longrightarrow>
      1 < length (heap s r) \<and>
     (\<exists>oc k. out_channels q = Some oc \<and> kernel_size q = Some k \<and>
        m = depthwise_separable_conv_obj (depthwise_separable_conv_init (heap s r ! 1) 1 oc k
              (case padding q of None \<Rightarrow> PadStr ''valid'' | Some pd \<Rightarrow> pd))))
   \<and> (f_parse_component ''Conv2dRes'' (ParamDict q) r s = (Inr (m, r'), s') \<and>
        in_channels q = Some (- 1) \<longrightarrow>
      1 < length (heap s r) \<and>
     (\<exists>oc k. out_channels q = Some oc \<and> kernel_size q = Some k \<and>
        m = ResidualBlock_obj (ResidualBlock_init (heap s r ! 1) oc k 1)))
   \<and> (f_parse_component ''Conv2dNext'' (ParamDict q) r s = (Inr (m, r'), s') \<and>
        in_channels q = Some (- 1) \<longrightarrow>
      1 < length (heap s r) \<and>
     (\<exists>oc. out_channels q = Some oc \<and>
        m = ConvNeXtBlock_obj (ConvNeXtBlock_init (heap s r ! 1) oc 7 float_0)))
   \<and> (f_parse_component ''ConvTranspose2d'' (ParamDict q) r s = (Inr (m, r'), s') \<and>
        in_channels q = Some (- 1) \<longrightarrow>
      1 < length (heap s r) \<and>
     (\<exists>oc k st. out_channels q = Some oc \<and> kernel_size q = Some k \<and> stride q = Some st \<and>
        m = Torch (ConvTranspose2d (heap s r ! 1) oc k st)))
   \<and> (f_parse_component ''Linear'' (ParamDict q) r s = (Inr (m, r'), s') \<and>
        in_features q = Some (- 1) \<longrightarrow>
      heap s r \<noteq> [] \<and>
     (\<exists>n_out. out_features q = Some n_out \<and> m = Torch (Linear (last (heap s r)) n_out)))
   \<and> (f_parse_component ''BatchNorm1d'' (ParamDict q) r s = (Inr (m, r'), s') \<and>
        num_features q = Some (- 1) \<longrightarrow>
      heap s r \<noteq> [] \<and>
     m = Torch (BatchNorm1d (last (heap s r)) (case affine q of None \<Rightarrow> True | Some af \<Rightarrow> af)))
   \<and> (f_parse_component ''BatchNorm1dT'' (ParamDict q) r s = (Inr (m, r'), s') \<and>
        num_features q = Some (- 1) \<longrightarrow>
      heap s r \<noteq> [] \<and> m = nnBatchNorm1dT (BatchNorm1d (last (heap s r)) True))
   \<and> (f_parse_component ''BatchNorm2d'' (ParamDict q) r s = (Inr (m, r'), s') \<and>
        num_features q = Some (- 1) \<longrightarrow>
      1 < length (heap s r) \<and> m = Torch (BatchNorm2d (heap s r ! 1)))
   \<and> (f_parse_component ''LayerNorm'' (ParamDict q) r s = (Inr (m, r'), s') \<and>
        normalized_shape q = Some (IntV (- 1)) \<longrightarrow>
      m = Torch (LayerNorm (ListV (drop 1 (heap s r))) None))"
  by (intro conjI)
    (rule autofill_SincNet,
     rule autofill_Conv1d,
     rule autofill_Conv1dTCN,
     rule autofill_Conv2d,
     rule autofill_Conv2dDS,
     rule autofill_Conv2dRes,
     rule autofill_Conv2dNext,
     rule autofill_ConvTranspose2d,
     rule autofill_Linear,
     rule autofill_BatchNorm1d,
     rule autofill_BatchNorm1dT,
     rule autofill_BatchNorm2d,
     rule autofill_LayerNorm)

theorem autofill_parameters_witness:
  "(\<exists>m r' s'. f_parse_component ''SincNet'' (ParamDict (empty_param\<lparr>in_channels := Some (- 1), out_channels := Some 8, kernel_size := Some (IntV 3), stride := Some (IntV 2), sr_hz := Some 16000\<rparr>)) 0 (store1 [4, 1, 10]) =
       (Inr (m, r'), s') \<and> m = SincConv_fast 1 8 (IntV 3) (IntV 2) 16000)
   \<and> (\<exists>m r' s'. f_parse_component ''Conv1d'' (ParamDict (empty_param\<lparr>in_channels := Some (- 1), out_channels := Some 8, kernel_size := Some (IntV 3), stride := Some (IntV 2)\<rparr>)) 0 (store1 [4, 2, 10]) =
       (Inr (m, r'), s') \<and> m = Torch (Conv1d 2 8 (IntV 3) (IntV 2) (PadNum (IntV 0)) (IntV 1)))
   \<and> (\<exists>m r' s'. f_parse_component ''Conv1dTCN'' (ParamDict (empty_param\<lparr>in_channels := Some (- 1), num_channels := Some ([3, 5])\<rparr>)) 0 (store1 [4, 2, 10]) =
       (Inr (m, r'), s') \<and> m = TemporalConvNet_obj (TemporalConvNet_init 2 [3, 5] 2 float_0_2))
   \<and> (\<exists>m r' s'. f_parse_component ''Conv2d'' (ParamDict (empty_param\<lparr>in_channels := Some (- 1), out_channels := Some 8, kernel_size := Some (ListV [3, 5]), stride := Some (ListV [1, 2])\<rparr>)) 0 (store1 [4, 2, 10, 20]) =
       (Inr (m, r'), s') \<and> m = Torch (Conv2d 2 8 (ListV [3, 5]) (ListV [1, 2]) (PadStr ''valid'') 1))
   \<and> (\<exists>m r' s'. f_parse_component ''Conv2dDS'' (ParamDict (empty_param\<lparr>in_channels := Some (- 1), out_channels := Some 8, kernel_size := Some (ListV [3, 3]), stride := Some (ListV [1, 1])\<rparr>)) 0 (store1 [4, 2, 10, 20]) =
       (Inr (m, r'), s') \<and> m = depthwise_separable_conv_obj (depthwise_separable_conv_init 2 1 8 (ListV [3, 3]) (PadStr ''valid'')))
   \<and> (\<exists>m r' s'. f_parse_component ''Conv2dRes'' (ParamDict (empty_param\<lparr>in_channels := Some (- 1), out_channels := Some 8, kernel_size := Some (IntV 3), stride := Some (IntV 1), padding := Some (PadStr ''same'')\<rparr>)) 0 (store1 [4, 2, 10, 20]) =
       (Inr (m, r'), s') \<and> m = ResidualBlock_obj (ResidualBlock_init 2 8 (IntV 3) 1))
   \<and> (\<exists>m r' s'. f_parse_component ''Conv2dNext'' (ParamDict (empty_param\<lparr>in_channels := Some (- 1), out_channels := Some 2, stride := Some (IntV 1), padding := Some (PadStr ''same'')\<rparr>)) 0 (store1 [4, 2, 10, 20]) =
       (Inr (m, r'), s') \<and> m = ConvNeXtBlock_obj (ConvNeXtBlock_init 2 2 7 float_0))
   \<and> (\<exists>m r' s'. f_parse_component ''ConvTranspose2d'' (ParamDict (empty_param\<lparr>in_channels := Some (- 1), out_channels := Some 8, kernel_size := Some (ListV [2, 2]), stride := Some (ListV [2, 2])\<rparr>)) 0 (store1 [4, 2, 10, 20]) =
       (Inr (m, r'), s') \<and> m = Torch (ConvTranspose2d 2 8 (ListV [2, 2]) (ListV [2, 2])))
   \<and> (\<exists>m r' s'. f_parse_component ''Linear'' (ParamDict (empty_param\<lparr>in_features := Some (- 1), out_features := Some 7\<rparr>)) 0 (store1 [4, 10]) =
       (Inr (m, r'), s') \<and> m = Torch (Linear 10 7))
   \<and> (\<exists>m r' s'. f_parse_component ''BatchNorm1d'' (ParamDict (empty_param\<lparr>num_features := Some (- 1)\<rparr>)) 0 (store1 [4, 10]) =
       (Inr (m, r'), s') \<and> m = Torch (BatchNorm1d 10 True))
   \<and> (\<exists>m r' s'. f_parse_component ''BatchNorm1dT'' (ParamDict (empty_param\<lparr>num_features := Some (- 1)\<rparr>)) 0 (store1 [4, 10, 6]) =
       (Inr (m, r'), s') \<and> m = nnBatchNorm1dT (BatchNorm1d 6 True))
   \<and> (\<exists>m r' s'. f_parse_component ''BatchNorm2d'' (ParamDict (empty_param\<lparr>num_features := Some (- 1)\<rparr>)) 0 (store1 [4, 2, 10, 20]) =
       (Inr (m, r'), s') \<and> m = Torch (BatchNorm2d 2))
   \<and> (\<exists>m r' s'. f_parse_component ''LayerNorm'' (ParamDict (empty_param\<lparr>normalized_shape := Some (IntV (- 1))\<rparr>)) 0 (store1 [4, 2, 10]) =
       (Inr (m, r'), s') \<and> m = Torch (LayerNorm (ListV [2, 10]) None))"
proof -
  have w_SincNet: "(\<exists>m r' s'. f_parse_component ''SincNet'' (ParamDict (empty_param\<lparr>in_channels := Some (- 1), out_channels := Some 8, kernel_size := Some (IntV 3), stride := Some (IntV 2), sr_hz := Some 16000\<rparr>)) 0 (store1 [4, 1, 10]) =
       (Inr (m, r'), s') \<and> m = SincConv_fast 1 8 (IntV 3) (IntV 2) 16000)"
  proof -
    from run_SincNet obtain m r' s' where run:
      "f_parse_component ''SincNet'' (ParamDict (empty_param\<lparr>in_channels := Some (- 1), out_channels := Some 8, kernel_size := Some (IntV 3), stride := Some (IntV 2), sr_hz := Some 16000\<rparr>)) 0 (store1 [4, 1, 10]) =
         (Inr (m, r'), s')"
      by blast
    have h: "in_channels (empty_param\<lparr>in_channels := Some (- 1), out_channels := Some 8, kernel_size := Some (IntV 3), stride := Some (IntV 2), sr_hz := Some 16000\<rparr>) = Some (- 1)"
      by (simp add: empty_param_def)
    from autofill_parameters [THEN conjunct1, rule_format, OF conjI, OF run h]
    have "m = SincConv_fast 1 8 (IntV 3) (IntV 2) 16000"
      by (auto simp: empty_param_def store1_def)
    with run show ?thesis
      by blast
  qed
  have w_Conv1d: "(\<exists>m r' s'. f_parse_component ''Conv1d'' (ParamDict (empty_param\<lparr>in_channels := Some (- 1), out_channels := Some 8, kernel_size := Some (IntV 3), stride := Some (IntV 2)\<rparr>)) 0 (store1 [4, 2, 10]) =
       (Inr (m, r'), s') \<and> m = Torch (Conv1d 2 8 (IntV 3) (IntV 2) (PadNum (IntV 0)) (IntV 1)))"
  proof -
    from run_Conv1d obtain m r' s' where run:
      "f_parse_component ''Conv1d'' (ParamDict (empty_param\<lparr>in_channels := Some (- 1), out_channels := Some 8, kernel_size := Some (IntV 3), stride := Some (IntV 2)\<rparr>)) 0 (store1 [4, 2, 10]) =
         (Inr (m, r'), s')"
      by blast
    have h: "in_channels (empty_param\<lparr>in_channels := Some (- 1), out_channels := Some 8, kernel_size := Some (IntV 3), stride := Some (IntV 2)\<rparr>) = Some (- 1)"
      by (simp add: empty_param_def)
    from autofill_parameters [THEN conjunct2, THEN conjunct1, rule_format, OF conjI, OF run h]
    have "m = Torch (Conv1d 2 8 (IntV 3) (IntV 2) (PadNum (IntV 0)) (IntV 1))"
      by (auto simp: empty_param_def store1_def)
    with run show ?thesis
      by blast
  qed
  have w_Conv1dTCN: "(\<exists>m r' s'. f_parse_component ''Conv1dTCN'' (ParamDict (empty_param\<lparr>in_channels := Some (- 1), num_channels := Some ([3, 5])\<rparr>)) 0 (store1 [4, 2, 10]) =
       (Inr (m, r'), s') \<and> m = TemporalConvNet_obj (TemporalConvNet_init 2 [3, 5] 2 float_0_2))"
  proof -
    from run_Conv1dTCN obtain m r' s' where run:
      "f_parse_component ''Conv1dTCN'' (ParamDict (empty_param\<lparr>in_channels := Some (- 1), num_channels := Some ([3, 5])\<rparr>)) 0 (store1 [4, 2, 10]) =
         (Inr (m, r'), s')"
      by blast
    have h: "in_channels (empty_param\<lparr>in_channels := Some (- 1), num_channels := Some ([3, 5])\<rparr>) = Some (- 1)"
      by (simp add: empty_param_def)
    from autofill_parameters [THEN conjunct2, THEN conjunct2, THEN conjunct1, rule_format, OF conjI, OF run h]
    have "m = TemporalConvNet_obj (TemporalConvNet_init 2 [3, 5] 2 float_0_2)"
      by (auto simp: empty_param_def store1_def)
    with run show ?thesis
      by blast
  qed
  have w_Conv2d: "(\<exists>m r' s'. f_parse_component ''Conv2d'' (ParamDict (empty_param\<lparr>in_channels := Some (- 1), out_channels := Some 8, kernel_size := Some (ListV [3, 5]), stride := Some (ListV [1, 2])\<rparr>)) 0 (store1 [4, 2, 10, 20]) =
       (Inr (m, r'), s') \<and> m = Torch (Conv2d 2 8 (ListV [3, 5]) (ListV [1, 2]) (PadStr ''valid'') 1))"
  proof -
    from run_Conv2d obtain m r' s' where run:
      "f_parse_component ''Conv2d'' (ParamDict (empty_param\<lparr>in_channels := Some (- 1), out_channels := Some 8, kernel_size := Some (ListV [3, 5]), stride := Some (ListV [1, 2])\<rparr>)) 0 (store1 [4, 2, 10, 20]) =
         (Inr (m, r'), s')"
      by blast
    have h: "in_channels (empty_param\<lparr>in_channels := Some (- 1), out_channels := Some 8, kernel_size := Some (ListV [3, 5]), stride := Some (ListV [1, 2])\<rparr>) = Some (- 1)"
      by (simp add: empty_param_def)
    from autofill_parameters [THEN conjunct2, THEN conjunct2, THEN conjunct2, THEN conjunct1, rule_format, OF conjI, OF run h]
    have "m = Torch (Conv2d 2 8 (ListV [3, 5]) (ListV [1, 2]) (PadStr ''valid'') 1)"
      by (auto simp: empty_param_def store1_def)
    with run show ?thesis
      by blast
  qed
  have w_Conv2dDS: "(\<exists>m r' s'. f_parse_component ''Conv2dDS'' (ParamDict (empty_param\<lparr>in_channels := Some (- 1), out_channels := Some 8, kernel_size := Some (ListV [3, 3]), stride := Some (ListV [1, 1])\<rparr>)) 0 (store1 [4, 2, 10, 20]) =
       (Inr (m, r'), s') \<and> m = depthwise_separable_conv_obj (depthwise_separable_conv_init 2 1 8 (ListV [3, 3]) (PadStr ''valid'')))"
  proof -
    from run_Conv2dDS obtain m r' s' where run:
      "f_parse_component ''Conv2dDS'' (ParamDict (empty_param\<lparr>in_channels := Some (- 1), out_channels := Some 8, kernel_size := Some (ListV [3, 3]), stride := Some (ListV [1, 1])\<rparr>)) 0 (store1 [4, 2, 10, 20]) =
         (Inr (m, r'), s')"
      by blast
    have h: "in_channels (empty_param\<lparr>in_channels := Some (- 1), out_channels := Some 8, kernel_size := Some (ListV [3, 3]), stride := Some (ListV [1, 1])\<rparr>) = Some (- 1)"
      by (simp add: empty_param_def)
    from autofill_parameters [THEN conjunct2, THEN conjunct2, THEN conjunct2, THEN conjunct2, THEN conjunct1, rule_format, OF conjI, OF run h]
    have "m = depthwise_separable_conv_obj (depthwise_separable_conv_init 2 1 8 (ListV [3, 3]) (PadStr ''valid''))"
      by (auto simp: empty_param_def store1_def)
    with run show ?thesis
      by blast
  qed
  have w_Conv2dRes: "(\<exists>m r' s'. f_parse_component ''Conv2dRes'' (ParamDict (empty_param\<lparr>in_channels := Some (- 1), out_channels := Some 8, kernel_size := Some (IntV 3), stride := Some (IntV 1), padding := Some (PadStr ''same'')\<rparr>)) 0 (store1 [4, 2, 10, 20]) =
       (Inr (m, r'), s') \<and> m = ResidualBlock_obj (ResidualBlock_init 2 8 (IntV 3) 1))"
  proof -
    from run_Conv2dRes obtain m r' s' where run:
      "f_parse_component ''Conv2dRes'' (ParamDict (empty_param\<lparr>in_channels := Some (- 1), out_channels := Some 8, kernel_size := Some (IntV 3), stride := Some (IntV 1), padding := Some (PadStr ''same'')\<rparr>)) 0 (store1 [4, 2, 10, 20]) =
         (Inr (m, r'), s')"
      by blast
    have h: "in_channels (empty_param\<lparr>in_channels := Some (- 1), out_channels := Some 8, kernel_size := Some (IntV 3), stride := Some (IntV 1), padding := Some (PadStr ''same'')\<rparr>) = Some (- 1)"
      by (simp add: empty_param_def)
    from autofill_parameters [THEN conjunct2, THEN conjunct2, THEN conjunct2, THEN conjunct2, THEN conjunct2, THEN conjunct1, rule_format, OF conjI, OF run h]
    have "m = ResidualBlock_obj (ResidualBlock_init 2 8 (IntV 3) 1)"
      by (auto simp: empty_param_def store1_def)
    with run show ?thesis
      by blast
  qed
  have w_Conv2dNext: "(\<exists>m r' s'. f_parse_component ''Conv2dNext'' (ParamDict (empty_param\<lparr>in_channels := Some (- 1), out_channels := Some 2, stride := Some (IntV 1), padding := Some (PadStr ''same'')\<rparr>)) 0 (store1 [4, 2, 10, 20]) =
       (Inr (m, r'), s') \<and> m = ConvNeXtBlock_obj (ConvNeXtBlock_init 2 2 7 float_0))"
  proof -
    from run_Conv2dNext obtain m r' s' where run:
      "f_parse_component ''Conv2dNext'' (ParamDict (empty_param\<lparr>in_channels := Some (- 1), out_channels := Some 2, stride := Some (IntV 1), padding := Some (PadStr ''same'')\<rparr>)) 0 (store1 [4, 2, 10, 20]) =
         (Inr (m, r'), s')"
      by blast
    have h: "in_channels (empty_param\<lparr>in_channels := Some (- 1), out_channels := Some 2, stride := Some (IntV 1), padding := Some (PadStr ''same'')\<rparr>) = Some (- 1)"
      by (simp add: empty_param_def)
    from autofill_parameters [THEN conjunct2, THEN conjunct2, THEN conjunct2, THEN conjunct2, THEN conjunct2, THEN conjunct2, THEN conjunct1, rule_format, OF conjI, OF run h]
    have "m = ConvNeXtBlock_obj (ConvNeXtBlock_init 2 2 7 float_0)"
      by (auto simp: empty_param_def store1_def)
    with run show ?thesis
      by blast
  qed
  have w_ConvTranspose2d: "(\<exists>m r' s'. f_parse_component ''ConvTranspose2d'' (ParamDict (empty_param\<lparr>in_channels := Some (- 1), out_channels := Some 8, kernel_size := Some (ListV [2, 2]), stride := Some (ListV [2, 2])\<rparr>)) 0 (store1 [4, 2, 10, 20]) =
       (Inr (m, r'), s') \<and> m = Torch (ConvTranspose2d 2 8 (ListV [2, 2]) (ListV [2, 2])))"
  proof -
    from run_ConvTranspose2d obtain m r' s' where run:
      "f_parse_component ''ConvTranspose2d'' (ParamDict (empty_param\<lparr>in_channels := Some (- 1), out_channels := Some 8, kernel_size := Some (ListV [2, 2]), stride := Some (ListV [2, 2])\<rparr>)) 0 (store1 [4, 2, 10, 20]) =
         (Inr (m, r'), s')"
      by blast
    have h: "in_channels (empty_param\<lparr>in_channels := Some (- 1), out_channels := Some 8, kernel_size := Some (ListV [2, 2]), stride := Some (ListV [2, 2])\<rparr>) = Some (- 1)"
      by (simp add: empty_param_def)
    from autofill_parameters [THEN conjunct2, THEN conjunct2, THEN conjunct2, THEN conjunct2, THEN conjunct2, THEN conjunct2, THEN conjunct2, THEN conjunct1, rule_format, OF conjI, OF run h]
    have "m = Torch (ConvTranspose2d 2 8 (ListV [2, 2]) (ListV [2, 2]))"
      by (auto simp: empty_param_def store1_def)
    with run show ?thesis
      by blast
  qed
  have w_Linear: "(\<exists>m r' s'. f_parse_component ''Linear'' (ParamDict (empty_param\<lparr>in_features := Some (- 1), out_features := Some 7\<rparr>)) 0 (store1 [4, 10]) =
       (Inr (m, r'), s') \<and> m = Torch (Linear 10 7))"
  proof -
    from run_Linear obtain m r' s' where run:
      "f_parse_component ''Linear'' (ParamDict (empty_param\<lparr>in_features := Some (- 1), out_features := Some 7\<rparr>)) 0 (store1 [4, 10]) =
         (Inr (m, r'), s')"
      by blast
    have h: "in_features (empty_param\<lparr>in_features := Some (- 1), out_features := Some 7\<rparr>) = Some (- 1)"
      by (simp add: empty_param_def)
    from autofill_parameters [THEN conjunct2, THEN conjunct2, THEN conjunct2, THEN conjunct2, THEN conjunct2, THEN conjunct2, THEN conjunct2, THEN conjunct2, THEN conjunct1, rule_format, OF conjI, OF run h]
    have "m = Torch (Linear 10 7)"
      by (auto simp: empty_param_def store1_def)
    with run show ?thesis
      by blast
  qed
  have w_BatchNorm1d: "(\<exists>m r' s'. f_parse_component ''BatchNorm1d'' (ParamDict (empty_param\<lparr>num_features := Some (- 1)\<rparr>)) 0 (store1 [4, 10]) =
       (Inr (m, r'), s') \<and> m = Torch (BatchNorm1d 10 True))"
  proof -
    from run_BatchNorm1d obtain m r' s' where run:
      "f_parse_component ''BatchNorm1d'' (ParamDict (empty_param\<lparr>num_features := Some (- 1)\<rparr>)) 0 (store1 [4, 10]) =
         (Inr (m, r'), s')"
      by blast
    have h: "num_features (empty_param\<lparr>num_features := Some (- 1)\<rparr>) = Some (- 1)"
      by (simp add: empty_param_def)
    from autofill_parameters [THEN conjunct2, THEN conjunct2, THEN conjunct2, THEN conjunct2, THEN conjunct2, THEN conjunct2, THEN conjunct2, THEN conjunct2, THEN conjunct2, THEN conjunct1, rule_format, OF conjI, OF run h]
    have "m = Torch (BatchNorm1d 10 True)"
      by (auto simp: empty_param_def store1_def)
    with run show ?thesis
      by blast
  qed
  have w_BatchNorm1dT: "(\<exists>m r' s'. f_parse_component ''BatchNorm1dT'' (ParamDict (empty_param\<lparr>num_features := Some (- 1)\<rparr>)) 0 (store1 [4, 10, 6]) =
       (Inr (m, r'), s') \<and> m = nnBatchNorm1dT (BatchNorm1d 6 True))"
  proof -
    from run_BatchNorm1dT obtain m r' s' where run:
      "f_parse_component ''BatchNorm1dT'' (ParamDict (empty_param\<lparr>num_features := Some (- 1)\<rparr>)) 0 (store1 [4, 10, 6]) =
         (Inr (m, r'), s')"
      by blast
    have h: "num_features (empty_param\<lparr>num_features := Some (- 1)\<rparr>) = Some (- 1)"
      by (simp add: empty_param_def)
    from autofill_parameters [THEN conjunct2, THEN conjunct2, THEN conjunct2, THEN conjunct2, THEN conjunct2, THEN conjunct2, THEN conjunct2, THEN conjunct2, THEN conjunct2, THEN conjunct2, THEN conjunct1, rule_format, OF conjI, OF run h]
    have "m = nnBatchNorm1dT (BatchNorm1d 6 True)"
      by (auto simp: empty_param_def store1_def)
    with run show ?thesis
      by blast
  qed
  have w_BatchNorm2d: "(\<exists>m r' s'. f_parse_component ''BatchNorm2d'' (ParamDict (empty_param\<lparr>num_features := Some (- 1)\<rparr>)) 0 (store1 [4, 2, 10, 20]) =
       (Inr (m, r'), s') \<and> m = Torch (BatchNorm2d 2))"
  proof -
    from run_BatchNorm2d obtain m r' s' where run:
      "f_parse_component ''BatchNorm2d'' (ParamDict (empty_param\<lparr>num_features := Some (- 1)\<rparr>)) 0 (store1 [4, 2, 10, 20]) =
         (Inr (m, r'), s')"
      by blast
    have h: "num_features (empty_param\<lparr>num_features := Some (- 1)\<rparr>) = Some (- 1)"
      by (simp add: empty_param_def)
    from autofill_parameters [THEN conjunct2, THEN conjunct2, THEN conjunct2, THEN conjunct2, THEN conjunct2, THEN conjunct2, THEN conjunct2, THEN conjunct2, THEN conjunct2, THEN conjunct2, THEN conjunct2, THEN conjunct1, rule_format, OF conjI, OF run h]
    have "m = Torch (BatchNorm2d 2)"
      by (auto simp: empty_param_def store1_def)
    with run show ?thesis
      by blast
  qed
  have w_LayerNorm: "(\<exists>m r' s'. f_parse_component ''LayerNorm'' (ParamDict (empty_param\<lparr>normalized_shape := Some (IntV (- 1))\<rparr>)) 0 (store1 [4, 2, 10]) =
       (Inr (m, r'), s') \<and> m = Torch (LayerNorm (ListV [2, 10]) None))"
  proof -
    from run_LayerNorm obtain m r' s' where run:
      "f_parse_component ''LayerNorm'' (ParamDict (empty_param\<lparr>normalized_shape := Some (IntV (- 1))\<rparr>)) 0 (store1 [4, 2, 10]) =
         (Inr (m, r'), s')"
      by blast
    have h: "normalized_shape (empty_param\<lparr>normalized_shape := Some (IntV (- 1))\<rparr>) = Some (IntV (- 1))"
      by (simp add: empty_param_def)
    from autofill_parameters [THEN conjunct2, THEN conjunct2, THEN conjunct2, THEN conjunct2, THEN conjunct2, THEN conjunct2, THEN conjunct2, THEN conjunct2, THEN conjunct2, THEN conjunct2, THEN conjunct2, THEN conjunct2, rule_format, OF conjI, OF run h]
    have "m = Torch (LayerNorm (ListV [2, 10]) None)"
      by (auto simp: empty_param_def store1_def)
    with run show ?thesis
      by blast
  qed
  from w_SincNet w_Conv1d w_Conv1dTCN w_Conv2d w_Conv2dDS w_Conv2dRes w_Conv2dNext w_ConvTranspose2d w_Linear w_BatchNorm1d w_BatchNorm1dT w_BatchNorm2d w_LayerNorm
  show ?thesis
    by (intro conjI)
qed

end
